(* ===== verification/Prelude.thy ===== *)
theory Prelude
  imports Complex_Main "HOL-Library.Word" "HOL-Library.Sublist"
begin

text \<open>
  The shared vocabulary of the development. Python values are modelled as they are
  at run time: a \<open>str\<close> is a list of Unicode code points (\<open>ustr\<close>), a \<open>bytes\<close>
  object a list of 8-bit words. Source literals that are plain ASCII are written with
  \<open>asc\<close>; the Cyrillic ones as their code points. Effectful Python code runs in a
  writer-exception monad: a computation returns the list of effects it performed, in
  order, together with either the exception it raised (\<open>Inl\<close>) or its value
  (\<open>Inr\<close>); a pure computation that may raise is a plain sum \<open>'x + 'a\<close>.
\<close>

named_theorems py_simps "evaluation rules of the Python primitives of the model"

section \<open>Strings and bytes\<close>

type_synonym ustr = "nat list"
type_synonym byte = "8 word"
type_synonym bytes = "byte list"

definition asc :: "string \<Rightarrow> ustr" where
  "asc s = map of_char s"

lemma asc_Nil [simp]: "asc [] = []"
  and asc_Cons [simp]: "asc (c # s) = of_char c # asc s"
  and asc_append [simp]: "asc (s @ t) = asc s @ asc t"
  by (simp_all add: asc_def)

lemma length_asc [simp]: "length (asc s) = length s"
  by (simp add: asc_def)

text \<open>Python's \<open>needle in haystack\<close> on two strings, as an executable recursion.\<close>

fun py_substr :: "ustr \<Rightarrow> ustr \<Rightarrow> bool" where
  "py_substr n [] = (n = [])"
| "py_substr n (c # cs) = (prefix n (c # cs) \<or> py_substr n cs)"

text \<open>The executable substring test is the library's contiguous-sublist relation.\<close>

theorem py_substr_sublist: "py_substr n h \<longleftrightarrow> sublist n h"
  by (induction h) (simp_all add: sublist_Cons_right)

section \<open>Exceptions as values\<close>

definition pbind :: "'x + 'a \<Rightarrow> ('a \<Rightarrow> 'x + 'b) \<Rightarrow> 'x + 'b" where
  "pbind r f = (case r of Inl x \<Rightarrow> Inl x | Inr a \<Rightarrow> f a)"

lemma pbind_Inl [simp]: "pbind (Inl x) f = Inl x"
  and pbind_Inr [simp]: "pbind (Inr a) f = f a"
  by (simp_all add: pbind_def)

lemma pbind_eq_Inr: "pbind r f = Inr b \<longleftrightarrow> (\<exists>a. r = Inr a \<and> f a = Inr b)"
  by (cases r) simp_all

lemma sublist_append_mono: "sublist x ys \<Longrightarrow> sublist x (zs @ ys)"
  unfolding sublist_def by (metis append.assoc)

section \<open>The writer-exception monad\<close>

type_synonym ('x, 'e, 'a) wr = "'e list \<times> ('x + 'a)"

definition wr_return :: "'a \<Rightarrow> ('x, 'e, 'a) wr" where
  "wr_return a = ([], Inr a)"

definition wr_lift :: "'x + 'a \<Rightarrow> ('x, 'e, 'a) wr" where
  "wr_lift r = ([], r)"

definition wr_emit :: "'e \<Rightarrow> ('x, 'e, unit) wr" where
  "wr_emit e = ([e], Inr ())"

definition wr_bind :: "('x, 'e, 'a) wr \<Rightarrow> ('a \<Rightarrow> ('x, 'e, 'b) wr) \<Rightarrow> ('x, 'e, 'b) wr" where
  "wr_bind m f = (case snd m of
       Inl x \<Rightarrow> (fst m, Inl x)
     | Inr a \<Rightarrow> (fst m @ fst (f a), snd (f a)))"

lemma wr_bind_Inl [simp]: "wr_bind (t, Inl x) f = (t, Inl x)"
  and wr_bind_Inr [simp]: "wr_bind (t, Inr a) f = (t @ fst (f a), snd (f a))"
  by (simp_all add: wr_bind_def)

lemmas wr_unfold [py_simps] = wr_return_def wr_lift_def wr_emit_def

text \<open>The monad laws.\<close>

lemma wr_bind_return_left: "wr_bind (wr_return a) f = f a"
  by (simp add: wr_return_def)

lemma wr_bind_return_right: "wr_bind m wr_return = m"
  by (cases m) (auto simp: wr_bind_def wr_return_def split: sum.split)

lemma wr_bind_assoc: "wr_bind (wr_bind m f) g = wr_bind m (\<lambda>a. wr_bind (f a) g)"
  by (cases m) (auto simp: wr_bind_def split: sum.split)

text \<open>The effects of a sequence begin with the effects of its first step.\<close>

lemma wr_bind_effects_prefix: "prefix (fst m) (fst (wr_bind m f))"
  by (cases m) (auto simp: wr_bind_def split: sum.split)

lemma wr_bind_snd_Inl: "snd m = Inl x \<Longrightarrow> wr_bind m f = (fst m, Inl x)"
  by (cases m) simp

lemma wr_bind_snd_Inr: "snd m = Inr a \<Longrightarrow> wr_bind m f = (fst m @ fst (f a), snd (f a))"
  by (cases m) simp

text \<open>\<open>wr_returns P m\<close>: every value \<open>m\<close> returns satisfies \<open>P\<close>.\<close>

named_theorems wr_intros "rules that carry wr_returns through a program"

definition wr_returns :: "('a \<Rightarrow> bool) \<Rightarrow> ('x, 'e, 'a) wr \<Rightarrow> bool" where
  "wr_returns P m \<longleftrightarrow> (\<forall>a. snd m = Inr a \<longrightarrow> P a)"

lemma wr_returns_bind [wr_intros]: "(\<And>a. wr_returns P (f a)) \<Longrightarrow> wr_returns P (wr_bind m f)"
  by (cases m) (auto simp: wr_returns_def wr_bind_def split: sum.split)

lemma wr_returns_return [wr_intros]: "P a \<Longrightarrow> wr_returns P (wr_return a)"
  by (simp add: wr_returns_def wr_return_def)

lemma wr_returns_if [wr_intros]:
  "(c \<Longrightarrow> wr_returns P m1) \<Longrightarrow> (\<not> c \<Longrightarrow> wr_returns P m2) \<Longrightarrow> wr_returns P (if c then m1 else m2)"
  by simp

lemma wr_returns_Inr: "wr_returns P m \<Longrightarrow> snd m = Inr a \<Longrightarrow> P a"
  by (simp add: wr_returns_def)

text \<open>\<open>wr_count P m\<close>: how many effects of \<open>m\<close> satisfy \<open>P\<close>.\<close>

named_theorems count_intros "rules that bound wr_count through a program"

definition wr_count :: "('e \<Rightarrow> bool) \<Rightarrow> ('x, 'e, 'a) wr \<Rightarrow> nat" where
  "wr_count P m = length (filter P (fst m))"

lemma wr_count_bind:
  "wr_count P (wr_bind m f) =
     wr_count P m + (case snd m of Inl _ \<Rightarrow> 0 | Inr a \<Rightarrow> wr_count P (f a))"
  by (cases m) (auto simp: wr_count_def wr_bind_def split: sum.split)

lemma wr_count_bind_le [count_intros]:
  "wr_count P m = 0 \<Longrightarrow> (\<And>a. wr_count P (f a) \<le> n) \<Longrightarrow> wr_count P (wr_bind m f) \<le> n"
  by (simp add: wr_count_bind split: sum.split)

lemma wr_count_bind_zero [count_intros]:
  "wr_count P m = 0 \<Longrightarrow> (\<And>a. wr_count P (f a) = 0) \<Longrightarrow> wr_count P (wr_bind m f) = 0"
  by (simp add: wr_count_bind split: sum.split)

lemma wr_count_bind_last:
  "wr_count P m \<le> n \<Longrightarrow> (\<And>a. wr_count P (f a) = 0) \<Longrightarrow> wr_count P (wr_bind m f) \<le> n"
  by (simp add: wr_count_bind split: sum.split)

lemma wr_count_return [count_intros]: "wr_count P (wr_return a) = 0"
  and wr_count_lift [count_intros]: "wr_count P (wr_lift r) = 0"
  by (simp_all add: wr_count_def wr_return_def wr_lift_def)

lemma wr_count_return_le [count_intros]: "wr_count P (wr_return a) \<le> n"
  by (simp add: wr_count_def wr_return_def)

lemma wr_count_if_le [count_intros]:
  "(c \<Longrightarrow> wr_count P m1 \<le> n) \<Longrightarrow> (\<not> c \<Longrightarrow> wr_count P m2 \<le> n) \<Longrightarrow>
   wr_count P (if c then m1 else m2) \<le> n"
  by simp

lemma wr_count_if_zero [count_intros]:
  "(c \<Longrightarrow> wr_count P m1 = 0) \<Longrightarrow> (\<not> c \<Longrightarrow> wr_count P m2 = 0) \<Longrightarrow>
   wr_count P (if c then m1 else m2) = 0"
  by simp

lemma wr_count_zero_le: "wr_count P m = 0 \<Longrightarrow> wr_count P m \<le> n"
  by simp

section \<open>Integer helpers\<close>

text \<open>
  Python's \<open>int()\<close> of a fraction \<open>p / q\<close> (\<open>q > 0\<close>) truncates towards zero,
  unlike \<open>div\<close>, which rounds towards minus infinity.
\<close>

definition trunc_frac :: "int \<Rightarrow> int \<Rightarrow> int" where
  "trunc_frac p q = (if 0 \<le> p then p div q else - ((- p) div q))"

lemma trunc_frac_floor:
  assumes "0 < q"
  shows "trunc_frac p q =
    (if 0 \<le> p then \<lfloor>of_int p / of_int q :: rat\<rfloor> else - \<lfloor>of_int (- p) / of_int q :: rat\<rfloor>)"
  unfolding trunc_frac_def floor_divide_of_int_eq by simp

lemma trunc_frac_nonneg: "0 \<le> p \<Longrightarrow> 0 < q \<Longrightarrow> 0 \<le> trunc_frac p q"
  by (simp add: trunc_frac_def pos_imp_zdiv_nonneg_iff)

end
