(* ===== verification/PyValue.thy ===== *)
theory PyValue
  imports Prelude
begin

text \<open>
  The Python values the bot handles: everything it reads comes out of \<open>json.loads\<close>
  (the webhook update, the weather service's answer, the speech and file services'
  answers), so a value is a JSON value as Python holds it. A JSON number with a
  fraction is kept as the decimal literal \<open>PFloat m e\<close>, standing for the double
  nearest to \<open>m / 10 ^ e\<close>; for literals of at most 15 significant digits that double
  prints back as the same decimal and its arithmetic in the bot is exact (see the
  root header). A dict is the association list of the parsed object, its keys
  distinct. The operations are those the source applies to such values: subscription
  (\<open>v['k']\<close>, \<open>v[0]\<close>), membership (\<open>'k' in v\<close>), \<open>int()\<close>, comparison with an
  integer, \<open>== None\<close>, and the \<open>str()\<close> that an f-string applies to each field.
\<close>

datatype pyval =
    PNone
  | PBool bool
  | PInt int
  | PFloat int nat
  | PStr ustr
  | PList "pyval list"
  | PDict "(ustr \<times> pyval) list"

datatype exn =
    KeyError pyval
  | IndexError
  | TypeError
  | ValueError
  | AttributeError
  | JSONDecodeError
  | ConnectionError
  | UnicodeEncodeError
  | OverflowError
  | ClientError

type_synonym ('e, 'a) py = "(exn, 'e, 'a) wr"

section \<open>Subscription and membership\<close>

definition seq_index :: "'a list \<Rightarrow> int \<Rightarrow> exn + 'a" where
  "seq_index xs i =
     (if - int (length xs) \<le> i \<and> i < int (length xs)
      then Inr (xs ! nat (i mod int (length xs)))
      else Inl IndexError)"

text \<open>\<open>v[k]\<close> with a string key: a dict looks the key up, every other value raises.\<close>

definition py_get :: "pyval \<Rightarrow> ustr \<Rightarrow> exn + pyval" where
  "py_get v k = (case v of
       PDict kvs \<Rightarrow> (case map_of kvs k of None \<Rightarrow> Inl (KeyError (PStr k)) | Some x \<Rightarrow> Inr x)
     | _ \<Rightarrow> Inl TypeError)"

text \<open>\<open>v[i]\<close> with an integer index; the keys of a parsed JSON object are strings.\<close>

definition py_index :: "pyval \<Rightarrow> int \<Rightarrow> exn + pyval" where
  "py_index v i = (case v of
       PList xs \<Rightarrow> seq_index xs i
     | PStr s \<Rightarrow> pbind (seq_index s i) (\<lambda>c. Inr (PStr [c]))
     | PDict kvs \<Rightarrow> Inl (KeyError (PInt i))
     | _ \<Rightarrow> Inl TypeError)"

text \<open>\<open>k in v\<close> for a string \<open>k\<close>: dict keys, list elements, or substrings.\<close>

definition py_in :: "ustr \<Rightarrow> pyval \<Rightarrow> exn + bool" where
  "py_in k v = (case v of
       PDict kvs \<Rightarrow> Inr (k \<in> set (map fst kvs))
     | PList xs \<Rightarrow> Inr (PStr k \<in> set xs)
     | PStr s \<Rightarrow> Inr (py_substr k s)
     | _ \<Rightarrow> Inl TypeError)"

lemma py_get_PDict [simp]:
  "py_get (PDict kvs) k = (case map_of kvs k of None \<Rightarrow> Inl (KeyError (PStr k)) | Some x \<Rightarrow> Inr x)"
  by (simp add: py_get_def)

lemma py_in_PDict [simp]: "py_in k (PDict kvs) = Inr (k \<in> set (map fst kvs))"
  and py_in_PStr [simp]: "py_in k (PStr s) = Inr (py_substr k s)"
  by (simp_all add: py_in_def)

lemma py_get_Inr_PDict: "py_get v k = Inr x \<Longrightarrow> \<exists>kvs. v = PDict kvs \<and> map_of kvs k = Some x"
  by (auto simp: py_get_def split: pyval.splits option.splits)

lemma py_in_PDict_get:
  "py_in k (PDict kvs) = Inr True \<longleftrightarrow> (\<exists>x. py_get (PDict kvs) k = Inr x)"
proof -
  have "k \<in> set (map fst kvs) \<longleftrightarrow> map_of kvs k \<noteq> None"
    by (simp add: map_of_eq_None_iff)
  then show ?thesis by (auto split: option.split)
qed

text \<open>A chain of subscriptions \<open>v[s1][s2]...\<close>, evaluated left to right.\<close>

datatype sel = Key ustr | Idx int

fun py_path :: "pyval \<Rightarrow> sel list \<Rightarrow> exn + pyval" where
  "py_path v [] = Inr v"
| "py_path v (Key k # ss) = pbind (py_get v k) (\<lambda>x. py_path x ss)"
| "py_path v (Idx i # ss) = pbind (py_index v i) (\<lambda>x. py_path x ss)"

section \<open>Numbers\<close>

text \<open>A number as an exact fraction \<open>(p, q)\<close>, \<open>q > 0\<close>; \<open>bool\<close> is an \<open>int\<close> in Python.\<close>

definition py_num :: "pyval \<Rightarrow> (int \<times> int) option" where
  "py_num v = (case v of
       PBool b \<Rightarrow> Some (if b then 1 else 0, 1)
     | PInt i \<Rightarrow> Some (i, 1)
     | PFloat m e \<Rightarrow> Some (m, 10 ^ e)
     | _ \<Rightarrow> None)"

lemma py_num_pos: "py_num v = Some (p, q) \<Longrightarrow> 0 < q"
  by (auto simp: py_num_def split: pyval.splits if_splits)

text \<open>\<open>v > n\<close> for an integer literal \<open>n\<close>; a non-number raises TypeError.\<close>

definition py_gt_int :: "pyval \<Rightarrow> int \<Rightarrow> exn + bool" where
  "py_gt_int v n = (case py_num v of None \<Rightarrow> Inl TypeError | Some (p, q) \<Rightarrow> Inr (n * q < p))"

section \<open>Decimal text\<close>

fun nat_str :: "nat \<Rightarrow> ustr" where
  "nat_str n = (if n < 10 then [48 + n] else nat_str (n div 10) @ [48 + n mod 10])"

declare nat_str.simps [simp del]

definition int_str :: "int \<Rightarrow> ustr" where
  "int_str i = (if i < 0 then 45 # nat_str (nat (- i)) else nat_str (nat i))"

definition is_digit :: "nat \<Rightarrow> bool" where
  "is_digit c \<longleftrightarrow> 48 \<le> c \<and> c < 58"

definition digits_val :: "ustr \<Rightarrow> nat" where
  "digits_val ds = foldl (\<lambda>a d. 10 * a + (d - 48)) 0 ds"

text \<open>
  \<open>int(s)\<close> on a string: surrounding ASCII white space, an optional sign, then ASCII
  digits with single underscores between them. Python also accepts the digits of other
  scripts, which no input of the bot carries.
\<close>

definition py_space :: "nat \<Rightarrow> bool" where
  "py_space c \<longleftrightarrow> c \<in> {9, 10, 11, 12, 13, 32}"

definition py_strip :: "ustr \<Rightarrow> ustr" where
  "py_strip s = rev (dropWhile py_space (rev (dropWhile py_space s)))"

definition digit_groups_ok :: "ustr \<Rightarrow> bool" where
  "digit_groups_ok ds \<longleftrightarrow> ds \<noteq> [] \<and> hd ds \<noteq> 95 \<and> last ds \<noteq> 95 \<and> \<not> py_substr [95, 95] ds
     \<and> (\<forall>c \<in> set ds. is_digit c \<or> c = 95)"

definition parse_int :: "ustr \<Rightarrow> int option" where
  "parse_int s0 = (let s = py_strip s0 in
     case s of
       [] \<Rightarrow> None
     | c # ds \<Rightarrow>
         if c = 45 \<or> c = 43 then
           (if digit_groups_ok ds then Some ((if c = 45 then -1 else 1) * int (digits_val (filter is_digit ds)))
            else None)
         else if digit_groups_ok s then Some (int (digits_val (filter is_digit s))) else None)"

text \<open>\<open>int(v)\<close>: numbers truncate towards zero, strings are parsed.\<close>

definition py_int :: "pyval \<Rightarrow> exn + int" where
  "py_int v = (case v of
       PStr s \<Rightarrow> (case parse_int s of None \<Rightarrow> Inl ValueError | Some i \<Rightarrow> Inr i)
     | _ \<Rightarrow> (case py_num v of None \<Rightarrow> Inl TypeError | Some (p, q) \<Rightarrow> Inr (trunc_frac p q)))"

section \<open>repr and str\<close>

text \<open>
  \<open>repr\<close> of a float: the shortest decimal that reads back as the same double, in
  positional notation for decimal exponents from -4 to 15 and in scientific notation
  otherwise. For the decimal literal \<open>m / 10 ^ e\<close> this is the literal with its trailing
  zeros removed.
\<close>

fun strip_zeros :: "int \<Rightarrow> nat \<Rightarrow> int \<times> nat" where
  "strip_zeros m 0 = (m, 0)"
| "strip_zeros m (Suc e) = (if m mod 10 = 0 then strip_zeros (m div 10) e else (m, Suc e))"

definition rstrip0 :: "ustr \<Rightarrow> ustr" where
  "rstrip0 ds = rev (dropWhile (\<lambda>c. c = 48) (rev ds))"

definition pad2 :: "nat \<Rightarrow> ustr" where
  "pad2 n = (if n < 10 then [48, 48 + n] else nat_str n)"

definition positional :: "ustr \<Rightarrow> nat \<Rightarrow> ustr" where
  "positional ds e =
     (if e = 0 then ds @ asc ''.0''
      else if e < length ds then take (length ds - e) ds @ [46] @ drop (length ds - e) ds
      else asc ''0.'' @ replicate (e - length ds) 48 @ ds)"

definition scientific :: "ustr \<Rightarrow> int \<Rightarrow> ustr" where
  "scientific ds x =
     [hd ds] @ (if rstrip0 (tl ds) = [] then [] else 46 # rstrip0 (tl ds))
       @ [101] @ (if x < 0 then [45] else [43]) @ pad2 (nat \<bar>x\<bar>)"

definition float_repr :: "int \<Rightarrow> nat \<Rightarrow> ustr" where
  "float_repr m0 e0 =
     (case strip_zeros m0 e0 of (m, e) \<Rightarrow>
        let ds = nat_str (nat \<bar>m\<bar>); x = int (length ds) - 1 - int e
        in (if m < 0 then [45] else []) @
           (if -4 \<le> x \<and> x < 16 then positional ds e else scientific ds x))"

text \<open>
  \<open>repr\<close> of a string: single quotes unless the text has a single quote and no double
  one; backslash, the quote, tab, newline and carriage return escaped; the other
  control characters, DEL, the C1 controls, NO-BREAK SPACE and SOFT HYPHEN as \<open>\xNN\<close>.
  Code points above U+00FF are kept, as Python keeps every printable one.
\<close>

definition hexd :: "nat \<Rightarrow> nat" where
  "hexd d = (if d < 10 then 48 + d else 87 + d)"

definition repr_char :: "nat \<Rightarrow> nat \<Rightarrow> ustr" where
  "repr_char q c =
     (if c = q \<or> c = 92 then [92, c]
      else if c = 9 then [92, 116]
      else if c = 10 then [92, 110]
      else if c = 13 then [92, 114]
      else if c < 32 \<or> (127 \<le> c \<and> c \<le> 160) \<or> c = 173 then [92, 120, hexd (c div 16), hexd (c mod 16)]
      else [c])"

definition str_repr :: "ustr \<Rightarrow> ustr" where
  "str_repr s = (let q = (if 39 \<in> set s \<and> 34 \<notin> set s then 34 else 39)
                 in q # concat (map (repr_char q) s) @ [q])"

fun join_comma :: "ustr list \<Rightarrow> ustr" where
  "join_comma [] = []"
| "join_comma [x] = x"
| "join_comma (x # xs) = x @ asc '', '' @ join_comma xs"

fun py_repr :: "pyval \<Rightarrow> ustr" where
  "py_repr PNone = asc ''None''"
| "py_repr (PBool b) = (if b then asc ''True'' else asc ''False'')"
| "py_repr (PInt i) = int_str i"
| "py_repr (PFloat m e) = float_repr m e"
| "py_repr (PStr s) = str_repr s"
| "py_repr (PList xs) = [91] @ join_comma (map py_repr xs) @ [93]"
| "py_repr (PDict kvs) =
     [123] @ join_comma (map (\<lambda>(k, v). str_repr k @ asc '': '' @ py_repr v) kvs) @ [125]"

text \<open>\<open>str(v)\<close>, which is what \<open>{v}\<close> in an f-string inserts.\<close>

definition py_str :: "pyval \<Rightarrow> ustr" where
  "py_str v = (case v of PStr s \<Rightarrow> s | _ \<Rightarrow> py_repr v)"

lemma py_str_PStr [simp]: "py_str (PStr s) = s"
  by (simp add: py_str_def)

end
