(* ===== verification/LocalTime.thy ===== *)
theory LocalTime
  imports PyValue
begin

text \<open>
  \<open>convertUnixToTime\<close> (src/tgbot_weather/spr23-21-tgbot-weather.py, lines 32-39):
  a Unix timestamp as Moscow wall-clock \<open>HH:MM\<close>. The source calls
  \<open>datetime.fromtimestamp(unix)\<close>, which gives the naive wall clock of the host's own
  time zone, labels that wall clock as UTC with \<open>replace(tzinfo=utc)\<close>, and converts
  it to Europe/Moscow. The two zones are the environment \<open>tz_env\<close>: the UTC offset,
  in seconds, of the host zone and of Moscow at an instant (the tz database). The
  result is right only when the host zone is UTC; the lemmas show the shift otherwise.
  \<open>fromtimestamp\<close> rounds a fractional timestamp to microseconds, half to even; it
  raises OverflowError beyond the 64-bit \<open>time_t\<close> and ValueError outside the
  years 1 to 9999, and \<open>astimezone\<close> raises OverflowError when the converted time
  leaves that range.
\<close>

record tz_env =
  host_utcoffset :: "int \<Rightarrow> int"
  moscow_utcoffset :: "int \<Rightarrow> int"

definition round_half_even :: "int \<Rightarrow> int \<Rightarrow> int" where
  "round_half_even p q =
     (let n = p div q; r = p mod q
      in if 2 * r < q then n else if q < 2 * r then n + 1 else if even n then n else n + 1)"

text \<open>Whole seconds of \<open>fromtimestamp(p / q)\<close>: microseconds rounded, then floored.\<close>

definition timestamp_secs :: "int \<Rightarrow> int \<Rightarrow> int" where
  "timestamp_secs p q = round_half_even (p * 1000000) q div 1000000"

definition dt_min :: int where
  "dt_min = -62135596800"

definition dt_max :: int where
  "dt_max = 253402300799"

text \<open>\<open>strftime('%H:%M')\<close> of a wall clock given as seconds since 1970-01-01 00:00.\<close>

definition hhmm :: "int \<Rightarrow> ustr" where
  "hhmm w = pad2 (nat (w mod 86400 div 3600)) @ [58] @ pad2 (nat (w mod 3600 div 60))"

definition convertUnixToTime :: "tz_env \<Rightarrow> pyval \<Rightarrow> exn + ustr" where
  "convertUnixToTime tz unix =
     (case py_num unix of
        None \<Rightarrow> Inl TypeError
      | Some (p, q) \<Rightarrow>
          let t = timestamp_secs p q in
          if 2 ^ 63 \<le> \<bar>t\<bar> then Inl OverflowError else
          let date_time = t + host_utcoffset tz t in
          if date_time < dt_min \<or> dt_max < date_time then Inl ValueError else
          let moskowtime = date_time + moscow_utcoffset tz date_time in
          if moskowtime < dt_min \<or> dt_max < moskowtime then Inl OverflowError
          else Inr (hhmm moskowtime))"

text \<open>
  The zones of the deployed function: Yandex Cloud Functions run in UTC, and Moscow has
  kept UTC+3 without daylight saving since 26 October 2014.
\<close>

definition tz_cloud :: tz_env where
  "tz_cloud = \<lparr>host_utcoffset = (\<lambda>_. 0), moscow_utcoffset = (\<lambda>_. 10800)\<rparr>"

text \<open>Reading \<open>HH:MM\<close> back as minutes of the day.\<close>

definition parse_hhmm :: "ustr \<Rightarrow> int option" where
  "parse_hhmm s = (case s of
       [h1, h2, c, m1, m2] \<Rightarrow>
         if c = 58 \<and> list_all is_digit [h1, h2, m1, m2]
         then Some (int ((10 * (h1 - 48) + (h2 - 48)) * 60 + 10 * (m1 - 48) + (m2 - 48)))
         else None
     | _ \<Rightarrow> None)"

subsection \<open>Lemmas\<close>

lemma nat_str_two_digits:
  assumes "10 \<le> n" "n < 100"
  shows "nat_str n = [48 + n div 10, 48 + n mod 10]"
proof -
  have "n div 10 < 10" using assms by simp
  then have "nat_str (n div 10) = [48 + n div 10]"
    by (simp add: nat_str.simps [of "n div 10"])
  with assms show ?thesis
    by (simp add: nat_str.simps [of n])
qed

lemma pad2_digits:
  assumes "n < 100"
  shows "pad2 n = [48 + n div 10, 48 + n mod 10]"
  using assms by (simp add: pad2_def nat_str_two_digits)

lemma hhmm_fields:
  "hhmm w = [48 + nat (w mod 86400 div 3600) div 10, 48 + nat (w mod 86400 div 3600) mod 10, 58,
             48 + nat (w mod 3600 div 60) div 10, 48 + nat (w mod 3600 div 60) mod 10]"
proof -
  have "w mod 86400 div 3600 < 24" by simp
  moreover have "w mod 3600 div 60 < 60" by simp
  ultimately have "nat (w mod 86400 div 3600) < 100" "nat (w mod 3600 div 60) < 100"
    by (simp_all add: nat_less_iff)
  then show ?thesis by (simp add: hhmm_def pad2_digits)
qed

lemma convertUnixToTime_Inr_hhmm: "convertUnixToTime tze u = Inr s \<Longrightarrow> \<exists>w. s = hhmm w"
  by (auto simp: convertUnixToTime_def Let_def split: option.splits prod.splits if_splits)

lemma mod_3600_div_60: "(a::int) mod 3600 div 60 = a div 60 mod 60"
proof -
  have "a mod (60 * 60) = 60 * (a div 60 mod 60) + a mod 60"
    by (rule zmod_zmult2_eq) simp
  then show ?thesis by simp
qed

lemma div_60_split: "(a::int) div 60 = a div 3600 * 60 + a mod 3600 div 60"
proof -
  have "a div 3600 = a div 60 div 60"
    using zdiv_zmult2_eq [of 60 a 60] by simp
  then show ?thesis using mod_3600_div_60 [of a] by simp
qed

lemma parse_hhmm_digits:
  assumes "h < 24" "m < 60"
  shows "parse_hhmm [48 + h div 10, 48 + h mod 10, 58, 48 + m div 10, 48 + m mod 10]
           = Some (int (h * 60 + m))"
proof -
  have "h div 10 < 10" "m div 10 < 10" using assms by simp_all
  moreover have "10 * (h div 10) + h mod 10 = h" "10 * (m div 10) + m mod 10 = m"
    by simp_all
  ultimately show ?thesis
    by (simp add: parse_hhmm_def is_digit_def)
qed

text \<open>C16: the output is five characters \<open>HH:MM\<close> and reads back as the minute of the
  day of the wall clock it prints.\<close>

theorem hhmm_roundtrip:
  "length (hhmm w) = 5 \<and> parse_hhmm (hhmm w) = Some (w mod 86400 div 60)"
proof -
  define h where "h = nat (w mod 86400 div 3600)"
  define m where "m = nat (w mod 3600 div 60)"
  have h: "h < 24" and m: "m < 60"
    by (simp_all add: h_def m_def nat_less_iff)
  have fields: "hhmm w = [48 + h div 10, 48 + h mod 10, 58, 48 + m div 10, 48 + m mod 10]"
    by (simp add: hhmm_fields h_def m_def)
  have "w mod 86400 mod 3600 = w mod 3600"
    by (simp add: mod_mod_cancel)
  then have "w mod 86400 div 60 = int (h * 60 + m)"
    using div_60_split [of "w mod 86400"] by (simp add: h_def m_def pos_imp_zdiv_nonneg_iff)
  with h m fields show ?thesis
    by (simp add: parse_hhmm_digits)
qed

lemma timestamp_secs_int [simp]: "timestamp_secs t 1 = t"
  by (simp add: timestamp_secs_def round_half_even_def)

text \<open>C15: on the deployed zones an integer timestamp in range is printed as the Moscow
  wall clock, UTC+3.\<close>

theorem convertUnixToTime_cloud:
  assumes "dt_min \<le> t" "t + 10800 \<le> dt_max"
  shows "convertUnixToTime tz_cloud (PInt t) = Inr (hhmm (t + 10800))"
proof -
  have "\<bar>t\<bar> < 2 ^ 63" using assms unfolding dt_min_def dt_max_def by (simp add: abs_if)
  with assms show ?thesis
    by (simp add: convertUnixToTime_def tz_cloud_def py_num_def)
qed

theorem convertUnixToTime_cloud_witness:
  "dt_min \<le> 1700000000 \<and> 1700000000 + 10800 \<le> dt_max
   \<and> convertUnixToTime tz_cloud (PInt 1700000000) = Inr (hhmm (1700000000 + 10800))"
proof -
  have h: "dt_min \<le> 1700000000" "1700000000 + 10800 \<le> dt_max"
    by (simp_all add: dt_min_def dt_max_def)
  show ?thesis using convertUnixToTime_cloud [OF h] h by simp
qed

text \<open>C14: on a host whose zone is \<open>h\<close> seconds east of UTC the printed time is that of
  the instant \<open>h\<close> seconds later: \<open>fromtimestamp\<close> returns local time and
  \<open>replace(tzinfo=utc)\<close> mislabels it.\<close>

theorem convertUnixToTime_host_shift:
  assumes "\<bar>t\<bar> < 2 ^ 63" "\<bar>t + h\<bar> < 2 ^ 63"
  shows "convertUnixToTime (tz\<lparr>host_utcoffset := (\<lambda>_. h)\<rparr>) (PInt t) =
         convertUnixToTime (tz\<lparr>host_utcoffset := (\<lambda>_. 0)\<rparr>) (PInt (t + h))"
  using assms by (simp add: convertUnixToTime_def py_num_def Let_def)

theorem convertUnixToTime_host_shift_witness:
  "\<bar>0::int\<bar> < 2 ^ 63 \<and> \<bar>0 + 18000::int\<bar> < 2 ^ 63
   \<and> convertUnixToTime (tz_cloud\<lparr>host_utcoffset := (\<lambda>_. 18000)\<rparr>) (PInt 0) =
      convertUnixToTime (tz_cloud\<lparr>host_utcoffset := (\<lambda>_. 0)\<rparr>) (PInt (0 + 18000))
   \<and> convertUnixToTime (tz_cloud\<lparr>host_utcoffset := (\<lambda>_. 18000)\<rparr>) (PInt 0) = Inr (asc ''08:00'')
   \<and> convertUnixToTime tz_cloud (PInt 0) = Inr (asc ''03:00'')"
proof -
  have h: "\<bar>0::int\<bar> < 2 ^ 63" "\<bar>0 + 18000::int\<bar> < 2 ^ 63" by simp_all
  have e1: "convertUnixToTime (tz_cloud\<lparr>host_utcoffset := (\<lambda>_. 18000)\<rparr>) (PInt 0) = Inr (asc ''08:00'')"
    by (simp add: convertUnixToTime_def tz_cloud_def py_num_def dt_min_def dt_max_def
        hhmm_def pad2_def nat_str.simps)
  have e2: "convertUnixToTime tz_cloud (PInt 0) = Inr (asc ''03:00'')"
    by (simp add: convertUnixToTime_def tz_cloud_def py_num_def dt_min_def dt_max_def
        hhmm_def pad2_def nat_str.simps)
  show ?thesis using convertUnixToTime_host_shift [OF h, of tz_cloud] h e1 e2 by simp
qed

end
