(* ===== verification/Services.thy ===== *)
theory Services
  imports PyValue LocalTime
begin

text \<open>
  The bot's interface to the outside world (src/tgbot_weather/spr23-21-tgbot-weather.py,
  lines 10-99). Every call the source makes through \<open>requests\<close> is an effect
  \<open>Http req\<close>, recorded in order; its answer comes from the \<open>world\<close>, which gives
  for each request either a response or nothing (\<open>requests\<close> raises, modelled as
  ConnectionError). The upload through boto3 is the effect \<open>Put_Object\<close>, answered by
  the world with success or a ClientError. The world also holds \<open>json.loads\<close> on the
  webhook body and the time zones of \<open>LocalTime\<close>. The module's globals are the
  record \<open>config\<close>, read once from the environment by \<open>module_init\<close>.
\<close>

section \<open>Configuration (lines 11-24)\<close>

record config =
  telegram_bot_token :: "ustr option"
  api_key :: ustr
  api_key_voice :: ustr
  aws_access_key_id :: "ustr option"
  aws_secret_access_key :: "ustr option"

definition environ_item :: "(ustr \<rightharpoonup> ustr) \<Rightarrow> ustr \<Rightarrow> exn + ustr" where
  "environ_item environ k = (case environ k of None \<Rightarrow> Inl (KeyError (PStr k)) | Some v \<Rightarrow> Inr v)"

definition module_init :: "(ustr \<rightharpoonup> ustr) \<Rightarrow> exn + config" where
  "module_init environ =
     pbind (environ_item environ (asc ''API_KEY'')) (\<lambda>k.
     pbind (environ_item environ (asc ''API_KEY_VOICE'')) (\<lambda>kv.
     Inr \<lparr>telegram_bot_token = environ (asc ''TELEGRAM_BOT_TOKEN''), api_key = k, api_key_voice = kv,
          aws_access_key_id = environ (asc ''AWS_ACCESS_KEY_ID''),
          aws_secret_access_key = environ (asc ''AWS_SECRET_ACCESS_KEY'')\<rparr>))"

definition FUNC_RESPONSE :: pyval where
  "FUNC_RESPONSE = PDict [(asc ''statusCode'', PInt 200), (asc ''body'', PStr [])]"

definition opt_pyval :: "ustr option \<Rightarrow> pyval" where
  "opt_pyval x = (case x of None \<Rightarrow> PNone | Some s \<Rightarrow> PStr s)"

definition AUTH_HEADER :: "config \<Rightarrow> ustr" where
  "AUTH_HEADER cfg = asc ''Api-Key '' @ api_key cfg"

definition AUTH_HEADER_VOICE :: "config \<Rightarrow> ustr" where
  "AUTH_HEADER_VOICE cfg = asc ''Api-Key '' @ api_key_voice cfg"

definition TELEGRAM_API_URL :: "config \<Rightarrow> ustr" where
  "TELEGRAM_API_URL cfg = asc ''https://api.telegram.org/bot'' @ py_str (opt_pyval (telegram_bot_token cfg))"

section \<open>Requests, responses and the world\<close>

datatype http_body =
    No_Body
  | Json_Body pyval
  | Raw_Data bytes
  | Form_Data "(ustr \<times> bytes) list"

datatype http_request =
    Http_Get ustr "(ustr \<times> pyval) list"
  | Http_Post ustr "(ustr \<times> ustr) list" http_body

record http_response =
  status_code :: int
  content :: bytes
  resp_text :: ustr
  json :: "pyval option"

datatype effect =
    Http http_request
  | Put_Object ustr ustr ustr

record world =
  http :: "http_request \<Rightarrow> http_response option"
  json_loads :: "ustr \<Rightarrow> pyval option"
  s3_put_ok :: "ustr \<Rightarrow> ustr \<Rightarrow> ustr \<Rightarrow> bool"
  tz :: tz_env

definition http_call :: "world \<Rightarrow> http_request \<Rightarrow> (effect, http_response) py" where
  "http_call w req = ([Http req], case http w req of None \<Rightarrow> Inl ConnectionError | Some r \<Rightarrow> Inr r)"

text \<open>\<open>Response.ok\<close>: \<open>raise_for_status\<close> raises for the codes 400 to 599.\<close>

definition resp_ok :: "http_response \<Rightarrow> bool" where
  "resp_ok r \<longleftrightarrow> \<not> (400 \<le> status_code r \<and> status_code r < 600)"

definition resp_json :: "http_response \<Rightarrow> exn + pyval" where
  "resp_json r = (case json r of None \<Rightarrow> Inl JSONDecodeError | Some v \<Rightarrow> Inr v)"

text \<open>\<open>json.loads(event['body'])\<close>: a string is parsed, any other value is a TypeError.\<close>

definition loads :: "world \<Rightarrow> pyval \<Rightarrow> exn + pyval" where
  "loads w v = (case v of
       PStr s \<Rightarrow> (case json_loads w s of None \<Rightarrow> Inl JSONDecodeError | Some u \<Rightarrow> Inr u)
     | _ \<Rightarrow> Inl TypeError)"

section \<open>The weather service (lines 42-65)\<close>

definition owm_url :: ustr where
  "owm_url = asc ''http://api.openweathermap.org/data/2.5/weather''"

definition owm_token :: ustr where
  "owm_token = asc ''890dbe39dd1ea4041d77acb119367474''"

definition owm_answer :: "http_response \<Rightarrow> exn + pyval" where
  "owm_answer response = (if status_code response = 200 then resp_json response else Inr PNone)"

definition owm_query_request :: "pyval \<Rightarrow> http_request" where
  "owm_query_request city_name = Http_Get owm_url
     [(asc ''q'', city_name), (asc ''appid'', PStr owm_token), (asc ''lang'', PStr (asc ''ru'')),
      (asc ''units'', PStr (asc ''metric''))]"

definition get_weather_from_text :: "world \<Rightarrow> pyval \<Rightarrow> (effect, pyval) py" where
  "get_weather_from_text w city_name =
     wr_bind (http_call w (owm_query_request city_name)) (\<lambda>response. wr_lift (owm_answer response))"

definition owm_location_request :: "pyval \<Rightarrow> pyval \<Rightarrow> http_request" where
  "owm_location_request lat lon = Http_Get owm_url
     [(asc ''lat'', lat), (asc ''lon'', lon), (asc ''appid'', PStr owm_token),
      (asc ''lang'', PStr (asc ''ru'')), (asc ''units'', PStr (asc ''metric''))]"

definition get_weather_from_location :: "world \<Rightarrow> pyval \<Rightarrow> (effect, pyval) py" where
  "get_weather_from_location w location =
     wr_bind (wr_lift (py_get location (asc ''latitude''))) (\<lambda>lat.
     wr_bind (wr_lift (py_get location (asc ''longitude''))) (\<lambda>lon.
     wr_bind (http_call w (owm_location_request lat lon)) (\<lambda>response. wr_lift (owm_answer response))))"

section \<open>The Telegram Bot API (lines 67-99)\<close>

definition get_file :: "config \<Rightarrow> world \<Rightarrow> pyval \<Rightarrow> (effect, pyval) py" where
  "get_file cfg w file_id =
     wr_bind (http_call w (Http_Post (TELEGRAM_API_URL cfg @ asc ''/getFile'') []
        (Json_Body (PDict [(asc ''file_id'', file_id)]))))
       (\<lambda>resp. wr_lift (pbind (resp_json resp) (\<lambda>j. py_get j (asc ''result''))))"

text \<open>The request \<open>send_message\<close> builds, or the KeyError of a missing field.\<close>

definition send_message_request :: "config \<Rightarrow> ustr \<Rightarrow> pyval \<Rightarrow> exn + http_request" where
  "send_message_request cfg txt message =
     pbind (py_get message (asc ''message_id'')) (\<lambda>message_id.
     pbind (pbind (py_get message (asc ''chat'')) (\<lambda>chat. py_get chat (asc ''id''))) (\<lambda>chat_id.
     Inr (Http_Post (TELEGRAM_API_URL cfg @ asc ''/sendMessage'') []
       (Json_Body (PDict [(asc ''chat_id'', chat_id), (asc ''text'', PStr txt),
                          (asc ''reply_to_message_id'', message_id)])))))"

definition send_message :: "config \<Rightarrow> world \<Rightarrow> ustr \<Rightarrow> pyval \<Rightarrow> (effect, unit) py" where
  "send_message cfg w txt message =
     wr_bind (wr_lift (send_message_request cfg txt message)) (\<lambda>req.
     wr_bind (http_call w req) (\<lambda>_. wr_return ()))"

definition storage_public_url :: ustr where
  "storage_public_url = asc ''https://storage.yandexcloud.net/itiscl-spr23-21-public/''"

definition send_voice_request :: "config \<Rightarrow> ustr \<Rightarrow> pyval \<Rightarrow> exn + http_request" where
  "send_voice_request cfg voice_file message =
     pbind (py_get message (asc ''message_id'')) (\<lambda>message_id.
     pbind (pbind (py_get message (asc ''chat'')) (\<lambda>chat. py_get chat (asc ''id''))) (\<lambda>chat_id.
     Inr (Http_Post (TELEGRAM_API_URL cfg @ asc ''/sendVoice'') []
       (Json_Body (PDict [(asc ''chat_id'', chat_id), (asc ''voice'', PStr (storage_public_url @ voice_file)),
                          (asc ''reply_to_message_id'', message_id)])))))"

definition send_voice :: "config \<Rightarrow> world \<Rightarrow> ustr \<Rightarrow> pyval \<Rightarrow> (effect, unit) py" where
  "send_voice cfg w voice_file message =
     wr_bind (wr_lift (send_voice_request cfg voice_file message)) (\<lambda>req.
     wr_bind (http_call w req) (\<lambda>_. wr_return ()))"

section \<open>Object storage (lines 198-210)\<close>

definition put_object :: "world \<Rightarrow> ustr \<Rightarrow> ustr \<Rightarrow> ustr \<Rightarrow> (effect, unit) py" where
  "put_object w bucket key body =
     ([Put_Object bucket key body], if s3_put_ok w bucket key body then Inr () else Inl ClientError)"

text \<open>
  \<open>tts_resp.text.decode('utf-8')\<close>: \<open>Response.text\<close> is a \<open>str\<close>, and a Python 3
  \<open>str\<close> has no \<open>decode\<close> method, so the attribute lookup raises AttributeError
  whatever the text is.
\<close>

definition str_decode :: "ustr \<Rightarrow> exn + ustr" where
  "str_decode s = Inl AttributeError"

text \<open>A reply to the user: a sendMessage or sendVoice request.\<close>

definition is_reply :: "config \<Rightarrow> effect \<Rightarrow> bool" where
  "is_reply cfg e = (case e of
       Http (Http_Post u _ _) \<Rightarrow>
         u = TELEGRAM_API_URL cfg @ asc ''/sendMessage'' \<or> u = TELEGRAM_API_URL cfg @ asc ''/sendVoice''
     | _ \<Rightarrow> False)"

subsection \<open>Lemmas\<close>

lemma http_call_effects [simp]: "fst (http_call w req) = [Http req]"
  by (simp add: http_call_def)

lemma http_call_Inr: "http w req = Some r \<Longrightarrow> http_call w req = ([Http req], Inr r)"
  by (simp add: http_call_def)

lemma http_call_None: "http w req = None \<Longrightarrow> http_call w req = ([Http req], Inl ConnectionError)"
  by (simp add: http_call_def)

lemma send_message_Inr:
  "send_message_request cfg txt m = Inr req \<Longrightarrow>
   send_message cfg w txt m = ([Http req], case http w req of None \<Rightarrow> Inl ConnectionError | Some r \<Rightarrow> Inr ())"
  by (simp add: send_message_def wr_lift_def wr_return_def http_call_def split: option.split)

lemma send_message_Inl:
  "send_message_request cfg txt m = Inl x \<Longrightarrow> send_message cfg w txt m = ([], Inl x)"
  by (simp add: send_message_def wr_lift_def)

lemma send_voice_Inr:
  "send_voice_request cfg f m = Inr req \<Longrightarrow>
   send_voice cfg w f m = ([Http req], case http w req of None \<Rightarrow> Inl ConnectionError | Some r \<Rightarrow> Inr ())"
  by (simp add: send_voice_def wr_lift_def wr_return_def http_call_def split: option.split)

lemma send_voice_Inl:
  "send_voice_request cfg f m = Inl x \<Longrightarrow> send_voice cfg w f m = ([], Inl x)"
  by (simp add: send_voice_def wr_lift_def)

lemma wr_count_http_call:
  "wr_count P (http_call w req) = (if P (Http req) then 1 else 0)"
  by (simp add: wr_count_def http_call_def)

lemma not_reply_get [simp]: "\<not> is_reply cfg (Http (Http_Get u ps))"
  and not_reply_put [simp]: "\<not> is_reply cfg (Put_Object b k x)"
  by (simp_all add: is_reply_def)

lemma get_weather_from_text_quiet [count_intros]: "wr_count (is_reply cfg) (get_weather_from_text w c) = 0"
  unfolding get_weather_from_text_def owm_query_request_def
  by (intro count_intros) (simp add: wr_count_http_call)

lemma get_weather_from_location_quiet [count_intros]:
  "wr_count (is_reply cfg) (get_weather_from_location w l) = 0"
  unfolding get_weather_from_location_def owm_location_request_def
  by (intro count_intros) (simp add: wr_count_http_call)

lemma get_file_quiet [count_intros]: "wr_count (is_reply cfg) (get_file cfg w f) = 0"
  unfolding get_file_def by (intro count_intros) (simp add: wr_count_http_call is_reply_def)

lemma put_object_quiet [count_intros]: "wr_count (is_reply cfg) (put_object w b k x) = 0"
  by (simp add: put_object_def wr_count_def)

lemma send_message_one [count_intros]: "wr_count (is_reply cfg) (send_message cfg w t m) \<le> 1"
  unfolding send_message_def
proof (rule wr_count_bind_le [OF wr_count_lift])
  fix req
  show "wr_count (is_reply cfg) (wr_bind (http_call w req) (\<lambda>_. wr_return ())) \<le> 1"
    by (rule wr_count_bind_last) (simp_all add: wr_count_http_call wr_count_return)
qed

lemma send_voice_one [count_intros]: "wr_count (is_reply cfg) (send_voice cfg w t m) \<le> 1"
  unfolding send_voice_def
proof (rule wr_count_bind_le [OF wr_count_lift])
  fix req
  show "wr_count (is_reply cfg) (wr_bind (http_call w req) (\<lambda>_. wr_return ())) \<le> 1"
    by (rule wr_count_bind_last) (simp_all add: wr_count_http_call wr_count_return)
qed

end
