(* ===== verification/Compass.thy ===== *)
theory Compass
  imports PyValue
begin

text \<open>
  \<open>degToCompass\<close> (src/tgbot_weather/spr23-21-tgbot-weather.py, lines 26-29): the
  wind direction in degrees as one of sixteen Russian compass labels. The labels are
  the source's list \<open>arr\<close>, written as code points (\<open>[1057]\<close> is the Cyrillic
  S of \<open>sever\<close>, north; 1042 is V, east; 1070 is Yu, south; 1047 is Z, west).
  The source divides by 11.25 and keeps \<open>val % 8\<close>, where the sixteen sectors of
  22.5 degrees need \<open>/ 22.5\<close> and \<open>% 16\<close>: the lemmas show which labels it can
  return and that it repeats every 90 degrees. The division is computed exactly here;
  the header says for which inputs that agrees with Python's double division.
\<close>

definition compass_arr :: "ustr list" where
  "compass_arr =
     [[1057], [1057, 1057, 1042], [1057, 1042], [1042, 1057, 1042],
      [1042], [1042, 1070, 1042], [1070, 1042], [1070, 1070, 1042],
      [1070], [1070, 1070, 1047], [1070, 1047], [1047, 1070, 1047],
      [1047], [1047, 1057, 1047], [1057, 1047], [1057, 1057, 1047]]"

text \<open>\<open>int((num / 11.25) + .5)\<close> for \<open>num = p / q\<close>: \<open>(8p + 45q) / (90q)\<close>, truncated.\<close>

definition compass_val :: "int \<Rightarrow> int \<Rightarrow> int" where
  "compass_val p q = trunc_frac (8 * p + 45 * q) (90 * q)"

definition degToCompass :: "pyval \<Rightarrow> exn + ustr" where
  "degToCompass num =
     (case py_num num of
        None \<Rightarrow> Inl TypeError
      | Some (p, q) \<Rightarrow> Inr (compass_arr ! nat (compass_val p q mod 8)))"

subsection \<open>Lemmas\<close>

lemma length_compass_arr [simp]: "length compass_arr = 16"
  by (simp add: compass_arr_def)

lemma distinct_compass_arr: "distinct compass_arr"
  by (simp add: compass_arr_def)

lemma nat_mod_8_less: "nat (k mod 8) < 8" for k :: int
  by (simp add: nat_less_iff)

lemma degToCompass_Inr_index:
  "degToCompass v = Inr l \<Longrightarrow> \<exists>k < 8. l = compass_arr ! k"
  by (auto simp: degToCompass_def split: option.splits prod.splits intro!: nat_mod_8_less)

lemma nth_notin_drop:
  assumes "distinct xs" "k < n" "n \<le> length xs"
  shows "xs ! k \<notin> set (drop n xs)"
proof
  assume "xs ! k \<in> set (drop n xs)"
  then obtain j where "j < length (drop n xs)" "drop n xs ! j = xs ! k"
    by (auto simp: in_set_conv_nth)
  then have "n + j < length xs" "xs ! (n + j) = xs ! k"
    using assms(3) by auto
  with assms(1,2) show False
    by (simp add: nth_eq_iff_index_eq)
qed

lemma compass_val_add_90:
  assumes "0 \<le> d"
  shows "compass_val (d + 90) 1 = compass_val d 1 + 8"
proof -
  have "8 * (d + 90) + 45 * 1 = (8 * d + 45) + 8 * 90" by simp
  moreover have "0 \<le> 8 * d + 45" using assms by simp
  ultimately show ?thesis
    by (simp add: compass_val_def trunc_frac_def)
qed

text \<open>C9: the function never reports a direction of the southern or western half:
  the labels from Yu (south) to SSZ (north-north-west) are unreachable.\<close>

theorem degToCompass_never_second_half:
  "degToCompass v \<notin> Inr ` set (drop 8 compass_arr)"
proof
  assume "degToCompass v \<in> Inr ` set (drop 8 compass_arr)"
  then obtain l where l: "degToCompass v = Inr l" "l \<in> set (drop 8 compass_arr)"
    by auto
  from l(1) obtain k where "k < 8" "l = compass_arr ! k"
    using degToCompass_Inr_index by blast
  with l(2) distinct_compass_arr show False
    using nth_notin_drop [of compass_arr k 8] by simp
qed

text \<open>C17: the labels repeat every 90 degrees, so an east wind (90) is reported as north,
  like a north wind (0). The bound is the range in which the double arithmetic of line 27
  gives the exact result the model computes (see the header), far beyond the 0 to 360
  the weather service sends.\<close>

theorem degToCompass_period_90:
  "0 \<le> d \<Longrightarrow> d + 90 < 2 ^ 40 \<Longrightarrow> degToCompass (PInt (d + 90)) = degToCompass (PInt d)"
  by (simp add: degToCompass_def py_num_def compass_val_add_90)

theorem degToCompass_period_90_witness:
  "0 \<le> (0::int) \<and> (0::int) + 90 < 2 ^ 40 \<and> degToCompass (PInt 90) = degToCompass (PInt 0)"
  using degToCompass_period_90 [of 0] by simp

end
