(* ===== verification/Unicode.thy ===== *)
theory Unicode
  imports PyValue
begin

text \<open>
  \<open>str.encode('utf-8')\<close>, used by the bot on the text it sends to speech synthesis
  (src/tgbot_weather/spr23-21-tgbot-weather.py, line 194) and by \<open>urllib.parse.quote\<close>
  on object keys. A code point becomes one to four bytes; a lone surrogate
  (U+D800 to U+DFFF) cannot be encoded and raises UnicodeEncodeError, as does a number
  beyond U+10FFFF, which no Python string holds.
\<close>

definition utf8_char :: "nat \<Rightarrow> exn + bytes" where
  "utf8_char c =
     (if c < 128 then Inr [of_nat c]
      else if c < 2048 then Inr [of_nat (192 + c div 64), of_nat (128 + c mod 64)]
      else if 55296 \<le> c \<and> c < 57344 then Inl UnicodeEncodeError
      else if c < 65536 then
        Inr [of_nat (224 + c div 4096), of_nat (128 + c div 64 mod 64), of_nat (128 + c mod 64)]
      else if c < 1114112 then
        Inr [of_nat (240 + c div 262144), of_nat (128 + c div 4096 mod 64),
             of_nat (128 + c div 64 mod 64), of_nat (128 + c mod 64)]
      else Inl UnicodeEncodeError)"

fun utf8_encode :: "ustr \<Rightarrow> exn + bytes" where
  "utf8_encode [] = Inr []"
| "utf8_encode (c # cs) = pbind (utf8_char c) (\<lambda>b. pbind (utf8_encode cs) (\<lambda>bs. Inr (b @ bs)))"

definition valid_scalar :: "nat \<Rightarrow> bool" where
  "valid_scalar c \<longleftrightarrow> c < 1114112 \<and> \<not> (55296 \<le> c \<and> c < 57344)"

lemma utf8_char_Inr_iff: "(\<exists>b. utf8_char c = Inr b) \<longleftrightarrow> valid_scalar c"
  by (auto simp: utf8_char_def valid_scalar_def)

lemma utf8_encode_Inr_iff: "(\<exists>bs. utf8_encode s = Inr bs) \<longleftrightarrow> (\<forall>c \<in> set s. valid_scalar c)"
proof (induction s)
  case Nil
  then show ?case by simp
next
  case (Cons c cs)
  show ?case
  proof (cases "utf8_char c")
    case (Inl x)
    then show ?thesis using utf8_char_Inr_iff [of c] by auto
  next
    case (Inr b)
    then show ?thesis using Cons.IH utf8_char_Inr_iff [of c]
      by (auto simp: pbind_def split: sum.splits)
  qed
qed

end
