(* ===== verification/Handler.thy ===== *)
theory Handler
  imports Services Compass Unicode
begin

text \<open>
  The webhook handler (src/tgbot_weather/spr23-21-tgbot-weather.py, lines 102-239) and
  the reports it builds. \<open>handler\<close> checks the bot token, parses the update and
  dispatches on the first of the keys \<open>text\<close>, \<open>voice\<close> and \<open>location\<close> of the
  message; each branch is one definition, with the voice branch split at the points
  where the source moves from one service to the next (download, recognition,
  synthesis and reply). Each definition returns the effects it performed and either
  the exception that escaped or the value returned, always \<open>FUNC_RESPONSE\<close>. The
  message texts are the source's literals as code points; each is preceded by its
  transliteration.
\<close>

section \<open>The texts of the replies\<close>

text \<open>Line 139: \<^verbatim>\<open>\n            \n\n            Ya mogu otvetit' na:\n            - Tekstovoe soobshchenie s nazvaniem naselennogo punkta.\n            - Golosovoe soobshchenie s nazvaniem naselennogo punkta.\n            - Soobshchenie s tochkoj na karte.\<close>.\<close>

definition msg_help :: ustr where
  "msg_help = [10, 32, 32, 32, 32, 32, 32, 32, 32, 32, 32, 32, 32, 10, 10, 32, 32, 32, 32, 32, 32, 32, 32, 32, 32, 32, 32, 1071, 32, 1084, 1086, 1075, 1091, 32, 1086, 1090, 1074, 1077, 1090, 1080, 1090, 1100, 32, 1085, 1072, 58, 10, 32, 32, 32, 32, 32, 32, 32, 32, 32, 32, 32, 32, 45, 32, 1058, 1077, 1082, 1089, 1090, 1086, 1074, 1086, 1077, 32, 1089, 1086, 1086, 1073, 1097, 1077, 1085, 1080, 1077, 32, 1089, 32, 1085, 1072, 1079, 1074, 1072, 1085, 1080, 1077, 1084, 32, 1085, 1072, 1089, 1077, 1083, 1077, 1085, 1085, 1086, 1075, 1086, 32, 1087, 1091, 1085, 1082, 1090, 1072, 46, 10, 32, 32, 32, 32, 32, 32, 32, 32, 32, 32, 32, 32, 45, 32, 1043, 1086, 1083, 1086, 1089, 1086, 1074, 1086, 1077, 32, 1089, 1086, 1086, 1073, 1097, 1077, 1085, 1080, 1077, 32, 1089, 32, 1085, 1072, 1079, 1074, 1072, 1085, 1080, 1077, 1084, 32, 1085, 1072, 1089, 1077, 1083, 1077, 1085, 1085, 1086, 1075, 1086, 32, 1087, 1091, 1085, 1082, 1090, 1072, 46, 10, 32, 32, 32, 32, 32, 32, 32, 32, 32, 32, 32, 32, 45, 32, 1057, 1086, 1086, 1073, 1097, 1077, 1085, 1080, 1077, 32, 1089, 32, 1090, 1086, 1095, 1082, 1086, 1081, 32, 1085, 1072, 32, 1082, 1072, 1088, 1090, 1077, 46]"

text \<open>Line 149: \<^verbatim>\<open>Ya soobshchu vam o pogode v tom meste, kotoroe soobshchite mne.\<close>.\<close>

definition msg_start :: ustr where
  "msg_start = [1071, 32, 1089, 1086, 1086, 1073, 1097, 1091, 32, 1074, 1072, 1084, 32, 1086, 32, 1087, 1086, 1075, 1086, 1076, 1077, 32, 1074, 32, 1090, 1086, 1084, 32, 1084, 1077, 1089, 1090, 1077, 44, 32, 1082, 1086, 1090, 1086, 1088, 1086, 1077, 32, 1089, 1086, 1086, 1073, 1097, 1080, 1090, 1077, 32, 1084, 1085, 1077, 46]"

text \<open>Line 155: \<^verbatim>\<open>Ya ne nashel naselennyj punkt \<close>.\<close>

definition msg_not_found :: ustr where
  "msg_not_found = [1071, 32, 1085, 1077, 32, 1085, 1072, 1096, 1077, 1083, 32, 1085, 1072, 1089, 1077, 1083, 1077, 1085, 1085, 1099, 1081, 32, 1087, 1091, 1085, 1082, 1090, 32]"

text \<open>Line 167: \<^verbatim>\<open>Ya ne mogu ponyat' golosovoe soobshchenie dlitel'nost' bolee 30 sekund.\<close>.\<close>

definition msg_too_long :: ustr where
  "msg_too_long = [1071, 32, 1085, 1077, 32, 1084, 1086, 1075, 1091, 32, 1087, 1086, 1085, 1103, 1090, 1100, 32, 1075, 1086, 1083, 1086, 1089, 1086, 1074, 1086, 1077, 32, 1089, 1086, 1086, 1073, 1097, 1077, 1085, 1080, 1077, 32, 1076, 1083, 1080, 1090, 1077, 1083, 1100, 1085, 1086, 1089, 1090, 1100, 32, 1073, 1086, 1083, 1077, 1077] @ asc '' 30 '' @ [1089, 1077, 1082, 1091, 1085, 1076, 46]"

text \<open>Line 191: \<^verbatim>\<open>Ya ne smog raspoznat' vashe soobshchenie\<close>.\<close>

definition msg_not_recognized :: ustr where
  "msg_not_recognized = [1071, 32, 1085, 1077, 32, 1089, 1084, 1086, 1075, 32, 1088, 1072, 1089, 1087, 1086, 1079, 1085, 1072, 1090, 1100, 32, 1074, 1072, 1096, 1077, 32, 1089, 1086, 1086, 1073, 1097, 1077, 1085, 1080, 1077]"

text \<open>Line 224: \<^verbatim>\<open>Ya ne znayu kakaya pogoda v etom meste.\<close>.\<close>

definition msg_location_unknown :: ustr where
  "msg_location_unknown = [1071, 32, 1085, 1077, 32, 1079, 1085, 1072, 1102, 32, 1082, 1072, 1082, 1072, 1103, 32, 1087, 1086, 1075, 1086, 1076, 1072, 32, 1074, 32, 1101, 1090, 1086, 1084, 32, 1084, 1077, 1089, 1090, 1077, 46]"

text \<open>Line 157: \<^verbatim>\<open>.\nTemperatura \<close>.\<close>

definition wt_temperature :: ustr where
  "wt_temperature = [46, 10, 1058, 1077, 1084, 1087, 1077, 1088, 1072, 1090, 1091, 1088, 1072, 32]"

text \<open>Line 157: \<^verbatim>\<open> degC, oshchushchaetsya kak \<close>.\<close>

definition wt_feels_like :: ustr where
  "wt_feels_like = [32, 8451, 44, 32, 1086, 1097, 1091, 1097, 1072, 1077, 1090, 1089, 1103, 32, 1082, 1072, 1082, 32]"

text \<open>Line 157: \<^verbatim>\<open> degC.\nAtmosfernoe davlenie \<close>.\<close>

definition wt_pressure :: ustr where
  "wt_pressure = [32, 8451, 46, 10, 1040, 1090, 1084, 1086, 1089, 1092, 1077, 1088, 1085, 1086, 1077, 32, 1076, 1072, 1074, 1083, 1077, 1085, 1080, 1077, 32]"

text \<open>Line 157: \<^verbatim>\<open> mm rt. st.\nVlazhnost' \<close>.\<close>

definition wt_humidity :: ustr where
  "wt_humidity = [32, 1084, 1084, 32, 1088, 1090, 46, 32, 1089, 1090, 46, 10, 1042, 1083, 1072, 1078, 1085, 1086, 1089, 1090, 1100, 32]"

text \<open>Line 157: \<^verbatim>\<open> %.\nVidimost' \<close>.\<close>

definition wt_visibility :: ustr where
  "wt_visibility = [32, 37, 46, 10, 1042, 1080, 1076, 1080, 1084, 1086, 1089, 1090, 1100, 32]"

text \<open>Line 157: \<^verbatim>\<open> metrov.\nVeter \<close>.\<close>

definition wt_wind :: ustr where
  "wt_wind = [32, 1084, 1077, 1090, 1088, 1086, 1074, 46, 10, 1042, 1077, 1090, 1077, 1088, 32]"

text \<open>Line 157: \<^verbatim>\<open> m/s, napravlenie vetra \<close>.\<close>

definition wt_direction :: ustr where
  "wt_direction = [32, 1084, 47, 1089, 44, 32, 1085, 1072, 1087, 1088, 1072, 1074, 1083, 1077, 1085, 1080, 1077, 32, 1074, 1077, 1090, 1088, 1072, 32]"

text \<open>Line 157: \<^verbatim>\<open>.\nVoshod solnca \<close>.\<close>

definition wt_sunrise :: ustr where
  "wt_sunrise = [46, 10, 1042, 1086, 1089, 1093, 1086, 1076, 32, 1089, 1086, 1083, 1085, 1094, 1072, 32]"

text \<open>Line 157: \<^verbatim>\<open> MSK. Zakat \<close>.\<close>

definition wt_sunset :: ustr where
  "wt_sunset = [32, 1052, 1057, 1050, 46, 32, 1047, 1072, 1082, 1072, 1090, 32]"

text \<open>Line 157: \<^verbatim>\<open> MSK.\n\<close>.\<close>

definition wt_end :: ustr where
  "wt_end = [32, 1052, 1057, 1050, 46, 10]"

text \<open>Line 189: \<^verbatim>\<open>Naselennyj punkt \<close>.\<close>

definition vt_place :: ustr where
  "vt_place = [1053, 1072, 1089, 1077, 1083, 1077, 1085, 1085, 1099, 1081, 32, 1087, 1091, 1085, 1082, 1090, 32]"

text \<open>Line 189: \<^verbatim>\<open>.\n\<close>.\<close>

definition vt_nl :: ustr where
  "vt_nl = [46, 10]"

text \<open>Line 189: \<^verbatim>\<open>.\n Oshchushchaetsya kak \<close>.\<close>

definition vt_feels_like :: ustr where
  "vt_feels_like = [46, 10, 32, 1054, 1097, 1091, 1097, 1072, 1077, 1090, 1089, 1103, 32, 1082, 1072, 1082, 32]"

text \<open>Line 189: \<^verbatim>\<open>.\nDavlenie \<close>.\<close>

definition vt_pressure :: ustr where
  "vt_pressure = [46, 10, 1044, 1072, 1074, 1083, 1077, 1085, 1080, 1077, 32]"

text \<open>Line 189: \<^verbatim>\<open>.\nVlazhnost' \<close>.\<close>

definition vt_humidity :: ustr where
  "vt_humidity = [46, 10, 1042, 1083, 1072, 1078, 1085, 1086, 1089, 1090, 1100, 32]"


section \<open>The reports (lines 155-157, 185-189, 224-226)\<close>

definition not_found_text :: "ustr \<Rightarrow> ustr" where
  "not_found_text city = msg_not_found @ city @ [46]"

text \<open>The report of lines 157 and 226; each field is read where the f-string reads it.\<close>

definition weather_text :: "tz_env \<Rightarrow> pyval \<Rightarrow> exn + ustr" where
  "weather_text tze weather_data =
     pbind (py_path weather_data [Key (asc ''weather''), Idx 0, Key (asc ''description'')]) (\<lambda>description.
     pbind (py_path weather_data [Key (asc ''main''), Key (asc ''temp'')]) (\<lambda>temp.
     pbind (py_path weather_data [Key (asc ''main''), Key (asc ''feels_like'')]) (\<lambda>feels_like.
     pbind (py_path weather_data [Key (asc ''main''), Key (asc ''pressure'')]) (\<lambda>pressure.
     pbind (py_path weather_data [Key (asc ''main''), Key (asc ''humidity'')]) (\<lambda>humidity.
     pbind (py_path weather_data [Key (asc ''visibility'')]) (\<lambda>visibility.
     pbind (py_path weather_data [Key (asc ''wind''), Key (asc ''speed'')]) (\<lambda>speed.
     pbind (pbind (py_path weather_data [Key (asc ''wind''), Key (asc ''deg'')]) degToCompass) (\<lambda>direction.
     pbind (pbind (py_path weather_data [Key (asc ''sys''), Key (asc ''sunrise'')])
              (convertUnixToTime tze)) (\<lambda>sunrise.
     pbind (pbind (py_path weather_data [Key (asc ''sys''), Key (asc ''sunset'')])
              (convertUnixToTime tze)) (\<lambda>sunset.
     Inr (py_str description @ wt_temperature @ py_str temp @ wt_feels_like @ py_str feels_like
          @ wt_pressure @ py_str pressure @ wt_humidity @ py_str humidity @ wt_visibility
          @ py_str visibility @ wt_wind @ py_str speed @ wt_direction @ direction
          @ wt_sunrise @ sunrise @ wt_sunset @ sunset @ wt_end)))))))))))"

text \<open>The spoken report of lines 187-189: temperatures through \<open>int()\<close>, with the place name.\<close>

definition voice_weather_text :: "pyval \<Rightarrow> exn + ustr" where
  "voice_weather_text weather_data =
     pbind (pbind (py_path weather_data [Key (asc ''main''), Key (asc ''temp'')]) py_int) (\<lambda>temp.
     pbind (pbind (py_path weather_data [Key (asc ''main''), Key (asc ''feels_like'')]) py_int) (\<lambda>feels_like_temp.
     pbind (py_path weather_data [Key (asc ''name'')]) (\<lambda>name.
     pbind (py_path weather_data [Key (asc ''weather''), Idx 0, Key (asc ''description'')]) (\<lambda>description.
     pbind (py_path weather_data [Key (asc ''main''), Key (asc ''pressure'')]) (\<lambda>pressure.
     pbind (py_path weather_data [Key (asc ''main''), Key (asc ''humidity'')]) (\<lambda>humidity.
     Inr (vt_place @ py_str name @ vt_nl @ py_str description @ wt_temperature @ int_str temp
          @ vt_feels_like @ int_str feels_like_temp @ vt_pressure @ py_str pressure
          @ vt_humidity @ py_str humidity @ [46])))))))"

section \<open>The branches\<close>

text \<open>\<open>send_message(text, message_in); return FUNC_RESPONSE\<close>, the end of every text reply.\<close>

definition answer :: "config \<Rightarrow> world \<Rightarrow> ustr \<Rightarrow> pyval \<Rightarrow> (effect, pyval) py" where
  "answer cfg w txt message_in = wr_bind (send_message cfg w txt message_in) (\<lambda>_. wr_return FUNC_RESPONSE)"

definition answer_voice :: "config \<Rightarrow> world \<Rightarrow> ustr \<Rightarrow> pyval \<Rightarrow> (effect, pyval) py" where
  "answer_voice cfg w voice_file message_in =
     wr_bind (send_voice cfg w voice_file message_in) (\<lambda>_. wr_return FUNC_RESPONSE)"

text \<open>Lines 137-160.\<close>

definition text_branch :: "config \<Rightarrow> world \<Rightarrow> pyval \<Rightarrow> (effect, pyval) py" where
  "text_branch cfg w message_in =
     wr_bind (wr_lift (py_get message_in (asc ''text''))) (\<lambda>txt.
     wr_bind (wr_lift (py_in (asc ''/help'') txt)) (\<lambda>is_help.
     if is_help then answer cfg w msg_help message_in else
     wr_bind (wr_lift (py_in (asc ''/start'') txt)) (\<lambda>is_start.
     if is_start then answer cfg w msg_start message_in else
     wr_bind (get_weather_from_text w txt) (\<lambda>weather_data.
     wr_bind (wr_lift (if weather_data = PNone then Inr (not_found_text (py_str txt))
                       else weather_text (tz w) weather_data)) (\<lambda>result.
     answer cfg w result message_in)))))"

text \<open>Lines 170-175: the voice file's path, then its bytes (the status is not checked).\<close>

definition file_url :: "config \<Rightarrow> pyval \<Rightarrow> ustr" where
  "file_url cfg tg_file_path =
     asc ''https://api.telegram.org/file/bot'' @ py_str (opt_pyval (telegram_bot_token cfg))
       @ [47] @ py_str tg_file_path"

definition fetch_audio :: "config \<Rightarrow> world \<Rightarrow> pyval \<Rightarrow> (effect, bytes) py" where
  "fetch_audio cfg w voice =
     wr_bind (wr_lift (py_get voice (asc ''file_id''))) (\<lambda>file_id.
     wr_bind (get_file cfg w file_id) (\<lambda>tg_file.
     wr_bind (wr_lift (py_get tg_file (asc ''file_path''))) (\<lambda>tg_file_path.
     wr_bind (http_call w (Http_Get (file_url cfg tg_file_path) [])) (\<lambda>file_resp.
     wr_return (content file_resp)))))"

definition stt_request :: "config \<Rightarrow> bytes \<Rightarrow> http_request" where
  "stt_request cfg audio =
     Http_Post (asc ''https://stt.api.cloud.yandex.net/speech/v1/stt:recognize'')
       [(asc ''Authorization'', AUTH_HEADER cfg)] (Raw_Data audio)"

definition tts_request :: "config \<Rightarrow> bytes \<Rightarrow> http_request" where
  "tts_request cfg encoded_text =
     Http_Post (asc ''https://tts.api.cloud.yandex.net/speech/v1/tts:synthesize'')
       [(asc ''Authorization'', AUTH_HEADER_VOICE cfg)] (Form_Data [(asc ''text'', encoded_text)])"

definition voice_bucket :: ustr where
  "voice_bucket = asc ''itiscl-spr23-21-public''"

text \<open>Lines 194-216: synthesis of the reply, upload, and the voice message.\<close>

definition reply_by_voice :: "config \<Rightarrow> world \<Rightarrow> pyval \<Rightarrow> ustr \<Rightarrow> (effect, pyval) py" where
  "reply_by_voice cfg w message_in result =
     wr_bind (wr_lift (utf8_encode result)) (\<lambda>encoded_text.
     wr_bind (http_call w (tts_request cfg encoded_text)) (\<lambda>tts_resp.
     if resp_ok tts_resp then
       wr_bind (wr_lift (str_decode (resp_text tts_resp))) (\<lambda>body.
       wr_bind (put_object w voice_bucket (asc ''speech.raw'') body) (\<lambda>_.
       answer_voice cfg w (asc ''speech.raw'') message_in))
     else answer_voice cfg w (asc ''speech.ogg'') message_in))"

text \<open>Lines 162-216.\<close>

definition voice_branch :: "config \<Rightarrow> world \<Rightarrow> pyval \<Rightarrow> (effect, pyval) py" where
  "voice_branch cfg w message_in =
     wr_bind (wr_lift (py_get message_in (asc ''voice''))) (\<lambda>voice.
     wr_bind (wr_lift (py_get voice (asc ''duration''))) (\<lambda>duration.
     wr_bind (wr_lift (py_gt_int duration 30)) (\<lambda>too_long.
     if too_long then answer cfg w msg_too_long message_in else
     wr_bind (fetch_audio cfg w voice) (\<lambda>audio.
     wr_bind (http_call w (stt_request cfg audio)) (\<lambda>stt_resp.
     if resp_ok stt_resp then
       wr_bind (wr_lift (pbind (resp_json stt_resp) (\<lambda>j. py_get j (asc ''result'')))) (\<lambda>city.
       wr_bind (get_weather_from_text w city) (\<lambda>weather_data.
       wr_bind (wr_lift (if weather_data = PNone then Inr (not_found_text (py_str city))
                         else voice_weather_text weather_data)) (\<lambda>result.
       reply_by_voice cfg w message_in result)))
     else answer cfg w msg_not_recognized message_in)))))"

text \<open>Lines 218-229.\<close>

definition location_branch :: "config \<Rightarrow> world \<Rightarrow> pyval \<Rightarrow> (effect, pyval) py" where
  "location_branch cfg w message_in =
     wr_bind (wr_lift (py_get message_in (asc ''location''))) (\<lambda>location.
     wr_bind (get_weather_from_location w location) (\<lambda>weather_data.
     wr_bind (wr_lift (if weather_data = PNone then Inr msg_location_unknown
                       else weather_text (tz w) weather_data)) (\<lambda>result.
     answer cfg w result message_in)))"

text \<open>Lines 137, 162, 218 and 239: the first key present decides.\<close>

definition handle_message :: "config \<Rightarrow> world \<Rightarrow> pyval \<Rightarrow> (effect, pyval) py" where
  "handle_message cfg w message_in =
     wr_bind (wr_lift (py_in (asc ''text'') message_in)) (\<lambda>is_text.
     if is_text then text_branch cfg w message_in else
     wr_bind (wr_lift (py_in (asc ''voice'') message_in)) (\<lambda>is_voice.
     if is_voice then voice_branch cfg w message_in else
     wr_bind (wr_lift (py_in (asc ''location'') message_in)) (\<lambda>is_location.
     if is_location then location_branch cfg w message_in else wr_return FUNC_RESPONSE)))"

text \<open>Lines 102-128.\<close>

definition handler :: "config \<Rightarrow> world \<Rightarrow> pyval \<Rightarrow> (effect, pyval) py" where
  "handler cfg w event =
     (if telegram_bot_token cfg = None then wr_return FUNC_RESPONSE else
      wr_bind (wr_lift (pbind (py_get event (asc ''body'')) (loads w))) (\<lambda>update.
      wr_bind (wr_lift (py_in (asc ''message'') update)) (\<lambda>has_message.
      if \<not> has_message then wr_return FUNC_RESPONSE else
      wr_bind (wr_lift (py_get update (asc ''message''))) (\<lambda>message_in.
      handle_message cfg w message_in))))"

section \<open>Sample inputs for the witnesses\<close>

definition sample_cfg :: config where
  "sample_cfg = \<lparr>telegram_bot_token = Some (asc ''T''), api_key = asc ''K'', api_key_voice = asc ''V'',
                  aws_access_key_id = None, aws_secret_access_key = None\<rparr>"

definition sample_response :: "int \<Rightarrow> pyval option \<Rightarrow> http_response" where
  "sample_response st j = \<lparr>status_code = st, content = [], resp_text = [], json = j\<rparr>"

text \<open>A world whose every service answers with the same status and JSON body.\<close>

definition sample_world :: "int \<Rightarrow> pyval option \<Rightarrow> world" where
  "sample_world st j = \<lparr>http = (\<lambda>_. Some (sample_response st j)), json_loads = (\<lambda>_. None),
                         s3_put_ok = (\<lambda>_ _ _. True), tz = tz_cloud\<rparr>"

definition sample_message :: "(ustr \<times> pyval) list \<Rightarrow> pyval" where
  "sample_message kvs = PDict (kvs @ [(asc ''message_id'', PInt 1), (asc ''chat'', PDict [(asc ''id'', PInt 7)])])"

text \<open>An OpenWeatherMap answer without \<open>visibility\<close>, and the same answer with it.\<close>

definition sample_report_fields :: "(ustr \<times> pyval) list" where
  "sample_report_fields =
     [(asc ''weather'', PList [PDict [(asc ''description'', PStr (asc ''clear''))]]),
      (asc ''main'', PDict [(asc ''temp'', PInt 5), (asc ''feels_like'', PInt 2),
                          (asc ''pressure'', PInt 1012), (asc ''humidity'', PInt 80)]),
      (asc ''wind'', PDict [(asc ''speed'', PInt 3), (asc ''deg'', PInt 200)]),
      (asc ''sys'', PDict [(asc ''sunrise'', PInt 1700000000), (asc ''sunset'', PInt 1700030000)])]"

definition sample_weather :: pyval where
  "sample_weather = PDict ((asc ''visibility'', PInt 10000) # sample_report_fields)"

section \<open>Properties\<close>

subsection \<open>Shared lemmas\<close>

lemma answer_Inr:
  "send_message_request cfg t m = Inr req \<Longrightarrow>
   answer cfg w t m = ([Http req], case http w req of None \<Rightarrow> Inl ConnectionError | Some _ \<Rightarrow> Inr FUNC_RESPONSE)"
  by (simp add: answer_def send_message_Inr wr_return_def split: option.split)

lemma answer_voice_Inr:
  "send_voice_request cfg f m = Inr req \<Longrightarrow>
   answer_voice cfg w f m = ([Http req], case http w req of None \<Rightarrow> Inl ConnectionError | Some _ \<Rightarrow> Inr FUNC_RESPONSE)"
  by (simp add: answer_voice_def send_voice_Inr wr_return_def split: option.split)

lemma answer_ack [wr_intros]: "wr_returns (\<lambda>r. r = FUNC_RESPONSE) (answer cfg w t m)"
  unfolding answer_def by (intro wr_intros) simp

lemma answer_voice_ack [wr_intros]: "wr_returns (\<lambda>r. r = FUNC_RESPONSE) (answer_voice cfg w f m)"
  unfolding answer_voice_def by (intro wr_intros) simp

lemma reply_by_voice_ack [wr_intros]: "wr_returns (\<lambda>r. r = FUNC_RESPONSE) (reply_by_voice cfg w m r)"
  unfolding reply_by_voice_def by (intro wr_intros)

lemma branches_ack [wr_intros]:
  "wr_returns (\<lambda>r. r = FUNC_RESPONSE) (text_branch cfg w m)"
  "wr_returns (\<lambda>r. r = FUNC_RESPONSE) (voice_branch cfg w m)"
  "wr_returns (\<lambda>r. r = FUNC_RESPONSE) (location_branch cfg w m)"
  unfolding text_branch_def voice_branch_def location_branch_def by (intro wr_intros)+

lemma handle_message_ack [wr_intros]: "wr_returns (\<lambda>r. r = FUNC_RESPONSE) (handle_message cfg w m)"
  unfolding handle_message_def by (intro wr_intros) simp_all

lemma wr_lift_Inr_bind [simp]: "wr_bind (wr_lift (Inr a)) f = f a"
  by (simp add: wr_lift_def)

lemma wr_lift_Inl_bind [simp]: "wr_bind (wr_lift (Inl x)) f = ([], Inl x)"
  by (simp add: wr_lift_def)

subsection \<open>The acknowledgement\<close>

text \<open>C1: whenever the handler returns, it returns the fixed acknowledgement
  \<open>FUNC_RESPONSE\<close> (status 200, empty body).\<close>

theorem handler_returns_ack:
  "snd (handler cfg w event) = Inr r \<Longrightarrow> r = FUNC_RESPONSE"
proof -
  have "wr_returns (\<lambda>r. r = FUNC_RESPONSE) (handler cfg w event)"
    unfolding handler_def by (intro wr_intros) simp_all
  then show "snd (handler cfg w event) = Inr r \<Longrightarrow> r = FUNC_RESPONSE"
    by (rule wr_returns_Inr)
qed

theorem handler_returns_ack_witness:
  "snd (handler \<lparr>telegram_bot_token = None, api_key = [], api_key_voice = [],
      aws_access_key_id = None, aws_secret_access_key = None\<rparr>
      \<lparr>http = (\<lambda>_. None), json_loads = (\<lambda>_. None), s3_put_ok = (\<lambda>_ _ _. False), tz = tz_cloud\<rparr>
      PNone) = Inr FUNC_RESPONSE"
proof -
  have h: "snd (handler \<lparr>telegram_bot_token = None, api_key = [], api_key_voice = [],
      aws_access_key_id = None, aws_secret_access_key = None\<rparr>
      \<lparr>http = (\<lambda>_. None), json_loads = (\<lambda>_. None), s3_put_ok = (\<lambda>_ _ _. False), tz = tz_cloud\<rparr>
      PNone) = Inr FUNC_RESPONSE"
    by (simp add: handler_def wr_return_def)
  show ?thesis using handler_returns_ack [OF h] h by simp
qed

text \<open>C11: without a bot token the handler acknowledges at once and calls nothing.\<close>

theorem handler_no_token:
  "telegram_bot_token cfg = None \<Longrightarrow> handler cfg w event = ([], Inr FUNC_RESPONSE)"
  by (simp add: handler_def wr_return_def)

theorem handler_no_token_witness:
  "telegram_bot_token (\<lparr>telegram_bot_token = None, api_key = [], api_key_voice = [],
      aws_access_key_id = None, aws_secret_access_key = None\<rparr> :: config) = None
   \<and> handler \<lparr>telegram_bot_token = None, api_key = [], api_key_voice = [],
      aws_access_key_id = None, aws_secret_access_key = None\<rparr>
      \<lparr>http = (\<lambda>_. None), json_loads = (\<lambda>_. None), s3_put_ok = (\<lambda>_ _ _. False), tz = tz_cloud\<rparr>
      PNone = ([], Inr FUNC_RESPONSE)"
  using handler_no_token [of "\<lparr>telegram_bot_token = None, api_key = [], api_key_voice = [],
      aws_access_key_id = None, aws_secret_access_key = None\<rparr>"] by simp

text \<open>C4: an update without a message is acknowledged with no call.\<close>

theorem handler_no_message:
  assumes "telegram_bot_token cfg \<noteq> None"
    and "py_get event (asc ''body'') = Inr body" and "loads w body = Inr update"
    and "py_in (asc ''message'') update = Inr False"
  shows "handler cfg w event = ([], Inr FUNC_RESPONSE)"
  using assms by (simp add: handler_def wr_return_def)

theorem handler_no_message_witness:
  "telegram_bot_token (\<lparr>telegram_bot_token = Some (asc ''t''), api_key = [], api_key_voice = [],
      aws_access_key_id = None, aws_secret_access_key = None\<rparr> :: config) \<noteq> None
   \<and> py_get (PDict [(asc ''body'', PStr (asc ''{}''))]) (asc ''body'') = Inr (PStr (asc ''{}''))
   \<and> loads \<lparr>http = (\<lambda>_. None), json_loads = (\<lambda>_. Some (PDict [])), s3_put_ok = (\<lambda>_ _ _. False),
        tz = tz_cloud\<rparr> (PStr (asc ''{}'')) = Inr (PDict [])
   \<and> py_in (asc ''message'') (PDict []) = Inr False
   \<and> handler \<lparr>telegram_bot_token = Some (asc ''t''), api_key = [], api_key_voice = [],
        aws_access_key_id = None, aws_secret_access_key = None\<rparr>
      \<lparr>http = (\<lambda>_. None), json_loads = (\<lambda>_. Some (PDict [])), s3_put_ok = (\<lambda>_ _ _. False),
        tz = tz_cloud\<rparr>
      (PDict [(asc ''body'', PStr (asc ''{}''))]) = ([], Inr FUNC_RESPONSE)"
proof -
  have h: "telegram_bot_token (\<lparr>telegram_bot_token = Some (asc ''t''), api_key = [], api_key_voice = [],
      aws_access_key_id = None, aws_secret_access_key = None\<rparr> :: config) \<noteq> None"
    "py_get (PDict [(asc ''body'', PStr (asc ''{}''))]) (asc ''body'') = Inr (PStr (asc ''{}''))"
    "loads \<lparr>http = (\<lambda>_. None), json_loads = (\<lambda>_. Some (PDict [])), s3_put_ok = (\<lambda>_ _ _. False),
        tz = tz_cloud\<rparr> (PStr (asc ''{}'')) = Inr (PDict [])"
    "py_in (asc ''message'') (PDict []) = Inr False"
    by (simp_all add: loads_def)
  show ?thesis using handler_no_message [OF h] h by simp
qed

text \<open>C3: a body that is not JSON makes the handler raise JSONDecodeError, so no
  acknowledgement is returned.\<close>

theorem handler_malformed_body:
  assumes "telegram_bot_token cfg \<noteq> None"
    and "py_get event (asc ''body'') = Inr (PStr s)" and "json_loads w s = None"
  shows "handler cfg w event = ([], Inl JSONDecodeError)"
  using assms by (auto simp: handler_def loads_def)

theorem handler_malformed_body_witness:
  "telegram_bot_token (\<lparr>telegram_bot_token = Some (asc ''t''), api_key = [], api_key_voice = [],
      aws_access_key_id = None, aws_secret_access_key = None\<rparr> :: config) \<noteq> None
   \<and> py_get (PDict [(asc ''body'', PStr (asc ''{''))]) (asc ''body'') = Inr (PStr (asc ''{''))
   \<and> json_loads \<lparr>http = (\<lambda>_. None), json_loads = (\<lambda>_. None), s3_put_ok = (\<lambda>_ _ _. False),
        tz = tz_cloud\<rparr> (asc ''{'') = None
   \<and> handler \<lparr>telegram_bot_token = Some (asc ''t''), api_key = [], api_key_voice = [],
        aws_access_key_id = None, aws_secret_access_key = None\<rparr>
      \<lparr>http = (\<lambda>_. None), json_loads = (\<lambda>_. None), s3_put_ok = (\<lambda>_ _ _. False), tz = tz_cloud\<rparr>
      (PDict [(asc ''body'', PStr (asc ''{''))]) = ([], Inl JSONDecodeError)"
proof -
  have h: "telegram_bot_token (\<lparr>telegram_bot_token = Some (asc ''t''), api_key = [], api_key_voice = [],
      aws_access_key_id = None, aws_secret_access_key = None\<rparr> :: config) \<noteq> None"
    "py_get (PDict [(asc ''body'', PStr (asc ''{''))]) (asc ''body'') = Inr (PStr (asc ''{''))"
    "json_loads \<lparr>http = (\<lambda>_. None), json_loads = (\<lambda>_. None), s3_put_ok = (\<lambda>_ _ _. False),
        tz = tz_cloud\<rparr> (asc ''{'') = None"
    by simp_all
  show ?thesis using handler_malformed_body [OF h] h by simp
qed

subsection \<open>The text branch\<close>

text \<open>C5: a text containing \<open>/help\<close> is answered with the help text and nothing else:
  the only call is the sendMessage request.\<close>

theorem text_branch_help:
  assumes "py_get m (asc ''text'') = Inr (PStr s)" and "py_substr (asc ''/help'') s"
  shows "text_branch cfg w m = answer cfg w msg_help m
         \<and> list_all (\<lambda>e. \<exists>req. e = Http req \<and> send_message_request cfg msg_help m = Inr req)
             (fst (text_branch cfg w m))"
proof -
  have eq: "text_branch cfg w m = answer cfg w msg_help m"
    using assms by (simp add: text_branch_def)
  show ?thesis
  proof (cases "send_message_request cfg msg_help m")
    case (Inl x)
    then show ?thesis using eq by (simp add: answer_def send_message_Inl)
  next
    case (Inr req)
    then show ?thesis using eq by (simp add: answer_Inr)
  qed
qed

text \<open>C6: a place the weather service does not know (a status other than 200) is
  answered with the not-found text, which contains the query.\<close>

theorem text_branch_not_found:
  assumes "py_get m (asc ''text'') = Inr (PStr s)"
    and "\<not> py_substr (asc ''/help'') s" and "\<not> py_substr (asc ''/start'') s"
    and "http w (owm_query_request (PStr s)) = Some r" and "status_code r \<noteq> 200"
  shows "text_branch cfg w m =
           (Http (owm_query_request (PStr s)) # fst (answer cfg w (not_found_text s) m),
            snd (answer cfg w (not_found_text s) m))
         \<and> sublist s (not_found_text s)"
  using assms
  by (simp add: text_branch_def get_weather_from_text_def http_call_def owm_answer_def
      not_found_text_def wr_lift_def)

subsection \<open>The voice branch\<close>

text \<open>C7: a voice message longer than 30 seconds is answered with the fixed text; no file
  is fetched and no speech service is called.\<close>

theorem voice_branch_too_long:
  assumes "py_get m (asc ''voice'') = Inr v" and "py_get v (asc ''duration'') = Inr d"
    and "py_gt_int d 30 = Inr True"
  shows "voice_branch cfg w m = answer cfg w msg_too_long m"
  using assms by (simp add: voice_branch_def)

text \<open>C8: when recognition fails the reply is the fixed apology; after the download and
  the recognition request there is no weather or synthesis call.\<close>

theorem voice_branch_stt_failure:
  assumes "py_get m (asc ''voice'') = Inr v" and "py_get v (asc ''duration'') = Inr d"
    and "py_gt_int d 30 = Inr False" and "fetch_audio cfg w v = (t, Inr audio)"
    and "http w (stt_request cfg audio) = Some r" and "\<not> resp_ok r"
  shows "voice_branch cfg w m =
           (t @ Http (stt_request cfg audio) # fst (answer cfg w msg_not_recognized m),
            snd (answer cfg w msg_not_recognized m))"
  using assms by (simp add: voice_branch_def http_call_def)

text \<open>C2: when synthesis succeeds, reading \<open>tts_resp.text.decode\<close> raises
  AttributeError: nothing is uploaded, no voice is sent, and the exception leaves the
  handler, so Telegram gets no acknowledgement.\<close>

theorem reply_by_voice_tts_ok_raises:
  assumes "utf8_encode result = Inr enc" and "http w (tts_request cfg enc) = Some r"
    and "resp_ok r"
  shows "reply_by_voice cfg w m result = ([Http (tts_request cfg enc)], Inl AttributeError)"
  using assms by (simp add: reply_by_voice_def http_call_def str_decode_def)

text \<open>C13: when synthesis fails the reply is the voice message of the fixed object
  \<open>speech.ogg\<close>, not a text.\<close>

theorem reply_by_voice_tts_failure:
  assumes "utf8_encode result = Inr enc" and "http w (tts_request cfg enc) = Some r"
    and "\<not> resp_ok r"
  shows "reply_by_voice cfg w m result =
           (Http (tts_request cfg enc) # fst (answer_voice cfg w (asc ''speech.ogg'') m),
            snd (answer_voice cfg w (asc ''speech.ogg'') m))"
  using assms by (simp add: reply_by_voice_def http_call_def)

subsection \<open>The location branch and the dispatch\<close>

text \<open>C10: an unknown location is answered with its own fixed text, which differs from the
  not-found text of every place-name query.\<close>

theorem location_branch_not_found:
  assumes "py_get m (asc ''location'') = Inr loc"
    and "py_get loc (asc ''latitude'') = Inr lat" and "py_get loc (asc ''longitude'') = Inr lon"
    and "http w (owm_location_request lat lon) = Some r" and "status_code r \<noteq> 200"
  shows "location_branch cfg w m =
           (Http (owm_location_request lat lon) # fst (answer cfg w msg_location_unknown m),
            snd (answer cfg w msg_location_unknown m))
         \<and> (\<forall>s. msg_location_unknown \<noteq> not_found_text s)"
  using assms
  by (simp add: location_branch_def get_weather_from_location_def http_call_def owm_answer_def
      msg_location_unknown_def not_found_text_def msg_not_found_def wr_lift_def)

text \<open>C12: a message that carries none of text, voice and location is acknowledged with
  no call at all: the comment at lines 130-134 promises the user a warning, but no branch
  sends one (only the commented-out echo of lines 231-235 would have answered).\<close>

theorem handler_no_payload:
  assumes "telegram_bot_token cfg \<noteq> None"
    and "py_get event (asc ''body'') = Inr body" and "loads w body = Inr update"
    and "py_in (asc ''message'') update = Inr True" and "py_get update (asc ''message'') = Inr m"
    and "py_in (asc ''text'') m = Inr False" and "py_in (asc ''voice'') m = Inr False"
    and "py_in (asc ''location'') m = Inr False"
  shows "handler cfg w event = ([], Inr FUNC_RESPONSE)"
  using assms by (simp add: handler_def handle_message_def wr_return_def)

subsection \<open>Witnesses\<close>

theorem text_branch_help_witness:
  "py_get (sample_message [(asc ''text'', PStr (asc ''/help''))]) (asc ''text'') = Inr (PStr (asc ''/help''))
   \<and> py_substr (asc ''/help'') (asc ''/help'')
   \<and> text_branch sample_cfg (sample_world 200 None) (sample_message [(asc ''text'', PStr (asc ''/help''))])
       = answer sample_cfg (sample_world 200 None) msg_help (sample_message [(asc ''text'', PStr (asc ''/help''))])"
proof -
  have h: "py_get (sample_message [(asc ''text'', PStr (asc ''/help''))]) (asc ''text'') = Inr (PStr (asc ''/help''))"
    "py_substr (asc ''/help'') (asc ''/help'')"
    by (simp_all add: sample_message_def)
  show ?thesis using h text_branch_help [OF h] by blast
qed

theorem text_branch_not_found_witness:
  "py_get (sample_message [(asc ''text'', PStr (asc ''X''))]) (asc ''text'') = Inr (PStr (asc ''X''))
   \<and> \<not> py_substr (asc ''/help'') (asc ''X'') \<and> \<not> py_substr (asc ''/start'') (asc ''X'')
   \<and> http (sample_world 404 None) (owm_query_request (PStr (asc ''X''))) = Some (sample_response 404 None)
   \<and> status_code (sample_response 404 None) \<noteq> 200
   \<and> text_branch sample_cfg (sample_world 404 None) (sample_message [(asc ''text'', PStr (asc ''X''))]) =
       (Http (owm_query_request (PStr (asc ''X'')))
          # fst (answer sample_cfg (sample_world 404 None) (not_found_text (asc ''X''))
                  (sample_message [(asc ''text'', PStr (asc ''X''))])),
        snd (answer sample_cfg (sample_world 404 None) (not_found_text (asc ''X''))
                  (sample_message [(asc ''text'', PStr (asc ''X''))])))"
proof -
  have h: "py_get (sample_message [(asc ''text'', PStr (asc ''X''))]) (asc ''text'') = Inr (PStr (asc ''X''))"
    "\<not> py_substr (asc ''/help'') (asc ''X'')" "\<not> py_substr (asc ''/start'') (asc ''X'')"
    "http (sample_world 404 None) (owm_query_request (PStr (asc ''X''))) = Some (sample_response 404 None)"
    "status_code (sample_response 404 None) \<noteq> 200"
    by (simp_all add: sample_message_def sample_world_def sample_response_def)
  show ?thesis using h text_branch_not_found [OF h] by blast
qed

theorem voice_branch_too_long_witness:
  "py_get (sample_message [(asc ''voice'', PDict [(asc ''duration'', PInt 31)])]) (asc ''voice'')
     = Inr (PDict [(asc ''duration'', PInt 31)])
   \<and> py_get (PDict [(asc ''duration'', PInt 31)]) (asc ''duration'') = Inr (PInt 31)
   \<and> py_gt_int (PInt 31) 30 = Inr True
   \<and> voice_branch sample_cfg (sample_world 200 None) (sample_message [(asc ''voice'', PDict [(asc ''duration'', PInt 31)])])
     = answer sample_cfg (sample_world 200 None) msg_too_long
         (sample_message [(asc ''voice'', PDict [(asc ''duration'', PInt 31)])])"
proof -
  have h: "py_get (sample_message [(asc ''voice'', PDict [(asc ''duration'', PInt 31)])]) (asc ''voice'')
     = Inr (PDict [(asc ''duration'', PInt 31)])"
    "py_get (PDict [(asc ''duration'', PInt 31)]) (asc ''duration'') = Inr (PInt 31)"
    "py_gt_int (PInt 31) 30 = Inr True"
    by (simp_all add: sample_message_def py_gt_int_def py_num_def)
  show ?thesis using h voice_branch_too_long [OF h] by blast
qed

theorem voice_branch_stt_failure_witness:
  "let v = PDict [(asc ''duration'', PInt 10), (asc ''file_id'', PStr (asc ''f''))];
       m = sample_message [(asc ''voice'', v)];
       w = sample_world 500 (Some (PDict [(asc ''result'', PDict [(asc ''file_path'', PStr (asc ''p''))])]));
       t = [Http (Http_Post (TELEGRAM_API_URL sample_cfg @ asc ''/getFile'') []
                   (Json_Body (PDict [(asc ''file_id'', PStr (asc ''f''))]))),
            Http (Http_Get (file_url sample_cfg (PStr (asc ''p''))) [])]
   in py_get m (asc ''voice'') = Inr v \<and> py_get v (asc ''duration'') = Inr (PInt 10)
      \<and> py_gt_int (PInt 10) 30 = Inr False \<and> fetch_audio sample_cfg w v = (t, Inr [])
      \<and> http w (stt_request sample_cfg []) = Some (sample_response 500
            (Some (PDict [(asc ''result'', PDict [(asc ''file_path'', PStr (asc ''p''))])])))
      \<and> \<not> resp_ok (sample_response 500
            (Some (PDict [(asc ''result'', PDict [(asc ''file_path'', PStr (asc ''p''))])])))
      \<and> voice_branch sample_cfg w m =
           (t @ Http (stt_request sample_cfg []) # fst (answer sample_cfg w msg_not_recognized m),
            snd (answer sample_cfg w msg_not_recognized m))"
proof -
  define v where "v = PDict [(asc ''duration'', PInt 10), (asc ''file_id'', PStr (asc ''f''))]"
  define m where "m = sample_message [(asc ''voice'', v)]"
  define j where "j = PDict [(asc ''result'', PDict [(asc ''file_path'', PStr (asc ''p''))])]"
  define w where "w = sample_world 500 (Some j)"
  define t where "t = [Http (Http_Post (TELEGRAM_API_URL sample_cfg @ asc ''/getFile'') []
                   (Json_Body (PDict [(asc ''file_id'', PStr (asc ''f''))]))),
            Http (Http_Get (file_url sample_cfg (PStr (asc ''p''))) [])]"
  have h: "py_get m (asc ''voice'') = Inr v" "py_get v (asc ''duration'') = Inr (PInt 10)"
    "py_gt_int (PInt 10) 30 = Inr False" "fetch_audio sample_cfg w v = (t, Inr [])"
    "http w (stt_request sample_cfg []) = Some (sample_response 500 (Some j))"
    "\<not> resp_ok (sample_response 500 (Some j))"
    by (simp_all add: m_def v_def j_def w_def t_def sample_message_def py_gt_int_def py_num_def
        fetch_audio_def get_file_def http_call_def sample_world_def sample_response_def
        resp_json_def resp_ok_def wr_lift_def wr_return_def)
  show ?thesis
    unfolding Let_def v_def [symmetric] m_def [symmetric] j_def [symmetric] w_def [symmetric]
      t_def [symmetric]
    using h voice_branch_stt_failure [OF h] by blast
qed

theorem reply_by_voice_tts_ok_raises_witness:
  "utf8_encode [] = Inr [] \<and> http (sample_world 200 None) (tts_request sample_cfg []) = Some (sample_response 200 None)
   \<and> resp_ok (sample_response 200 None)
   \<and> reply_by_voice sample_cfg (sample_world 200 None) (sample_message []) []
       = ([Http (tts_request sample_cfg [])], Inl AttributeError)"
proof -
  have h: "utf8_encode [] = Inr []"
    "http (sample_world 200 None) (tts_request sample_cfg []) = Some (sample_response 200 None)"
    "resp_ok (sample_response 200 None)"
    by (simp_all add: sample_world_def sample_response_def resp_ok_def)
  show ?thesis using h reply_by_voice_tts_ok_raises [OF h] by blast
qed

theorem reply_by_voice_tts_failure_witness:
  "utf8_encode [] = Inr [] \<and> http (sample_world 500 None) (tts_request sample_cfg []) = Some (sample_response 500 None)
   \<and> \<not> resp_ok (sample_response 500 None)
   \<and> reply_by_voice sample_cfg (sample_world 500 None) (sample_message []) [] =
       (Http (tts_request sample_cfg []) # fst (answer_voice sample_cfg (sample_world 500 None) (asc ''speech.ogg'') (sample_message [])),
        snd (answer_voice sample_cfg (sample_world 500 None) (asc ''speech.ogg'') (sample_message [])))"
proof -
  have h: "utf8_encode [] = Inr []"
    "http (sample_world 500 None) (tts_request sample_cfg []) = Some (sample_response 500 None)"
    "\<not> resp_ok (sample_response 500 None)"
    by (simp_all add: sample_world_def sample_response_def resp_ok_def)
  show ?thesis using h reply_by_voice_tts_failure [OF h] by blast
qed

theorem location_branch_not_found_witness:
  "let loc = PDict [(asc ''latitude'', PInt 55), (asc ''longitude'', PInt 37)];
       m = sample_message [(asc ''location'', loc)]
   in py_get m (asc ''location'') = Inr loc \<and> py_get loc (asc ''latitude'') = Inr (PInt 55)
      \<and> py_get loc (asc ''longitude'') = Inr (PInt 37)
      \<and> http (sample_world 404 None) (owm_location_request (PInt 55) (PInt 37)) = Some (sample_response 404 None)
      \<and> status_code (sample_response 404 None) \<noteq> 200
      \<and> location_branch sample_cfg (sample_world 404 None) m =
           (Http (owm_location_request (PInt 55) (PInt 37))
              # fst (answer sample_cfg (sample_world 404 None) msg_location_unknown m),
            snd (answer sample_cfg (sample_world 404 None) msg_location_unknown m))"
proof -
  define loc where "loc = PDict [(asc ''latitude'', PInt 55), (asc ''longitude'', PInt 37)]"
  define m where "m = sample_message [(asc ''location'', loc)]"
  have h: "py_get m (asc ''location'') = Inr loc" "py_get loc (asc ''latitude'') = Inr (PInt 55)"
    "py_get loc (asc ''longitude'') = Inr (PInt 37)"
    "http (sample_world 404 None) (owm_location_request (PInt 55) (PInt 37)) = Some (sample_response 404 None)"
    "status_code (sample_response 404 None) \<noteq> 200"
    by (simp_all add: m_def loc_def sample_message_def sample_world_def sample_response_def)
  show ?thesis
    unfolding Let_def loc_def [symmetric] m_def [symmetric]
    using h location_branch_not_found [OF h] by blast
qed

theorem handler_no_payload_witness:
  "telegram_bot_token sample_cfg \<noteq> None
   \<and> py_get (PDict [(asc ''body'', PStr (asc ''{}''))]) (asc ''body'') = Inr (PStr (asc ''{}''))
   \<and> loads \<lparr>http = (\<lambda>_. None), json_loads = (\<lambda>_. Some (PDict [(asc ''message'', sample_message [])])),
        s3_put_ok = (\<lambda>_ _ _. False), tz = tz_cloud\<rparr> (PStr (asc ''{}''))
       = Inr (PDict [(asc ''message'', sample_message [])])
   \<and> py_in (asc ''message'') (PDict [(asc ''message'', sample_message [])]) = Inr True
   \<and> py_get (PDict [(asc ''message'', sample_message [])]) (asc ''message'') = Inr (sample_message [])
   \<and> py_in (asc ''text'') (sample_message []) = Inr False
   \<and> py_in (asc ''voice'') (sample_message []) = Inr False
   \<and> py_in (asc ''location'') (sample_message []) = Inr False
   \<and> handler sample_cfg \<lparr>http = (\<lambda>_. None), json_loads = (\<lambda>_. Some (PDict [(asc ''message'', sample_message [])])),
        s3_put_ok = (\<lambda>_ _ _. False), tz = tz_cloud\<rparr> (PDict [(asc ''body'', PStr (asc ''{}''))])
     = ([], Inr FUNC_RESPONSE)"
proof -
  have h: "telegram_bot_token sample_cfg \<noteq> None"
    "py_get (PDict [(asc ''body'', PStr (asc ''{}''))]) (asc ''body'') = Inr (PStr (asc ''{}''))"
    "loads \<lparr>http = (\<lambda>_. None), json_loads = (\<lambda>_. Some (PDict [(asc ''message'', sample_message [])])),
        s3_put_ok = (\<lambda>_ _ _. False), tz = tz_cloud\<rparr> (PStr (asc ''{}''))
       = Inr (PDict [(asc ''message'', sample_message [])])"
    "py_in (asc ''message'') (PDict [(asc ''message'', sample_message [])]) = Inr True"
    "py_get (PDict [(asc ''message'', sample_message [])]) (asc ''message'') = Inr (sample_message [])"
    "py_in (asc ''text'') (sample_message []) = Inr False"
    "py_in (asc ''voice'') (sample_message []) = Inr False"
    "py_in (asc ''location'') (sample_message []) = Inr False"
    by (simp_all add: sample_cfg_def loads_def sample_message_def)
  show ?thesis using h handler_no_payload [OF h] by blast
qed

subsection \<open>One reply per update\<close>

lemma answer_one [count_intros]: "wr_count (is_reply cfg) (answer cfg w t m) \<le> 1"
  unfolding answer_def by (rule wr_count_bind_last) (rule send_message_one, rule wr_count_return)

lemma answer_voice_one [count_intros]: "wr_count (is_reply cfg) (answer_voice cfg w f m) \<le> 1"
  unfolding answer_voice_def
  by (rule wr_count_bind_last) (rule send_voice_one, rule wr_count_return)

lemma service_requests_not_reply:
  "\<not> is_reply cfg (Http (stt_request cfg a))" "\<not> is_reply cfg (Http (tts_request cfg b))"
  by (simp_all add: is_reply_def stt_request_def tts_request_def TELEGRAM_API_URL_def)

lemma fetch_audio_quiet [count_intros]: "wr_count (is_reply cfg) (fetch_audio cfg w v) = 0"
  unfolding fetch_audio_def by (intro count_intros) (simp add: wr_count_http_call)

lemma reply_by_voice_one [count_intros]: "wr_count (is_reply cfg) (reply_by_voice cfg w m r) \<le> 1"
  unfolding reply_by_voice_def
  by (intro count_intros) (simp_all add: wr_count_http_call service_requests_not_reply)

lemma branches_one [count_intros]:
  "wr_count (is_reply cfg) (text_branch cfg w m) \<le> 1"
  "wr_count (is_reply cfg) (voice_branch cfg w m) \<le> 1"
  "wr_count (is_reply cfg) (location_branch cfg w m) \<le> 1"
  unfolding text_branch_def voice_branch_def location_branch_def
  by (intro count_intros; simp add: wr_count_http_call service_requests_not_reply)+

lemma handle_message_one [count_intros]: "wr_count (is_reply cfg) (handle_message cfg w m) \<le> 1"
  unfolding handle_message_def by (intro count_intros)

lemma handler_reply_count: "wr_count (is_reply cfg) (handler cfg w event) \<le> 1"
  unfolding handler_def by (intro count_intros)

text \<open>C19: one invocation sends at most one reply (sendMessage or sendVoice), whatever the
  update and whatever the services answer.\<close>

theorem handler_at_most_one_reply:
  "length (filter (is_reply cfg) (fst (handler cfg w event))) \<le> 1"
  using handler_reply_count [of cfg w event] by (simp add: wr_count_def)

subsection \<open>The weather report\<close>

text \<open>C21: a report the formatter produces is the description followed by every field
  under its label, in the order of line 157: the temperature and the felt temperature
  read from \<open>main.temp\<close> and \<open>main.feels_like\<close>, pressure, humidity, visibility and wind
  speed, the compass label of \<open>wind.deg\<close> (always one of the first eight), and the
  \<open>HH:MM\<close> times of \<open>sys.sunrise\<close> and \<open>sys.sunset\<close>, in that order.\<close>

theorem weather_text_content:
  assumes "weather_text tze wd = Inr txt"
  shows "(\<exists>d t f p h v sp k a b.
         py_path wd [Key (asc ''weather''), Idx 0, Key (asc ''description'')] = Inr d
       \<and> py_path wd [Key (asc ''main''), Key (asc ''temp'')] = Inr t
       \<and> py_path wd [Key (asc ''main''), Key (asc ''feels_like'')] = Inr f
       \<and> py_path wd [Key (asc ''main''), Key (asc ''pressure'')] = Inr p
       \<and> py_path wd [Key (asc ''main''), Key (asc ''humidity'')] = Inr h
       \<and> py_path wd [Key (asc ''visibility'')] = Inr v
       \<and> py_path wd [Key (asc ''wind''), Key (asc ''speed'')] = Inr sp
       \<and> k < 8 \<and> pbind (py_path wd [Key (asc ''wind''), Key (asc ''deg'')]) degToCompass = Inr (compass_arr ! k)
       \<and> pbind (py_path wd [Key (asc ''sys''), Key (asc ''sunrise'')]) (convertUnixToTime tze) = Inr (hhmm a)
       \<and> pbind (py_path wd [Key (asc ''sys''), Key (asc ''sunset'')]) (convertUnixToTime tze) = Inr (hhmm b)
       \<and> txt = py_str d @ wt_temperature @ py_str t @ wt_feels_like @ py_str f
            @ wt_pressure @ py_str p @ wt_humidity @ py_str h @ wt_visibility
            @ py_str v @ wt_wind @ py_str sp @ wt_direction @ compass_arr ! k
            @ wt_sunrise @ hhmm a @ wt_sunset @ hhmm b @ wt_end)"
proof -
  from assms obtain d t f p h v sp dir sr ss where
    fields: "py_path wd [Key (asc ''weather''), Idx 0, Key (asc ''description'')] = Inr d"
      "py_path wd [Key (asc ''main''), Key (asc ''temp'')] = Inr t"
      "py_path wd [Key (asc ''main''), Key (asc ''feels_like'')] = Inr f"
      "py_path wd [Key (asc ''main''), Key (asc ''pressure'')] = Inr p"
      "py_path wd [Key (asc ''main''), Key (asc ''humidity'')] = Inr h"
      "py_path wd [Key (asc ''visibility'')] = Inr v"
      "py_path wd [Key (asc ''wind''), Key (asc ''speed'')] = Inr sp" and
    dir: "pbind (py_path wd [Key (asc ''wind''), Key (asc ''deg'')]) degToCompass = Inr dir" and
    sr: "pbind (py_path wd [Key (asc ''sys''), Key (asc ''sunrise'')]) (convertUnixToTime tze) = Inr sr" and
    ss: "pbind (py_path wd [Key (asc ''sys''), Key (asc ''sunset'')]) (convertUnixToTime tze) = Inr ss" and
    rep: "txt = py_str d @ wt_temperature @ py_str t @ wt_feels_like @ py_str f
          @ wt_pressure @ py_str p @ wt_humidity @ py_str h @ wt_visibility
          @ py_str v @ wt_wind @ py_str sp @ wt_direction @ dir
          @ wt_sunrise @ sr @ wt_sunset @ ss @ wt_end"
    unfolding weather_text_def pbind_eq_Inr by blast
  from dir obtain k where k: "k < 8" "dir = compass_arr ! k"
    using degToCompass_Inr_index by (auto simp: pbind_eq_Inr)
  from sr ss obtain a b where ab: "sr = hhmm a" "ss = hhmm b"
    using convertUnixToTime_Inr_hhmm by (auto simp: pbind_eq_Inr) blast
  show ?thesis using fields dir sr ss rep k ab by blast
qed

text \<open>C22: OpenWeatherMap may leave out \<open>visibility\<close>; the formatter then raises
  KeyError, and the branch that called it sends no reply.\<close>

theorem weather_text_missing_visibility:
  assumes "py_path wd [Key (asc ''weather''), Idx 0, Key (asc ''description'')] = Inr d"
    and "py_path wd [Key (asc ''main''), Key (asc ''temp'')] = Inr t"
    and "py_path wd [Key (asc ''main''), Key (asc ''feels_like'')] = Inr f"
    and "py_path wd [Key (asc ''main''), Key (asc ''pressure'')] = Inr p"
    and "py_path wd [Key (asc ''main''), Key (asc ''humidity'')] = Inr h"
    and "wd = PDict kvs" and "map_of kvs (asc ''visibility'') = None"
  shows "weather_text tze wd = Inl (KeyError (PStr (asc ''visibility'')))"
  using assms by (simp add: weather_text_def)

theorem weather_text_content_witness:
  "\<exists>txt. weather_text tz_cloud sample_weather = Inr txt
     \<and> (\<exists>d t f p h v sp k a b.
            py_path sample_weather [Key (asc ''weather''), Idx 0, Key (asc ''description'')] = Inr d
          \<and> py_path sample_weather [Key (asc ''main''), Key (asc ''temp'')] = Inr t
          \<and> py_path sample_weather [Key (asc ''main''), Key (asc ''feels_like'')] = Inr f
          \<and> py_path sample_weather [Key (asc ''main''), Key (asc ''pressure'')] = Inr p
          \<and> py_path sample_weather [Key (asc ''main''), Key (asc ''humidity'')] = Inr h
          \<and> py_path sample_weather [Key (asc ''visibility'')] = Inr v
          \<and> py_path sample_weather [Key (asc ''wind''), Key (asc ''speed'')] = Inr sp
          \<and> k < 8 \<and> pbind (py_path sample_weather [Key (asc ''wind''), Key (asc ''deg'')]) degToCompass = Inr (compass_arr ! k)
          \<and> pbind (py_path sample_weather [Key (asc ''sys''), Key (asc ''sunrise'')]) (convertUnixToTime tz_cloud) = Inr (hhmm a)
          \<and> pbind (py_path sample_weather [Key (asc ''sys''), Key (asc ''sunset'')]) (convertUnixToTime tz_cloud) = Inr (hhmm b)
          \<and> txt = py_str d @ wt_temperature @ py_str t @ wt_feels_like @ py_str f
               @ wt_pressure @ py_str p @ wt_humidity @ py_str h @ wt_visibility
               @ py_str v @ wt_wind @ py_str sp @ wt_direction @ compass_arr ! k
               @ wt_sunrise @ hhmm a @ wt_sunset @ hhmm b @ wt_end)"
proof -
  have "\<exists>txt. weather_text tz_cloud sample_weather = Inr txt"
    by (simp add: weather_text_def sample_weather_def sample_report_fields_def degToCompass_def
        py_num_def convertUnixToTime_def tz_cloud_def dt_min_def dt_max_def py_index_def seq_index_def)
  then obtain r where e: "weather_text tz_cloud sample_weather = Inr r" by blast
  show ?thesis using e weather_text_content [OF e] by blast
qed

theorem weather_text_missing_visibility_witness:
  "py_path (PDict sample_report_fields) [Key (asc ''weather''), Idx 0, Key (asc ''description'')]
     = Inr (PStr (asc ''clear''))
   \<and> py_path (PDict sample_report_fields) [Key (asc ''main''), Key (asc ''temp'')] = Inr (PInt 5)
   \<and> py_path (PDict sample_report_fields) [Key (asc ''main''), Key (asc ''feels_like'')] = Inr (PInt 2)
   \<and> py_path (PDict sample_report_fields) [Key (asc ''main''), Key (asc ''pressure'')] = Inr (PInt 1012)
   \<and> py_path (PDict sample_report_fields) [Key (asc ''main''), Key (asc ''humidity'')] = Inr (PInt 80)
   \<and> map_of sample_report_fields (asc ''visibility'') = None
   \<and> weather_text tz_cloud (PDict sample_report_fields) = Inl (KeyError (PStr (asc ''visibility'')))"
proof -
  have h: "py_path (PDict sample_report_fields) [Key (asc ''weather''), Idx 0, Key (asc ''description'')]
             = Inr (PStr (asc ''clear''))"
    "py_path (PDict sample_report_fields) [Key (asc ''main''), Key (asc ''temp'')] = Inr (PInt 5)"
    "py_path (PDict sample_report_fields) [Key (asc ''main''), Key (asc ''feels_like'')] = Inr (PInt 2)"
    "py_path (PDict sample_report_fields) [Key (asc ''main''), Key (asc ''pressure'')] = Inr (PInt 1012)"
    "py_path (PDict sample_report_fields) [Key (asc ''main''), Key (asc ''humidity'')] = Inr (PInt 80)"
    "map_of sample_report_fields (asc ''visibility'') = None"
    by (simp_all add: sample_report_fields_def py_index_def seq_index_def)
  show ?thesis using h weather_text_missing_visibility [OF h(1-5) refl h(6), of tz_cloud] by blast
qed

end
