(* ===== verification/Delivery.thy ===== *)
theory Delivery
  imports Handler
begin

text \<open>
  One invocation by the cloud runtime (src/tgbot_weather/spr23-21-tgbot-weather.py):
  the module is imported, which reads its globals from the environment (lines 11-24,
  \<open>module_init\<close>), and then \<open>handler\<close> is called on the event.
\<close>

text \<open>An exception raised by the import fails the invocation before any call is made.\<close>

definition invoke :: "(ustr \<rightharpoonup> ustr) \<Rightarrow> world \<Rightarrow> pyval \<Rightarrow> (effect, pyval) py" where
  "invoke environ w event =
     (case module_init environ of Inl e \<Rightarrow> ([], Inl e) | Inr cfg \<Rightarrow> handler cfg w event)"

section \<open>A missing service key\<close>

text \<open>C27: \<open>API_KEY\<close> and \<open>API_KEY_VOICE\<close> are read with \<open>os.environ[...]\<close>, so when
  either is unset the import raises KeyError and every invocation fails with no call
  made, whatever the update; only a missing bot token is tolerated (and then answered
  with the acknowledgement).\<close>

theorem invoke_missing_api_key:
  assumes "environ (asc ''API_KEY'') = None \<or> environ (asc ''API_KEY_VOICE'') = None"
  shows "invoke environ w event = ([], Inl (KeyError (PStr (asc ''API_KEY''))))
         \<or> invoke environ w event = ([], Inl (KeyError (PStr (asc ''API_KEY_VOICE''))))"
  using assms by (auto simp: invoke_def module_init_def environ_item_def split: option.splits)

theorem invoke_missing_api_key_witness:
  "(Map.empty (asc ''API_KEY'') = None \<or> Map.empty (asc ''API_KEY_VOICE'') = None)
   \<and> invoke Map.empty (sample_world 200 None) (PDict []) = ([], Inl (KeyError (PStr (asc ''API_KEY''))))"
proof -
  have h: "(Map.empty :: ustr \<rightharpoonup> ustr) (asc ''API_KEY'') = None \<or> (Map.empty :: ustr \<rightharpoonup> ustr) (asc ''API_KEY_VOICE'') = None"
    by simp
  have "invoke Map.empty (sample_world 200 None) (PDict []) = ([], Inl (KeyError (PStr (asc ''API_KEY''))))"
    using invoke_missing_api_key [OF h, of "sample_world 200 None" "PDict []"] by (simp add: invoke_def module_init_def environ_item_def)
  then show ?thesis using h by blast
qed

end
