(* ===== verification/Quote.thy ===== *)
theory Quote
  imports Unicode
begin

text \<open>
  \<open>urllib.parse.quote\<close>, which src/task.py applies to object keys before printing their
  URLs (lines 60 and 73). It is library code the script only calls; it is modelled so that
  the URLs the script prints (theory \<open>Task\<close>) are computed exactly. \<open>quote(string,
  safe='/')\<close> encodes the string as UTF-8 (a lone surrogate raises UnicodeEncodeError)
  and writes each byte as itself when it is an ASCII letter or digit, one of
  \<open>_.-~\<close>, or an ASCII character of \<open>safe\<close>, and as \<open>%XX\<close> with upper-case hex
  digits otherwise.
\<close>

definition always_safe :: "nat \<Rightarrow> bool" where
  "always_safe c \<longleftrightarrow> (65 \<le> c \<and> c \<le> 90) \<or> (97 \<le> c \<and> c \<le> 122) \<or> (48 \<le> c \<and> c \<le> 57)
                     \<or> c = 95 \<or> c = 46 \<or> c = 45 \<or> c = 126"

definition hex_upper :: "nat \<Rightarrow> nat" where
  "hex_upper d = (if d < 10 then 48 + d else 55 + d)"

text \<open>\<open>_byte_quoter_factory(safe)\<close>: the non-ASCII characters of \<open>safe\<close> are dropped
  (\<open>safe.encode('ascii', 'ignore')\<close>).\<close>

definition quote_byte :: "ustr \<Rightarrow> byte \<Rightarrow> ustr" where
  "quote_byte safe b =
     (let n = unat b in
      if always_safe n \<or> (n < 128 \<and> n \<in> set safe) then [n]
      else [37, hex_upper (n div 16), hex_upper (n mod 16)])"

definition quote_from_bytes :: "ustr \<Rightarrow> bytes \<Rightarrow> ustr" where
  "quote_from_bytes safe bs = concat (map (quote_byte safe) bs)"

definition quote :: "ustr \<Rightarrow> ustr \<Rightarrow> exn + ustr" where
  "quote string safe = pbind (utf8_encode string) (\<lambda>bs. Inr (quote_from_bytes safe bs))"

text \<open>\<open>urllib.parse.quote(key)\<close> with the default \<open>safe='/'\<close>.\<close>

definition url_quote :: "ustr \<Rightarrow> exn + ustr" where
  "url_quote key = quote key (asc ''/'')"

section \<open>Lemmas\<close>

lemma unat_byte: "n < 256 \<Longrightarrow> unat (of_nat n :: byte) = n"
  by (simp add: unat_of_nat)

end
