(* ===== verification/Storage.thy ===== *)
theory Storage
  imports Quote "HOL-Library.State_Monad" "HOL-Library.List_Lexorder" "HOL-Library.AList"
begin

text \<open>
  Yandex Object Storage as src/task.py uses it through boto3, and the monad the script
  runs in. The object store is modelled by its documented behaviour (it is a service the script
  only calls): a list of buckets by name, each with its objects by key, its ACL and its
  web-site configuration. Every call is checked against the permission oracle
  \<open>s3_allowed\<close> of the profile making it. The script runs in the state monad of
  \<open>HOL-Library.State_Monad\<close> over \<open>task_state\<close> (the store, the local files and the
  printed lines) with results \<open>task_exn + 'a\<close>, so that an exception stops the script
  while the state it left behind (objects already written, lines already printed)
  remains observable.
\<close>

section \<open>The object store\<close>

datatype s3_error = No_Such_Bucket | Bucket_Already_Exists | Access_Denied

datatype s3_action = Act_List_Buckets | Act_Create_Bucket | Act_Put_Object | Act_List_Objects
  | Act_Put_Website

record s3_object =
  obj_body :: bytes
  obj_content_type :: "ustr option"

record bucket =
  bucket_objects :: "(ustr \<times> s3_object) list"
  bucket_public_read :: bool
  bucket_website :: "(ustr \<times> ustr) option"

type_synonym store = "(ustr \<times> bucket) list"

text \<open>A bucket created without an \<open>ACL\<close> argument is private.\<close>

definition empty_bucket :: bucket where
  "empty_bucket = \<lparr>bucket_objects = [], bucket_public_read = False, bucket_website = None\<rparr>"

definition s3_create_bucket :: "ustr \<Rightarrow> store \<Rightarrow> s3_error + store" where
  "s3_create_bucket name st =
     (if map_of st name = None then Inr (AList.update name empty_bucket st)
      else Inl Bucket_Already_Exists)"

definition s3_update_bucket :: "ustr \<Rightarrow> (bucket \<Rightarrow> bucket) \<Rightarrow> store \<Rightarrow> s3_error + store" where
  "s3_update_bucket name f st =
     (if map_of st name = None then Inl No_Such_Bucket else Inr (AList.map_entry name f st))"

definition s3_put_object :: "ustr \<Rightarrow> ustr \<Rightarrow> s3_object \<Rightarrow> store \<Rightarrow> s3_error + store" where
  "s3_put_object name key obj =
     s3_update_bucket name (\<lambda>b. b\<lparr>bucket_objects := AList.update key obj (bucket_objects b)\<rparr>)"

definition s3_put_website :: "ustr \<Rightarrow> ustr \<times> ustr \<Rightarrow> store \<Rightarrow> s3_error + store" where
  "s3_put_website name cfg = s3_update_bucket name (\<lambda>b. b\<lparr>bucket_website := Some cfg\<rparr>)"

text \<open>Listings are sorted by name and key.\<close>

definition s3_list_buckets :: "store \<Rightarrow> ustr list" where
  "s3_list_buckets st = sort (map fst st)"

definition s3_list_objects :: "ustr \<Rightarrow> store \<Rightarrow> s3_error + (ustr \<times> nat) list" where
  "s3_list_objects name st =
     (case map_of st name of
        None \<Rightarrow> Inl No_Such_Bucket
      | Some b \<Rightarrow> Inr (map (\<lambda>(k, ob). (k, length (obj_body ob))) (sort_key fst (bucket_objects b))))"

definition store_wf :: "store \<Rightarrow> bool" where
  "store_wf st \<longleftrightarrow> distinct (map fst st) \<and> (\<forall>b \<in> snd ` set st. distinct (map fst (bucket_objects b)))"

text \<open>The buckets whose ACL grants public read.\<close>

definition public_buckets :: "store \<Rightarrow> ustr list" where
  "public_buckets st = map fst (filter (\<lambda>(n, b). bucket_public_read b) st)"

section \<open>The script's state and its monad\<close>

datatype task_exn =
    Py_Exn exn
  | Client_Error s3_error
  | S3_Upload_Failed s3_error
  | File_Not_Found ustr
  | Profile_Not_Found ustr

record task_state =
  s3_store :: store
  local_files :: "(ustr \<times> bytes) list"
  stdout :: "ustr list"

text \<open>The environment: the profiles of the AWS configuration files, the permissions of
  each profile's service account, and the answer to the photo download (status and body,
  or None when the connection fails).\<close>

record task_env =
  aws_profiles :: "ustr list"
  s3_allowed :: "ustr \<Rightarrow> s3_action \<Rightarrow> bool"
  photo_get :: "(int \<times> bytes) option"

type_synonym 'a task = "(task_state, task_exn + 'a) state"

definition t_return :: "'a \<Rightarrow> 'a task" where
  "t_return x = State_Monad.return (Inr x)"

definition t_raise :: "task_exn \<Rightarrow> 'a task" where
  "t_raise e = State_Monad.return (Inl e)"

definition t_bind :: "'a task \<Rightarrow> ('a \<Rightarrow> 'b task) \<Rightarrow> 'b task" where
  "t_bind m f = State_Monad.bind m (\<lambda>r. case r of Inl e \<Rightarrow> State_Monad.return (Inl e) | Inr x \<Rightarrow> f x)"

definition t_get :: "task_state task" where
  "t_get = State_Monad.bind State_Monad.get (\<lambda>s. State_Monad.return (Inr s))"

definition t_update :: "(task_state \<Rightarrow> task_state) \<Rightarrow> unit task" where
  "t_update f = State_Monad.bind (State_Monad.update f) (\<lambda>_. State_Monad.return (Inr ()))"

definition t_py :: "exn + 'a \<Rightarrow> 'a task" where
  "t_py r = State_Monad.return (case r of Inl e \<Rightarrow> Inl (Py_Exn e) | Inr x \<Rightarrow> Inr x)"

fun t_for :: "('a \<Rightarrow> unit task) \<Rightarrow> 'a list \<Rightarrow> unit task" where
  "t_for f [] = t_return ()"
| "t_for f (x # xs) = t_bind (f x) (\<lambda>_. t_for f xs)"

definition py_print :: "ustr \<Rightarrow> unit task" where
  "py_print line = t_update (\<lambda>s. s\<lparr>stdout := stdout s @ [line]\<rparr>)"

section \<open>The boto3 calls\<close>

text \<open>\<open>boto3.session.Session(profile_name=p)\<close> raises ProfileNotFound for a profile
  that the configuration files do not define.\<close>

definition session :: "task_env \<Rightarrow> ustr \<Rightarrow> ustr task" where
  "session env profile =
     (if profile \<in> set (aws_profiles env) then t_return profile else t_raise (Profile_Not_Found profile))"

text \<open>A call that changes the store; \<open>wrap\<close> is the exception boto3 raises on an error
  answer (ClientError, or S3UploadFailedError for \<open>upload_file\<close>).\<close>

definition s3_call :: "task_env \<Rightarrow> ustr \<Rightarrow> s3_action \<Rightarrow> (store \<Rightarrow> s3_error + store)
                         \<Rightarrow> (s3_error \<Rightarrow> task_exn) \<Rightarrow> unit task" where
  "s3_call env profile act f wrap =
     t_bind t_get (\<lambda>s.
       if \<not> s3_allowed env profile act then t_raise (wrap Access_Denied) else
       case f (s3_store s) of
         Inl e \<Rightarrow> t_raise (wrap e)
       | Inr st' \<Rightarrow> t_update (\<lambda>s. s\<lparr>s3_store := st'\<rparr>))"

text \<open>A call that reads the store.\<close>

definition s3_query :: "task_env \<Rightarrow> ustr \<Rightarrow> s3_action \<Rightarrow> (store \<Rightarrow> s3_error + 'a) \<Rightarrow> 'a task" where
  "s3_query env profile act q =
     t_bind t_get (\<lambda>s.
       if \<not> s3_allowed env profile act then t_raise (Client_Error Access_Denied) else
       case q (s3_store s) of Inl e \<Rightarrow> t_raise (Client_Error e) | Inr x \<Rightarrow> t_return x)"

definition object_put :: "task_env \<Rightarrow> ustr \<Rightarrow> ustr \<Rightarrow> ustr \<Rightarrow> bytes \<Rightarrow> ustr option \<Rightarrow> unit task" where
  "object_put env profile bucket key body ctype =
     s3_call env profile Act_Put_Object
       (s3_put_object bucket key \<lparr>obj_body = body, obj_content_type = ctype\<rparr>) Client_Error"

definition upload_file :: "task_env \<Rightarrow> ustr \<Rightarrow> ustr \<Rightarrow> ustr \<Rightarrow> ustr \<Rightarrow> unit task" where
  "upload_file env profile bucket key filename =
     t_bind t_get (\<lambda>s.
       case map_of (local_files s) filename of
         None \<Rightarrow> t_raise (File_Not_Found filename)
       | Some body \<Rightarrow>
           s3_call env profile Act_Put_Object
             (s3_put_object bucket key \<lparr>obj_body = body, obj_content_type = None\<rparr>) S3_Upload_Failed)"

text \<open>\<open>Bucket.create()\<close>.\<close>

definition create_bucket :: "task_env \<Rightarrow> ustr \<Rightarrow> ustr \<Rightarrow> unit task" where
  "create_bucket env profile name = s3_call env profile Act_Create_Bucket (s3_create_bucket name) Client_Error"

text \<open>\<open>BucketWebsite.put(WebsiteConfiguration=...)\<close> with the index suffix and the
  error document.\<close>

definition put_website :: "task_env \<Rightarrow> ustr \<Rightarrow> ustr \<Rightarrow> ustr \<times> ustr \<Rightarrow> unit task" where
  "put_website env profile bucket cfg =
     s3_call env profile Act_Put_Website (s3_put_website bucket cfg) Client_Error"


text \<open>An invariant of the script's state: every run from a state that satisfies it ends
  in one that does, whether the computation returns or raises.\<close>

definition t_inv :: "(task_state \<Rightarrow> bool) \<Rightarrow> 'a task \<Rightarrow> bool" where
  "t_inv I m \<longleftrightarrow> state_io_rel (\<lambda>s s'. I s \<longrightarrow> I s') m"

section \<open>Running the monad\<close>

named_theorems run_simps "how the script's combinators run"

lemma run_t_return [run_simps]: "run_state (t_return x) s = (Inr x, s)"
  and run_t_raise [run_simps]: "run_state (t_raise e) s = (Inl e, s)"
  and run_t_get [run_simps]: "run_state t_get s = (Inr s, s)"
  and run_t_update [run_simps]: "run_state (t_update f) s = (Inr (), f s)"
  and run_t_py [run_simps]: "run_state (t_py r) s = (case r of Inl e \<Rightarrow> Inl (Py_Exn e) | Inr x \<Rightarrow> Inr x, s)"
  by (simp_all add: t_return_def t_raise_def t_get_def t_update_def t_py_def State_Monad.update_def)

lemma run_t_bind [run_simps]:
  "run_state (t_bind m f) s =
     (case run_state m s of (Inl e, s') \<Rightarrow> (Inl e, s') | (Inr x, s') \<Rightarrow> run_state (f x) s')"
  by (simp add: t_bind_def split: prod.splits sum.splits)

lemma run_t_bind_Inr [simp]:
  "run_state m s = (Inr x, s') \<Longrightarrow> run_state (t_bind m f) s = run_state (f x) s'"
  by (simp add: run_t_bind)

lemma run_t_bind_Inl [simp]:
  "run_state m s = (Inl e, s') \<Longrightarrow> run_state (t_bind m f) s = (Inl e, s')"
  by (simp add: run_t_bind)


lemma run_t_for_print:
  "run_state (t_for (\<lambda>x. py_print (g x)) xs) s = (Inr (), s\<lparr>stdout := stdout s @ map g xs\<rparr>)"
  by (induction xs arbitrary: s) (simp_all add: run_simps py_print_def)

subsection \<open>Association lists\<close>

lemma alist_update_new: "map_of st k = None \<Longrightarrow> AList.update k v st = st @ [(k, v)]"
  by (induction st) auto

lemma map_entry_last: "map_of st k = None \<Longrightarrow> AList.map_entry k f (st @ [(k, w)]) = st @ [(k, f w)]"
  by (induction st) auto

lemma fold_map_entry_last: "map_of st n = None \<Longrightarrow>
   fold (\<lambda>k. AList.map_entry n (f k)) ks (st @ [(n, b)]) = st @ [(n, fold f ks b)]"
  by (induction ks arbitrary: b) (simp_all add: map_entry_last)

lemma snd_map_entry: "b \<in> snd ` set (AList.map_entry k f st) \<Longrightarrow> b \<in> snd ` set st \<or> (\<exists>b' \<in> snd ` set st. b = f b')"
  by (induction st) (auto split: if_splits)

subsection \<open>The boto3 calls on a store that has the bucket\<close>

abbreviation put_entry :: "ustr \<Rightarrow> s3_object \<Rightarrow> bucket \<Rightarrow> bucket" where
  "put_entry k ob b \<equiv> b\<lparr>bucket_objects := AList.update k ob (bucket_objects b)\<rparr>"

lemma run_session: "p \<in> set (aws_profiles env) \<Longrightarrow> run_state (session env p) s = (Inr p, s)"
  by (simp add: session_def run_simps)

lemma run_create_bucket: "s3_allowed env p Act_Create_Bucket \<Longrightarrow> map_of (s3_store s) n = None \<Longrightarrow>
   run_state (create_bucket env p n) s = (Inr (), s\<lparr>s3_store := s3_store s @ [(n, empty_bucket)]\<rparr>)"
  by (simp add: create_bucket_def s3_call_def s3_create_bucket_def run_simps alist_update_new)

lemma run_object_put: "s3_allowed env p Act_Put_Object \<Longrightarrow> map_of (s3_store s) n \<noteq> None \<Longrightarrow>
   run_state (object_put env p n k body ct) s =
     (Inr (), s\<lparr>s3_store := AList.map_entry n (put_entry k \<lparr>obj_body = body, obj_content_type = ct\<rparr>) (s3_store s)\<rparr>)"
  by (simp add: object_put_def s3_call_def s3_put_object_def s3_update_bucket_def run_simps)

lemma run_object_puts: "s3_allowed env p Act_Put_Object \<Longrightarrow> map_of (s3_store s) n \<noteq> None \<Longrightarrow>
   run_state (t_for (\<lambda>k. object_put env p n k body ct) ks) s =
     (Inr (), s\<lparr>s3_store := fold (\<lambda>k. AList.map_entry n (put_entry k \<lparr>obj_body = body, obj_content_type = ct\<rparr>)) ks (s3_store s)\<rparr>)"
proof (induction ks arbitrary: s)
  case Nil
  then show ?case by (simp add: run_simps)
next
  case (Cons k ks)
  from Cons.prems obtain b where b: "map_of (s3_store s) n = Some b" by auto
  show ?case using Cons.prems b by (simp add: run_simps run_object_put Cons.IH map_of_map_entry)
qed

lemma run_upload_file: "s3_allowed env p Act_Put_Object \<Longrightarrow> map_of (s3_store s) n \<noteq> None \<Longrightarrow>
   map_of (local_files s) f \<noteq> None \<Longrightarrow>
   run_state (upload_file env p n k f) s =
     (Inr (), s\<lparr>s3_store := AList.map_entry n (put_entry k \<lparr>obj_body = the (map_of (local_files s) f),
                                                            obj_content_type = None\<rparr>) (s3_store s)\<rparr>)"
  by (auto simp: upload_file_def s3_call_def s3_put_object_def s3_update_bucket_def run_simps)

lemma run_put_website: "s3_allowed env p Act_Put_Website \<Longrightarrow> map_of (s3_store s) n \<noteq> None \<Longrightarrow>
   run_state (put_website env p n cfg) s =
     (Inr (), s\<lparr>s3_store := AList.map_entry n (\<lambda>b. b\<lparr>bucket_website := Some cfg\<rparr>) (s3_store s)\<rparr>)"
  by (simp add: put_website_def s3_call_def s3_put_website_def s3_update_bucket_def run_simps)

lemma objects_put_entries:
  "bucket_objects (fold (\<lambda>k. put_entry k ob) ks b) = fold (\<lambda>k. AList.update k ob) ks (bucket_objects b)"
  "bucket_website (fold (\<lambda>k. put_entry k ob) ks b) = bucket_website b"
  "bucket_public_read (fold (\<lambda>k. put_entry k ob) ks b) = bucket_public_read b"
  by (induction ks arbitrary: b) simp_all

lemma bucket_set_all: "r\<lparr>bucket_website := w, bucket_objects := os\<rparr> =
   \<lparr>bucket_objects = os, bucket_public_read = bucket_public_read r, bucket_website = w\<rparr>"
  by (cases r) simp

subsection \<open>Invariants of the script's state\<close>

named_theorems inv_intros "rules that establish t_inv"

lemma t_inv_return [inv_intros]: "t_inv I (t_return x)"
  and t_inv_raise [inv_intros]: "t_inv I (t_raise e)"
  and t_inv_get [inv_intros]: "t_inv I t_get"
  and t_inv_py [inv_intros]: "t_inv I (t_py r)"
  by (auto simp: t_inv_def state_io_rel_def run_simps)

lemma t_inv_update [inv_intros]: "(\<And>s. I s \<Longrightarrow> I (f s)) \<Longrightarrow> t_inv I (t_update f)"
  by (simp add: t_inv_def state_io_rel_def run_simps)

lemma t_inv_bind [inv_intros]: "t_inv I m \<Longrightarrow> (\<And>x. t_inv I (f x)) \<Longrightarrow> t_inv I (t_bind m f)"
  unfolding t_inv_def state_io_rel_def
  by (auto simp: run_t_bind split: prod.splits sum.splits)

lemma t_inv_if [inv_intros]: "t_inv I a \<Longrightarrow> t_inv I b \<Longrightarrow> t_inv I (if c then a else b)"
  by simp

lemma t_inv_for [inv_intros]: "(\<And>x. x \<in> set xs \<Longrightarrow> t_inv I (f x)) \<Longrightarrow> t_inv I (t_for f xs)"
  by (induction xs) (simp_all add: inv_intros)

text \<open>Invariants of the store alone: the calls that leave it alone keep them, and a call
  that changes it keeps one its store operation keeps.\<close>

abbreviation store_inv :: "(store \<Rightarrow> bool) \<Rightarrow> 'a task \<Rightarrow> bool" where
  "store_inv J m \<equiv> t_inv (\<lambda>s. J (s3_store s)) m"

definition op_keeps :: "(store \<Rightarrow> bool) \<Rightarrow> (store \<Rightarrow> s3_error + store) \<Rightarrow> bool" where
  "op_keeps J f \<longleftrightarrow> (\<forall>st st'. J st \<longrightarrow> f st = Inr st' \<longrightarrow> J st')"

lemma store_inv_print [inv_intros]: "store_inv J (py_print l)"
  by (simp add: py_print_def inv_intros)

lemma store_inv_session [inv_intros]: "store_inv J (session env p)"
  by (simp add: session_def inv_intros)

lemma store_inv_query [inv_intros]: "store_inv J (s3_query env p a q)"
  unfolding s3_query_def by (intro inv_intros) (simp split: sum.splits add: inv_intros)

lemma store_inv_call [inv_intros]: "op_keeps J f \<Longrightarrow> store_inv J (s3_call env p a f w)"
  by (auto simp: t_inv_def state_io_rel_def op_keeps_def s3_call_def run_simps split: sum.splits)

lemma store_inv_object_put [inv_intros]:
  "(\<And>ob. op_keeps J (s3_put_object n k ob)) \<Longrightarrow> store_inv J (object_put env p n k body ct)"
  by (simp add: object_put_def inv_intros)

lemma store_inv_upload_file [inv_intros]:
  "(\<And>ob. op_keeps J (s3_put_object n k ob)) \<Longrightarrow> store_inv J (upload_file env p n k f)"
  unfolding upload_file_def by (intro inv_intros) (simp split: option.splits add: inv_intros)


subsection \<open>What the store operations keep\<close>

lemma store_wf_create: "op_keeps store_wf (s3_create_bucket n)"
  unfolding op_keeps_def
proof (intro allI impI)
  fix st st' assume wf: "store_wf st" and r: "s3_create_bucket n st = Inr st'"
  then have "map_of st n = None" "st' = st @ [(n, empty_bucket)]"
    by (simp_all add: s3_create_bucket_def alist_update_new split: if_splits)
  with wf show "store_wf st'"
    by (auto simp: store_wf_def map_of_eq_None_iff empty_bucket_def)
qed

lemma store_wf_map_entry:
  assumes wf: "store_wf st"
    and f: "\<And>b. distinct (map fst (bucket_objects b)) \<Longrightarrow> distinct (map fst (bucket_objects (f b)))"
  shows "store_wf (AList.map_entry n f st)"
  unfolding store_wf_def
proof
  show "distinct (map fst (AList.map_entry n f st))"
    using wf by (simp add: store_wf_def distinct_map_entry)
  show "\<forall>b \<in> snd ` set (AList.map_entry n f st). distinct (map fst (bucket_objects b))"
  proof
    fix b assume "b \<in> snd ` set (AList.map_entry n f st)"
    then have "b \<in> snd ` set st \<or> (\<exists>b' \<in> snd ` set st. b = f b')" by (rule snd_map_entry)
    then show "distinct (map fst (bucket_objects b))"
    proof (elim disjE bexE)
      assume "b \<in> snd ` set st"
      then show ?thesis using wf unfolding store_wf_def by blast
    next
      fix b' assume b': "b' \<in> snd ` set st" "b = f b'"
      then have "distinct (map fst (bucket_objects b'))" using wf unfolding store_wf_def by blast
      then show ?thesis using b'(2) f by simp
    qed
  qed
qed

lemma store_wf_update_bucket:
  assumes f: "\<And>b. distinct (map fst (bucket_objects b)) \<Longrightarrow> distinct (map fst (bucket_objects (f b)))"
  shows "op_keeps store_wf (s3_update_bucket n f)"
  unfolding op_keeps_def
proof (intro allI impI)
  fix st st' assume wf: "store_wf st" and r: "s3_update_bucket n f st = Inr st'"
  then have "st' = AList.map_entry n f st" by (simp add: s3_update_bucket_def split: if_splits)
  then show "store_wf st'" using store_wf_map_entry [OF wf f] by simp
qed

lemma store_wf_put: "op_keeps store_wf (s3_put_object n k ob)"
  unfolding s3_put_object_def by (rule store_wf_update_bucket) (simp add: distinct_update)

lemma store_wf_website: "op_keeps store_wf (s3_put_website n cfg)"
  unfolding s3_put_website_def by (rule store_wf_update_bucket) simp

lemma public_buckets_map_entry:
  assumes "\<And>b. bucket_public_read (f b) = bucket_public_read b"
  shows "public_buckets (AList.map_entry n f st) = public_buckets st"
  using assms by (induction st) (simp_all add: public_buckets_def split_beta)

lemma public_create: "op_keeps (\<lambda>st. public_buckets st = ps) (s3_create_bucket n)"
  unfolding op_keeps_def
proof (intro allI impI)
  fix st st' assume p: "public_buckets st = ps" and r: "s3_create_bucket n st = Inr st'"
  then have "st' = st @ [(n, empty_bucket)]"
    by (simp add: s3_create_bucket_def alist_update_new split: if_splits)
  with p show "public_buckets st' = ps"
    by (simp add: public_buckets_def empty_bucket_def)
qed

lemma public_update_bucket:
  assumes "\<And>b. bucket_public_read (f b) = bucket_public_read b"
  shows "op_keeps (\<lambda>st. public_buckets st = ps) (s3_update_bucket n f)"
  unfolding op_keeps_def
proof (intro allI impI)
  fix st st' assume p: "public_buckets st = ps" and r: "s3_update_bucket n f st = Inr st'"
  then have "st' = AList.map_entry n f st" by (simp add: s3_update_bucket_def split: if_splits)
  then show "public_buckets st' = ps" using p public_buckets_map_entry [OF assms] by simp
qed

lemma public_put: "op_keeps (\<lambda>st. public_buckets st = ps) (s3_put_object n k ob)"
  unfolding s3_put_object_def by (rule public_update_bucket) simp

lemma public_website: "op_keeps (\<lambda>st. public_buckets st = ps) (s3_put_website n cfg)"
  unfolding s3_put_website_def by (rule public_update_bucket) simp


end
