(* ===== verification/KeyOrder.thy ===== *)
theory KeyOrder
  imports Storage
begin

text \<open>
  The object store lists keys in the order of their UTF-8 bytes, while \<open>s3_list_objects\<close>
  (theory \<open>Storage\<close>) sorts them as lists of code points, which is how the keys of
  src/task.py are written. This theory shows that the two orders agree on every key Python
  can encode: UTF-8 encodes a code point as a lead byte that grows with the code point's
  length class and with its high bits, followed by base-64 digits, so comparing the bytes
  compares the code points. \<open>enc\<close> is that encoding as a list of byte values.
\<close>

definition cls :: "nat \<Rightarrow> nat" where
  "cls c = (if c < 128 then 0 else if c < 2048 then 1 else if c < 65536 then 2 else 3)"

definition lead :: "nat \<Rightarrow> nat" where
  "lead c = (if c < 128 then c else if c < 2048 then 192 + c div 64
             else if c < 65536 then 224 + c div 4096 else 240 + c div 262144)"

fun digits :: "nat \<Rightarrow> nat \<Rightarrow> nat list" where
  "digits 0 c = []"
| "digits (Suc n) c = (128 + c div 64 ^ n mod 64) # digits n c"

definition enc :: "nat \<Rightarrow> nat list" where
  "enc c = lead c # digits (cls c) c"

text \<open>The listing as the store documents it: keys in the order of their UTF-8 bytes. Every
  key the script writes is a Python \<open>str\<close>, which boto3 encodes with \<open>utf-8\<close>; a key
  that cannot be encoded never reaches the store.\<close>

definition key_bytes :: "ustr \<Rightarrow> bytes" where
  "key_bytes k = (case utf8_encode k of Inr bs \<Rightarrow> bs | Inl _ \<Rightarrow> [])"

definition s3_list_objects_bytes :: "ustr \<Rightarrow> store \<Rightarrow> s3_error + (ustr \<times> nat) list" where
  "s3_list_objects_bytes name st =
     (case map_of st name of
        None \<Rightarrow> Inl No_Such_Bucket
      | Some b \<Rightarrow> Inr (map (\<lambda>(k, ob). (k, length (obj_body ob)))
                        (sort_key (\<lambda>(k, ob). key_bytes k) (bucket_objects b))))"

definition store_keys_utf8 :: "store \<Rightarrow> bool" where
  "store_keys_utf8 st \<longleftrightarrow> list_all (\<lambda>(n, b). list_all (\<lambda>(k, ob). \<not> isl (utf8_encode k)) (bucket_objects b)) st"

section \<open>Lemmas\<close>

subsection \<open>The encoding of one code point\<close>

lemma digits_small:
  "digits 1 c = [128 + c mod 64]"
  "digits 2 c = [128 + c div 64 mod 64, 128 + c mod 64]"
  "digits 3 c = [128 + c div 4096 mod 64, 128 + c div 64 mod 64, 128 + c mod 64]"
  by (simp_all add: numeral_2_eq_2 numeral_3_eq_3)

lemma utf8_char_enc:
  assumes "utf8_char c = Inr b"
  shows "map unat b = enc c"
proof -
  consider "c < 128" | "128 \<le> c" "c < 2048" | "2048 \<le> c" "c < 65536"
    | "65536 \<le> c" "c < 1114112"
    using assms by (auto simp: utf8_char_def split: if_splits)
  then show ?thesis
  proof cases
    case 1
    then show ?thesis using assms by (auto simp: utf8_char_def enc_def lead_def cls_def unat_byte)
  next
    case 2
    have "c div 64 < 32" using 2 by (simp add: div_less_iff_less_mult)
    moreover have "map unat b = [unat (of_nat (192 + c div 64) :: byte), unat (of_nat (128 + c mod 64) :: byte)]"
      using assms 2 by (auto simp: utf8_char_def split: if_splits simp del: of_nat_add)
    ultimately show ?thesis using 2 by (simp add: unat_byte enc_def lead_def cls_def digits_small del: of_nat_add)
  next
    case 3
    have "c div 4096 < 16" using 3 by (simp add: div_less_iff_less_mult)
    moreover have "map unat b = [unat (of_nat (224 + c div 4096) :: byte),
        unat (of_nat (128 + c div 64 mod 64) :: byte), unat (of_nat (128 + c mod 64) :: byte)]"
      using assms 3 by (auto simp: utf8_char_def split: if_splits simp del: of_nat_add)
    ultimately show ?thesis using 3 by (simp add: unat_byte enc_def lead_def cls_def digits_small del: of_nat_add)
  next
    case 4
    have "c div 262144 < 5" using 4 by (simp add: div_less_iff_less_mult)
    moreover have "map unat b = [unat (of_nat (240 + c div 262144) :: byte),
        unat (of_nat (128 + c div 4096 mod 64) :: byte), unat (of_nat (128 + c div 64 mod 64) :: byte),
        unat (of_nat (128 + c mod 64) :: byte)]"
      using assms 4 by (auto simp: utf8_char_def split: if_splits simp del: of_nat_add)
    ultimately show ?thesis using 4 by (simp add: unat_byte enc_def lead_def cls_def digits_small del: of_nat_add)
  qed
qed

lemma utf8_encode_enc:
  "utf8_encode s = Inr bs \<Longrightarrow> map unat bs = concat (map enc s) \<and> (\<forall>c \<in> set s. valid_scalar c)"
proof (induction s arbitrary: bs)
  case Nil
  then show ?case by simp
next
  case (Cons c cs)
  then obtain b bs' where "utf8_char c = Inr b" "utf8_encode cs = Inr bs'" "bs = b @ bs'"
    by (auto simp: pbind_eq_Inr)
  with Cons.IH show ?case using utf8_char_enc utf8_char_Inr_iff by fastforce
qed

subsection \<open>Comparing encodings\<close>

lemma append_less_append_iff [simp]: "xs @ ys < xs @ zs \<longleftrightarrow> ys < (zs :: 'a :: linorder list)"
  by (induction xs) simp_all

lemma map_less_map_iff:
  assumes "\<And>a b. f a < f b \<longleftrightarrow> a < b" and "\<And>a b. f a = f b \<longleftrightarrow> a = b"
  shows "map f xs < map f ys \<longleftrightarrow> xs < (ys :: 'a :: linorder list)"
proof (induction xs arbitrary: ys)
  case Nil
  then show ?case by (cases ys) simp_all
next
  case (Cons x xs)
  then show ?case by (cases ys) (simp_all add: assms)
qed

lemma digits_less:
  "c div 64 ^ n = d div 64 ^ n \<Longrightarrow> c < d \<Longrightarrow> digits n c @ X < digits n d @ Y"
proof (induction n)
  case 0
  then show ?case by simp
next
  case (Suc n)
  let ?a = "c div 64 ^ n" and ?b = "d div 64 ^ n"
  have hi: "?a div 64 = ?b div 64" using Suc.prems(1) by (metis div_mult2_eq power_Suc2)
  have le: "?a \<le> ?b" using Suc.prems(2) by (simp add: div_le_mono)
  have "?a mod 64 \<le> ?b mod 64"
  proof (rule ccontr)
    assume "\<not> ?thesis"
    then have "?b < ?a" using hi by (metis div_mult_mod_eq add_less_cancel_left not_le)
    then show False using le by simp
  qed
  then consider "?a mod 64 < ?b mod 64" | "?a mod 64 = ?b mod 64" by linarith
  then show ?case
  proof cases
    case 1
    then show ?thesis by simp
  next
    case 2
    then have "?a = ?b" using hi by (metis div_mult_mod_eq)
    then show ?thesis using Suc.IH Suc.prems(2) 2 by simp
  qed
qed

lemma lead_bounds:
  fixes c :: nat
  shows
  "c < 2048 \<Longrightarrow> c div 64 < 32" "2048 \<le> c \<Longrightarrow> 32 \<le> c div 64"
  "c < 65536 \<Longrightarrow> c div 4096 < 16" "65536 \<le> c \<Longrightarrow> 16 \<le> c div 4096"
  "128 \<le> c \<Longrightarrow> 2 \<le> c div 64"
  by (simp_all add: div_less_iff_less_mult less_eq_div_iff_mult_less_eq)

lemma lead_mono: "c < d \<Longrightarrow> lead c \<le> lead d"
proof -
  assume "c < d"
  then have "c div 64 \<le> d div 64" "c div 4096 \<le> d div 4096" "c div 262144 \<le> d div 262144"
    by (simp_all add: div_le_mono)
  then show ?thesis using \<open>c < d\<close> lead_bounds [of c] lead_bounds [of d]
    unfolding lead_def by (auto split: if_split)
qed

lemma lead_eq:
  assumes "lead c = lead d"
  shows "cls c = cls d \<and> c div 64 ^ cls c = d div 64 ^ cls d"
  using assms lead_bounds [of c] lead_bounds [of d]
  unfolding lead_def cls_def by (simp split: if_splits)
lemma enc_less: "c < d \<Longrightarrow> enc c @ X < enc d @ Y"
proof -
  assume cd: "c < d"
  show ?thesis
  proof (cases "lead c = lead d")
    case True
    have k: "cls d = cls c" using lead_eq [OF True] by simp
    have h: "c div 64 ^ cls c = d div 64 ^ cls c" using lead_eq [OF True] k by simp
    have "digits (cls c) c @ X < digits (cls c) d @ Y" by (rule digits_less [OF h cd])
    then show ?thesis using True k by (simp add: enc_def)
  next
    case False
    then show ?thesis using lead_mono [OF cd] by (simp add: enc_def Cons_less_Cons)
  qed
qed

lemma enc_ne_Nil [simp]: "enc c \<noteq> []"
  by (simp add: enc_def)

lemma concat_enc_less: "concat (map enc s) < concat (map enc t) \<longleftrightarrow> s < t"
proof (induction s arbitrary: t)
  case Nil
  show ?case
  proof (cases t)
    case (Cons d ds)
    then show ?thesis by (simp add: enc_def)
  qed simp
next
  case (Cons c cs)
  show ?case
  proof (cases t)
    case (Cons d ds)
    let ?X = "concat (map enc cs)" and ?Y = "concat (map enc ds)"
    show ?thesis
    proof (cases c d rule: linorder_cases)
      case less
      then show ?thesis using enc_less [OF less, of ?X ?Y] Cons by simp
    next
      case equal
      then show ?thesis using Cons.IH Cons by simp
    next
      case greater
      then have "\<not> enc c @ ?X < enc d @ ?Y" using enc_less [OF greater, of ?Y ?X] less_not_sym by blast
      then show ?thesis using greater Cons by simp
    qed
  qed simp
qed

lemma utf8_order:
  assumes "utf8_encode s = Inr bs" and "utf8_encode t = Inr bt"
  shows "bs < bt \<longleftrightarrow> s < t"
proof -
  have "bs < bt \<longleftrightarrow> map unat bs < map unat bt"
    by (rule map_less_map_iff [symmetric]) (simp_all add: word_less_nat_alt word_unat_eq_iff)
  then show ?thesis using utf8_encode_enc [OF assms(1)] utf8_encode_enc [OF assms(2)] concat_enc_less by simp
qed

subsection \<open>Sorting by equivalent keys\<close>

lemma insort_key_cong:
  assumes "\<And>y. y \<in> set ys \<Longrightarrow> f x \<le> f y \<longleftrightarrow> g x \<le> g y"
  shows "insort_key f x ys = insort_key g x ys"
  using assms by (induction ys) simp_all

lemma sort_key_cong_order:
  assumes "\<And>x y. x \<in> set xs \<Longrightarrow> y \<in> set xs \<Longrightarrow> f x \<le> f y \<longleftrightarrow> g x \<le> g y"
  shows "sort_key f xs = sort_key g xs"
  using assms
proof (induction xs)
  case Nil
  then show ?case by simp
next
  case (Cons x xs)
  then have "sort_key f xs = sort_key g xs" by simp
  moreover have "insort_key f x (sort_key g xs) = insort_key g x (sort_key g xs)"
    by (rule insort_key_cong) (simp add: Cons.prems)
  ultimately show ?case by simp
qed

lemma key_bytes_le:
  assumes "\<not> isl (utf8_encode s)" and "\<not> isl (utf8_encode t)"
  shows "key_bytes s \<le> key_bytes t \<longleftrightarrow> s \<le> t"
proof -
  obtain bs bt where s: "utf8_encode s = Inr bs" and t: "utf8_encode t = Inr bt"
    using assms by (cases "utf8_encode s"; cases "utf8_encode t") simp_all
  have lt: "bs < bt \<longleftrightarrow> s < t" and gt: "bt < bs \<longleftrightarrow> t < s"
    using utf8_order [OF s t] utf8_order [OF t s] by simp_all
  then have "bs = bt \<longleftrightarrow> s = t" by (metis linorder_neq_iff)
  then show ?thesis using lt s t by (auto simp: key_bytes_def order_le_less)
qed

section \<open>The order of object listings\<close>

text \<open>On every store whose keys are encodable, listing a bucket's objects by code
  points, as \<open>s3_list_objects\<close> does and as src/task.py prints them (line 95), gives the
  listing the store makes by comparing the keys' UTF-8 bytes: the two orders agree, so the
  printed order is the order the service answers with.\<close>

lemma listing_byte_order:
  assumes "store_keys_utf8 st"
  shows "s3_list_objects name st = s3_list_objects_bytes name st"
proof (cases "map_of st name")
  case None
  then show ?thesis by (simp add: s3_list_objects_def s3_list_objects_bytes_def)
next
  case (Some b)
  then have "(name, b) \<in> set st" by (rule map_of_SomeD)
  then have keys: "\<not> isl (utf8_encode (fst x))" if "x \<in> set (bucket_objects b)" for x
    using assms that by (auto simp: store_keys_utf8_def list_all_iff split_beta)
  have "sort_key fst (bucket_objects b) = sort_key (\<lambda>(k, ob). key_bytes k) (bucket_objects b)"
  proof (rule sort_key_cong_order)
    fix x y assume "x \<in> set (bucket_objects b)" "y \<in> set (bucket_objects b)"
    then show "fst x \<le> fst y \<longleftrightarrow> (\<lambda>(k, ob). key_bytes k) x \<le> (\<lambda>(k, ob). key_bytes k) y"
      using key_bytes_le [OF keys keys] by (simp add: split_beta)
  qed
  then show ?thesis using Some by (simp add: s3_list_objects_def s3_list_objects_bytes_def)
qed

end
