(* ===== verification/Task.thy ===== *)
theory Task
  imports Storage
begin

text \<open>
  The provisioning script src/task.py, statement by statement, over the object store
  and the monad of \<open>Storage\<close>; then what a first run provisions and prints.
\<close>

section \<open>The script\<close>

definition YOS_ENDPOINT :: ustr where
  "YOS_ENDPOINT = asc ''https://storage.yandexcloud.net''"

definition PHOTO_URL :: ustr where
  "PHOTO_URL = asc ''https://farm1.staticflickr.com/76/199907296_a602917e6d_o.jpg''"

definition photo_file :: ustr where
  "photo_file = asc ''Guido_van_Rossum.jpg''"

definition bucket_name :: ustr where
  "bucket_name = asc ''itiscl-spr23-21-public''"

definition photo_key :: ustr where
  "photo_key = asc ''guido_van_rossum_obj.jpg''"

text \<open>The key \<open>'eto prostoj tekst.txt'\<close> (in Cyrillic: "this is plain text").\<close>

definition text_key :: ustr where
  "text_key = [1101, 1090, 1086, 32, 1087, 1088, 1086, 1089, 1090, 1086, 1081, 32, 1090, 1077, 1082,
               1089, 1090] @ asc ''.txt''"

definition dir_keys :: "ustr list" where
  "dir_keys = [asc ''dir1/file11.txt'', asc ''dir1/file12.txt'', asc ''dir1/file13.txt'',
               asc ''dir2/file21.txt'', asc ''dir2/file22.txt'', asc ''dir3/file31.txt'']"

definition content :: bytes where
  "content = map of_nat (asc ''Hello, World!'')"

definition html_content :: bytes where
  "html_content = map of_nat (asc ''<!DOCTYPE><html><head><title>Test page</title></head><body><h1>Test page</h1></body></html>'')"

text \<open>Lines 111-113: the page object and its content type.\<close>

definition html_key :: ustr where
  "html_key = asc ''index.html''"

definition html_type :: ustr where
  "html_type = asc ''text/html''"

definition index_document :: ustr where
  "index_document = asc ''index.html''"

definition error_document :: ustr where
  "error_document = asc ''error.html''"

text \<open>Lines 15-19: the photo is fetched and written to a local file; the status of the
  answer is not looked at.\<close>

definition download_photo :: "task_env \<Rightarrow> unit task" where
  "download_photo env =
     (case photo_get env of
        None \<Rightarrow> t_raise (Py_Exn ConnectionError)
      | Some (status, body) \<Rightarrow> t_update (\<lambda>s. s\<lparr>local_files := AList.update photo_file body (local_files s)\<rparr>))"

text \<open>\<open>print(bucket)\<close> shows the resource's \<open>repr\<close>: \<open>s3.Bucket(name='...')\<close>.\<close>

definition bucket_repr :: "ustr \<Rightarrow> ustr" where
  "bucket_repr name = asc ''s3.Bucket(name='' @ str_repr name @ asc '')''"

definition print_buckets :: "task_env \<Rightarrow> ustr \<Rightarrow> unit task" where
  "print_buckets env profile =
     t_bind (s3_query env profile Act_List_Buckets (\<lambda>st. Inr (s3_list_buckets st))) (\<lambda>names.
     t_for (\<lambda>n. py_print (bucket_repr n)) names)"

text \<open>Lines 60-63 and 73-76: the URL of an object, its key through \<open>urllib.parse.quote\<close>.\<close>

definition object_url :: "ustr \<Rightarrow> ustr \<Rightarrow> exn + ustr" where
  "object_url bucket key = pbind (url_quote key) (\<lambda>k. Inr (asc ''https://storage.yandexcloud.net/'' @ bucket @ [47] @ k))"

definition print_object_url :: "ustr \<Rightarrow> ustr \<Rightarrow> unit task" where
  "print_object_url bucket key = t_bind (t_py (object_url bucket key)) py_print"

text \<open>Lines 95-96: \<open>print(obj.key, obj.size)\<close>, the two separated by a space.\<close>

definition print_objects :: "task_env \<Rightarrow> ustr \<Rightarrow> ustr \<Rightarrow> unit task" where
  "print_objects env profile bucket =
     t_bind (s3_query env profile Act_List_Objects (s3_list_objects bucket)) (\<lambda>objs.
     t_for (\<lambda>obj. py_print (fst obj @ [32] @ nat_str (snd obj))) objs)"

definition website_url :: "ustr \<Rightarrow> ustr" where
  "website_url bucket = asc ''https://'' @ bucket @ asc ''.website.yandexcloud.net''"

text \<open>The whole script, lines 15-115, in the order of the source.\<close>

definition task_main :: "task_env \<Rightarrow> unit task" where
  "task_main env =
     t_bind (download_photo env) (\<lambda>_.
     t_bind (session env (asc ''admin'')) (\<lambda>admin.
     t_bind (print_buckets env admin) (\<lambda>_.
     t_bind (create_bucket env admin bucket_name) (\<lambda>_.
     t_bind (session env (asc ''uploader'')) (\<lambda>uploader.
     t_bind (upload_file env uploader bucket_name photo_key photo_file) (\<lambda>_.
     t_bind (print_object_url bucket_name photo_key) (\<lambda>_.
     t_bind (object_put env uploader bucket_name text_key content None) (\<lambda>_.
     t_bind (print_object_url bucket_name text_key) (\<lambda>_.
     t_bind (t_for (\<lambda>k. object_put env uploader bucket_name k content None) dir_keys) (\<lambda>_.
     t_bind (print_objects env uploader bucket_name) (\<lambda>_.
     t_bind (put_website env admin bucket_name (index_document, error_document)) (\<lambda>_.
     t_bind (object_put env admin bucket_name html_key html_content (Some html_type)) (\<lambda>_.
     py_print (website_url bucket_name))))))))))))))"

section \<open>What a first run provisions\<close>

text \<open>The permissions the script needs: \<open>admin\<close> lists buckets, creates one, puts
  objects and configures the web site; \<open>uploader\<close> puts and lists objects.\<close>

definition provisioning_rights :: "task_env \<Rightarrow> bool" where
  "provisioning_rights env \<longleftrightarrow>
     asc ''admin'' \<in> set (aws_profiles env) \<and> asc ''uploader'' \<in> set (aws_profiles env)
     \<and> list_all (s3_allowed env (asc ''admin''))
         [Act_List_Buckets, Act_Create_Bucket, Act_Put_Website, Act_Put_Object]
     \<and> list_all (s3_allowed env (asc ''uploader'')) [Act_Put_Object, Act_List_Objects]"

text \<open>The objects the bucket holds when the script lists it (line 95).\<close>

definition listed_objects :: "bytes \<Rightarrow> (ustr \<times> s3_object) list" where
  "listed_objects photo =
     [(photo_key, \<lparr>obj_body = photo, obj_content_type = None\<rparr>),
      (text_key, \<lparr>obj_body = content, obj_content_type = None\<rparr>)]
     @ map (\<lambda>k. (k, \<lparr>obj_body = content, obj_content_type = None\<rparr>)) dir_keys"

definition provisioned_bucket :: "bytes \<Rightarrow> bucket" where
  "provisioned_bucket photo =
     \<lparr>bucket_objects =
        listed_objects photo @ [(html_key, \<lparr>obj_body = html_content, obj_content_type = Some html_type\<rparr>)],
      bucket_public_read = False,
      bucket_website = Some (index_document, error_document)\<rparr>"

text \<open>What the script prints after the bucket list, for a photo of \<open>n\<close> bytes.\<close>

definition provisioning_output :: "nat \<Rightarrow> ustr list" where
  "provisioning_output n =
     [asc ''https://storage.yandexcloud.net/itiscl-spr23-21-public/guido_van_rossum_obj.jpg'',
      asc ''https://storage.yandexcloud.net/itiscl-spr23-21-public/%D1%8D%D1%82%D0%BE%20%D0%BF%D1%80%D0%BE%D1%81%D1%82%D0%BE%D0%B9%20%D1%82%D0%B5%D0%BA%D1%81%D1%82.txt'',
      asc ''dir1/file11.txt 13'', asc ''dir1/file12.txt 13'', asc ''dir1/file13.txt 13'',
      asc ''dir2/file21.txt 13'', asc ''dir2/file22.txt 13'', asc ''dir3/file31.txt 13'',
      asc ''guido_van_rossum_obj.jpg '' @ nat_str n,
      text_key @ asc '' 13'',
      asc ''https://itiscl-spr23-21-public.website.yandexcloud.net'']"


text \<open>A run on a store that holds one other bucket, with both profiles, every permission,
  and a photo download answered by a 404 page.\<close>

definition sample_env :: task_env where
  "sample_env = \<lparr>aws_profiles = [asc ''admin'', asc ''uploader''], s3_allowed = (\<lambda>_ _. True),
                  photo_get = Some (404, [60, 104, 49, 62])\<rparr>"

definition sample_state :: task_state where
  "sample_state = \<lparr>s3_store = [(asc ''other'', empty_bucket)], local_files = [], stdout = []\<rparr>"

section \<open>The script's steps\<close>

lemma run_download: "photo_get env = Some (status, photo) \<Longrightarrow>
   run_state (download_photo env) s = (Inr (), s\<lparr>local_files := AList.update photo_file photo (local_files s)\<rparr>)"
  by (simp add: download_photo_def run_simps)

lemma run_print_buckets: "s3_allowed env p Act_List_Buckets \<Longrightarrow>
   run_state (print_buckets env p) s =
     (Inr (), s\<lparr>stdout := stdout s @ map bucket_repr (s3_list_buckets (s3_store s))\<rparr>)"
  by (simp add: print_buckets_def s3_query_def run_simps run_t_for_print)

lemma run_print_objects: "s3_allowed env p Act_List_Objects \<Longrightarrow> map_of (s3_store s) n \<noteq> None \<Longrightarrow>
   run_state (print_objects env p n) s =
     (Inr (), s\<lparr>stdout := stdout s @ map (\<lambda>(k, ob). k @ [32] @ nat_str (length (obj_body ob)))
                                  (sort_key fst (bucket_objects (the (map_of (s3_store s) n))))\<rparr>)"
  by (auto simp: print_objects_def s3_query_def s3_list_objects_def run_simps run_t_for_print comp_def
      case_prod_beta)

lemma run_print_object_url: "object_url b k = Inr u \<Longrightarrow>
   run_state (print_object_url b k) s = (Inr (), s\<lparr>stdout := stdout s @ [u]\<rparr>)"
  by (simp add: print_object_url_def run_simps py_print_def)

lemma url_photo: "object_url bucket_name photo_key =
   Inr (asc ''https://storage.yandexcloud.net/itiscl-spr23-21-public/guido_van_rossum_obj.jpg'')"
  by (simp add: object_url_def url_quote_def quote_def photo_key_def bucket_name_def quote_from_bytes_def
      quote_byte_def utf8_char_def always_safe_def unat_byte)

lemma url_text: "object_url bucket_name text_key =
   Inr (asc ''https://storage.yandexcloud.net/itiscl-spr23-21-public/%D1%8D%D1%82%D0%BE%20%D0%BF%D1%80%D0%BE%D1%81%D1%82%D0%BE%D0%B9%20%D1%82%D0%B5%D0%BA%D1%81%D1%82.txt'')"
  by (simp add: object_url_def url_quote_def quote_def text_key_def bucket_name_def quote_from_bytes_def
      quote_byte_def utf8_char_def always_safe_def unat_byte hex_upper_def)

lemma photo_key_text_key [simp]: "photo_key \<noteq> text_key" "text_key \<noteq> photo_key"
  by (simp_all add: photo_key_def text_key_def)

lemma objects_before_listing:
  "fold (\<lambda>k. AList.update k \<lparr>obj_body = content, obj_content_type = None\<rparr>) dir_keys
     [(photo_key, \<lparr>obj_body = photo, obj_content_type = None\<rparr>),
      (text_key, \<lparr>obj_body = content, obj_content_type = None\<rparr>)] = listed_objects photo"
  by (simp add: listed_objects_def dir_keys_def photo_key_def text_key_def)

lemma listing_lines:
  "map (\<lambda>(k, ob). k @ 32 # nat_str (length (obj_body ob))) (sort_key fst (listed_objects photo)) =
   [asc ''dir1/file11.txt 13'', asc ''dir1/file12.txt 13'', asc ''dir1/file13.txt 13'',
    asc ''dir2/file21.txt 13'', asc ''dir2/file22.txt 13'', asc ''dir3/file31.txt 13'',
    asc ''guido_van_rossum_obj.jpg '' @ nat_str (length photo), text_key @ asc '' 13'']"
  by (simp add: listed_objects_def dir_keys_def photo_key_def text_key_def content_def nat_str.simps)

lemma final_objects:
  "AList.update html_key \<lparr>obj_body = html_content, obj_content_type = Some html_type\<rparr> (listed_objects photo)
   = bucket_objects (provisioned_bucket photo)"
  by (simp add: listed_objects_def provisioned_bucket_def dir_keys_def photo_key_def text_key_def html_key_def)

lemmas task_steps = run_t_bind run_session run_download run_print_buckets run_create_bucket
  run_object_put run_object_puts run_upload_file run_put_website run_print_object_url run_print_objects
  url_photo url_text map_entry_last fold_map_entry_last map_add_def update_conv' py_print_def run_simps
  objects_put_entries bucket_set_all empty_bucket_def

text \<open>The store invariants the script keeps are those its three store operations keep, the
  puts on the keys the script writes.\<close>

lemma store_inv_download [inv_intros]: "store_inv J (download_photo env)"
  unfolding download_photo_def by (auto intro!: inv_intros split: option.splits)

lemma task_main_store_inv:
  assumes "\<And>n. op_keeps J (s3_create_bucket n)"
    "\<And>n k ob. k \<in> set (photo_key # text_key # html_key # dir_keys) \<Longrightarrow> op_keeps J (s3_put_object n k ob)"
    "\<And>n cfg. op_keeps J (s3_put_website n cfg)"
  shows "store_inv J (task_main env)"
  unfolding task_main_def print_buckets_def create_bucket_def print_object_url_def print_objects_def
    put_website_def
  by (intro inv_intros assms) simp_all


section \<open>Properties of the script\<close>

text \<open>C23: a first run, on a store without the bucket and with the permissions the script
  needs, succeeds: the bucket holds the photo (whatever the status of its download), the
  text object, the six directory objects and the page, with the web-site configuration and
  no public ACL; the script prints the existing buckets, the two object URLs (the second key
  percent-encoded), the listing sorted by key with the sizes, and the site address.\<close>

theorem task_main_provisions:
  assumes "provisioning_rights env" and "photo_get env = Some (status, photo)"
    and "map_of (s3_store s) bucket_name = None"
  shows "run_state (task_main env) s =
    (Inr (), s\<lparr>s3_store := s3_store s @ [(bucket_name, provisioned_bucket photo)],
               local_files := AList.update photo_file photo (local_files s),
               stdout := stdout s @ map bucket_repr (s3_list_buckets (s3_store s))
                         @ provisioning_output (length photo)\<rparr>)"
  using assms
  apply (simp add: provisioning_rights_def task_main_def task_steps objects_before_listing
      listing_lines final_objects)
  apply (simp add: provisioned_bucket_def provisioning_output_def website_url_def bucket_name_def)
  done

theorem task_main_provisions_witness:
  "provisioning_rights sample_env \<and> photo_get sample_env = Some (404, [60, 104, 49, 62])
   \<and> map_of (s3_store sample_state) bucket_name = None
   \<and> run_state (task_main sample_env) sample_state =
      (Inr (), sample_state\<lparr>s3_store := s3_store sample_state @ [(bucket_name, provisioned_bucket [60, 104, 49, 62])],
               local_files := AList.update photo_file [60, 104, 49, 62] (local_files sample_state),
               stdout := stdout sample_state @ map bucket_repr (s3_list_buckets (s3_store sample_state))
                         @ provisioning_output (length [60, 104, 49, 62 :: byte])\<rparr>)"
proof -
  have h: "provisioning_rights sample_env" "photo_get sample_env = Some (404, [60, 104, 49, 62])"
    "map_of (s3_store sample_state) bucket_name = None"
    by (simp_all add: provisioning_rights_def sample_env_def sample_state_def bucket_name_def)
  show ?thesis using h task_main_provisions [OF h] by blast
qed

text \<open>C24: the script cannot be run twice: when the bucket exists (as a first run leaves
  it), \<open>create()\<close> raises ClientError (BucketAlreadyOwnedByYou) after the photo has been
  saved and the buckets printed, and the store is left as it was.\<close>

theorem task_main_rerun_fails:
  assumes "asc ''admin'' \<in> set (aws_profiles env)"
    and "s3_allowed env (asc ''admin'') Act_List_Buckets" and "s3_allowed env (asc ''admin'') Act_Create_Bucket"
    and "photo_get env = Some (status, photo)" and "map_of (s3_store s) bucket_name \<noteq> None"
  shows "run_state (task_main env) s =
    (Inl (Client_Error Bucket_Already_Exists),
     s\<lparr>local_files := AList.update photo_file photo (local_files s),
       stdout := stdout s @ map bucket_repr (s3_list_buckets (s3_store s))\<rparr>)"
proof -
  from assms(5) obtain b where "map_of (s3_store s) bucket_name = Some b" by auto
  with assms show ?thesis
    by (simp add: task_main_def task_steps create_bucket_def s3_call_def s3_create_bucket_def)
qed

theorem task_main_rerun_fails_witness:
  "asc ''admin'' \<in> set (aws_profiles sample_env)
   \<and> s3_allowed sample_env (asc ''admin'') Act_List_Buckets
   \<and> s3_allowed sample_env (asc ''admin'') Act_Create_Bucket
   \<and> photo_get sample_env = Some (404, [60, 104, 49, 62])
   \<and> map_of [(bucket_name, provisioned_bucket [60, 104, 49, 62])] bucket_name \<noteq> None
   \<and> run_state (task_main sample_env) (sample_state\<lparr>s3_store := [(bucket_name, provisioned_bucket [60, 104, 49, 62])]\<rparr>) =
      (Inl (Client_Error Bucket_Already_Exists),
       sample_state\<lparr>s3_store := [(bucket_name, provisioned_bucket [60, 104, 49, 62])],
         local_files := AList.update photo_file [60, 104, 49, 62] [],
         stdout := [] @ map bucket_repr (s3_list_buckets [(bucket_name, provisioned_bucket [60, 104, 49, 62])])\<rparr>)"
proof -
  have h: "asc ''admin'' \<in> set (aws_profiles sample_env)"
    "s3_allowed sample_env (asc ''admin'') Act_List_Buckets"
    "s3_allowed sample_env (asc ''admin'') Act_Create_Bucket"
    "photo_get sample_env = Some (404, [60, 104, 49, 62])"
    "map_of (s3_store (sample_state\<lparr>s3_store := [(bucket_name, provisioned_bucket [60, 104, 49, 62])]\<rparr>)) bucket_name \<noteq> None"
    by (simp_all add: sample_env_def)
  show ?thesis using h task_main_rerun_fails [OF h] by (simp add: sample_state_def)
qed

text \<open>C26: when the AWS configuration has no \<open>uploader\<close> profile, the script stops with
  ProfileNotFound after creating the bucket, which is left empty; no default profile is
  used, whatever the comment at lines 22-23 says.\<close>

theorem task_main_no_uploader:
  assumes "asc ''admin'' \<in> set (aws_profiles env)" and "asc ''uploader'' \<notin> set (aws_profiles env)"
    and "s3_allowed env (asc ''admin'') Act_List_Buckets" and "s3_allowed env (asc ''admin'') Act_Create_Bucket"
    and "photo_get env = Some (status, photo)" and "map_of (s3_store s) bucket_name = None"
  shows "run_state (task_main env) s =
    (Inl (Profile_Not_Found (asc ''uploader'')),
     s\<lparr>local_files := AList.update photo_file photo (local_files s),
       stdout := stdout s @ map bucket_repr (s3_list_buckets (s3_store s)),
       s3_store := s3_store s @ [(bucket_name, empty_bucket)]\<rparr>)"
  using assms by (simp add: task_main_def task_steps session_def)

theorem task_main_no_uploader_witness:
  "asc ''admin'' \<in> set [asc ''admin''] \<and> asc ''uploader'' \<notin> set [asc ''admin'']
   \<and> map_of (s3_store sample_state) bucket_name = None
   \<and> run_state (task_main (sample_env\<lparr>aws_profiles := [asc ''admin'']\<rparr>)) sample_state =
     (Inl (Profile_Not_Found (asc ''uploader'')),
      sample_state\<lparr>local_files := AList.update photo_file [60, 104, 49, 62] (local_files sample_state),
        stdout := stdout sample_state @ map bucket_repr (s3_list_buckets (s3_store sample_state)),
        s3_store := s3_store sample_state @ [(bucket_name, empty_bucket)]\<rparr>)"
proof -
  have h: "asc ''admin'' \<in> set (aws_profiles (sample_env\<lparr>aws_profiles := [asc ''admin'']\<rparr>))"
    "asc ''uploader'' \<notin> set (aws_profiles (sample_env\<lparr>aws_profiles := [asc ''admin'']\<rparr>))"
    "s3_allowed (sample_env\<lparr>aws_profiles := [asc ''admin'']\<rparr>) (asc ''admin'') Act_List_Buckets"
    "s3_allowed (sample_env\<lparr>aws_profiles := [asc ''admin'']\<rparr>) (asc ''admin'') Act_Create_Bucket"
    "photo_get (sample_env\<lparr>aws_profiles := [asc ''admin'']\<rparr>) = Some (404, [60, 104, 49, 62])"
    "map_of (s3_store sample_state) bucket_name = None"
    by (simp_all add: sample_env_def sample_state_def bucket_name_def)
  show ?thesis using h task_main_no_uploader [OF h] by simp
qed

text \<open>C25: the script never makes a bucket publicly readable: the buckets with a public
  ACL are the same before and after any run. The comment at lines 38-40 says the bucket is
  made public with the predefined ACL public-read, but no call sets an ACL, so the printed
  object URLs are not readable anonymously.\<close>

theorem task_main_keeps_private:
  "public_buckets (s3_store (snd (run_state (task_main env) s))) = public_buckets (s3_store s)"
proof -
  have "store_inv (\<lambda>st. public_buckets st = public_buckets (s3_store s)) (task_main env)"
    by (rule task_main_store_inv) (rule public_create public_put public_website)+
  then show ?thesis by (simp add: t_inv_def state_io_rel_def)
qed

end
