(* ===== verification/Listing.thy ===== *)
theory Listing
  imports KeyOrder Task
begin

text \<open>
  The listing loop of src/task.py (line 95, \<open>for obj in uploader_pub_bucket.objects.all()\<close>)
  as boto3 runs it: \<open>objects.all()\<close> pages through ListObjects. Each request names a
  \<open>Marker\<close> (none at first) and the store answers with at most \<open>MaxKeys\<close> objects whose
  keys come after the marker in UTF-8 byte order, and with \<open>IsTruncated\<close> when more
  remain; the next marker is the last key of the page. The loop is a
  \<open>partial_function (option)\<close>: a marker that did not advance would make it run forever,
  and the theorem that it returns is proved as such. Its hypotheses, a well-formed store
  whose keys encode, hold of every store src/task.py leaves behind when they held before
  (last section): the script writes only keys that encode.
\<close>

text \<open>One ListObjects request: the store's byte-ordered listing after the marker, cut to
  \<open>max_keys\<close> objects, and whether it was cut.\<close>

definition list_page :: "nat \<Rightarrow> ustr \<Rightarrow> ustr option \<Rightarrow> store \<Rightarrow> s3_error + (ustr \<times> nat) list \<times> bool" where
  "list_page max_keys name marker st =
     (case s3_list_objects_bytes name st of
        Inl e \<Rightarrow> Inl e
      | Inr objs \<Rightarrow>
          (let rest = (case marker of None \<Rightarrow> objs
                                   | Some m \<Rightarrow> filter (\<lambda>(k, n). key_bytes m < key_bytes k) objs)
           in Inr (take max_keys rest, max_keys < length rest)))"

text \<open>The paginator: request pages until one is not truncated, passing the last key of each
  page as the next marker, and collect the objects in order; an error answer is raised as
  ClientError by the first request.\<close>

partial_function (option) paginate ::
  "nat \<Rightarrow> ustr \<Rightarrow> store \<Rightarrow> ustr option \<Rightarrow> (ustr \<times> nat) list \<Rightarrow> (s3_error + (ustr \<times> nat) list) option"
where
  "paginate max_keys name st marker acc =
     (case list_page max_keys name marker st of
        Inl e \<Rightarrow> Some (Inl e)
      | Inr (page, truncated) \<Rightarrow>
          if truncated then paginate max_keys name st (Some (fst (last page))) (acc @ page)
          else Some (Inr (acc @ page)))"

text \<open>\<open>objects.all()\<close> with boto3's default page size.\<close>

definition objects_all :: "ustr \<Rightarrow> store \<Rightarrow> (s3_error + (ustr \<times> nat) list) option" where
  "objects_all name st = paginate 1000 name st None []"

section \<open>Lemmas\<close>

abbreviation key_sorted :: "(ustr \<times> nat) list \<Rightarrow> bool" where
  "key_sorted xs \<equiv> sorted_wrt (\<lambda>a b. key_bytes (fst a) < key_bytes (fst b)) xs"

text \<open>After the last key of a strictly sorted prefix come exactly the entries after it.\<close>

lemma filter_after_last:
  fixes f :: "'a \<Rightarrow> 'b :: order"
  assumes "sorted_wrt (\<lambda>a b. f a < f b) (xs @ ys)" and "xs \<noteq> []"
  shows "filter (\<lambda>y. f (last xs) < f y) (xs @ ys) = ys"
proof -
  obtain zs z where xs: "xs = zs @ [z]" using assms(2) by (metis rev_exhaust)
  then have before: "\<forall>a\<in>set zs. f a < f z" and after: "\<forall>y\<in>set ys. f z < f y"
    using assms(1) by (auto simp: sorted_wrt_append)
  have "filter (\<lambda>y. f z < f y) zs = []"
    using before by (auto simp: filter_empty_conv dest: less_not_sym)
  moreover have "filter (\<lambda>y. f z < f y) ys = ys" using after by (simp add: filter_True)
  ultimately show ?thesis using xs by simp
qed

lemma key_bytes_inj:
  assumes "\<not> isl (utf8_encode s)" and "\<not> isl (utf8_encode t)" and "key_bytes s = key_bytes t"
  shows "s = t"
  using key_bytes_le [OF assms(1,2)] key_bytes_le [OF assms(2,1)] assms(3) by simp

lemma distinct_map_sort_key:
  "distinct (map g (sort_key f xs)) \<longleftrightarrow> distinct (map g xs)"
proof -
  have "card (set (map g (sort_key f xs))) = card (set (map g xs))" by simp
  moreover have "length (map g (sort_key f xs)) = length (map g xs)" by simp
  ultimately show ?thesis by (metis card_distinct distinct_card)
qed

text \<open>The store's listing of a well-formed bucket with encodable keys is strictly sorted
  by the keys' bytes: keys are distinct, and distinct encodable keys have distinct
  encodings.\<close>

lemma list_objects_bytes_sorted:
  assumes "store_wf st" and "store_keys_utf8 st" and "s3_list_objects_bytes name st = Inr objs"
  shows "key_sorted objs"
proof -
  obtain b where b: "map_of st name = Some b" and objs:
    "objs = map (\<lambda>(k, ob). (k, length (obj_body ob))) (sort_key (\<lambda>(k, ob). key_bytes k) (bucket_objects b))"
    using assms(3) by (auto simp: s3_list_objects_bytes_def split: option.splits)
  let ?S = "sort_key (\<lambda>(k, ob). key_bytes k) (bucket_objects b)"
  have mem: "(name, b) \<in> set st" using b by (rule map_of_SomeD)
  have "distinct (map fst (bucket_objects b))" using assms(1) mem by (force simp: store_wf_def)
  then have dist: "distinct (map fst ?S)" by (simp add: distinct_map_sort_key)
  have enc: "\<not> isl (utf8_encode k)" if "k \<in> fst ` set ?S" for k
    using assms(2) mem that by (fastforce simp: store_keys_utf8_def list_all_iff)
  have inj: "inj_on key_bytes (fst ` set ?S)"
    by (rule inj_onI) (use enc key_bytes_inj in blast)
  have hm: "map (\<lambda>(k, ob). key_bytes k) ?S = map key_bytes (map fst ?S)" by (simp add: split_beta)
  have "distinct (map (\<lambda>(k, ob). key_bytes k) ?S)"
    unfolding hm distinct_map [of key_bytes "map fst ?S"] using dist inj by simp
  moreover have "sorted (map (\<lambda>(k, ob). key_bytes k) ?S)" by (rule sorted_sort_key)
  ultimately have "sorted_wrt (<) (map (\<lambda>(k, ob). key_bytes k) ?S)"
    by (simp add: strict_sorted_iff)
  then show ?thesis by (simp add: objs sorted_wrt_map split_beta)
qed

text \<open>The loop from any point of the listing: once the pages collected so far are a
  prefix of the listing and the marker is their last key, the loop returns the whole
  listing. Induction on the number of objects still to list.\<close>

lemma paginate_from:
  assumes pos: "0 < max_keys"
  shows "s3_list_objects_bytes name st = Inr (acc @ rest) \<Longrightarrow> key_sorted (acc @ rest) \<Longrightarrow>
    paginate max_keys name st (if acc = [] then None else Some (fst (last acc))) acc = Some (Inr (acc @ rest))"
proof (induction "length rest" arbitrary: acc rest rule: less_induct)
  case less
  have page: "list_page max_keys name (if acc = [] then None else Some (fst (last acc))) st
      = Inr (take max_keys rest, max_keys < length rest)"
  proof (cases "acc = []")
    case True
    then show ?thesis using less.prems by (simp add: list_page_def)
  next
    case False
    have "(\<lambda>(k, n). key_bytes (fst (last acc)) < key_bytes k)
        = (\<lambda>y. key_bytes (fst (last acc)) < key_bytes (fst (y :: ustr \<times> nat)))"
      unfolding fun_eq_iff by (simp add: split_beta)
    then have "filter (\<lambda>(k, n). key_bytes (fst (last acc)) < key_bytes k) (acc @ rest) = rest"
      using filter_after_last [where f = "\<lambda>a. key_bytes (fst a)", OF less.prems(2) False] by simp
    then show ?thesis using less.prems(1) False by (simp add: list_page_def del: filter_append)
  qed
  show ?case
  proof (cases "max_keys < length rest")
    case True
    let ?acc = "acc @ take max_keys rest" and ?rest = "drop max_keys rest"
    have "length ?rest < length rest" using True pos by simp
    moreover have "s3_list_objects_bytes name st = Inr (?acc @ ?rest)" using less.prems by simp
    moreover have "key_sorted (?acc @ ?rest)" using less.prems by simp
    ultimately have IH: "paginate max_keys name st (if ?acc = [] then None else Some (fst (last ?acc))) ?acc
        = Some (Inr (?acc @ ?rest))"
      by (rule less.hyps)
    have "rest \<noteq> []" using True by auto
    then have "take max_keys rest \<noteq> []" using pos by simp
    then show ?thesis using page True IH by (subst paginate.simps) simp
  next
    case False
    then show ?thesis using page by (subst paginate.simps) simp
  qed
qed

subsection \<open>The keys the script writes\<close>

lemma store_keys_utf8_iff:
  "store_keys_utf8 st \<longleftrightarrow> (\<forall>b \<in> snd ` set st. \<forall>x \<in> set (bucket_objects b). \<not> isl (utf8_encode (fst x)))"
  by (auto simp: store_keys_utf8_def list_all_iff split_beta)

lemma set_alist_update: "set (AList.update k v al) \<subseteq> insert (k, v) (set al)"
  by (induction al) auto

lemma keys_create: "op_keeps store_keys_utf8 (s3_create_bucket n)"
  unfolding op_keeps_def
proof (intro allI impI)
  fix st st' assume st: "store_keys_utf8 st" and cr: "s3_create_bucket n st = Inr st'"
  then have st': "st' = AList.update n empty_bucket st" by (simp add: s3_create_bucket_def split: if_splits)
  show "store_keys_utf8 st'"
    unfolding store_keys_utf8_iff
  proof
    fix b assume "b \<in> snd ` set st'"
    then have "b = empty_bucket \<or> b \<in> snd ` set st" using set_alist_update [of n empty_bucket st] st' by force
    then show "\<forall>x \<in> set (bucket_objects b). \<not> isl (utf8_encode (fst x))"
      using st unfolding store_keys_utf8_iff by (auto simp: empty_bucket_def)
  qed
qed

lemma keys_update_bucket:
  assumes "\<And>b. \<forall>x \<in> set (bucket_objects b). \<not> isl (utf8_encode (fst x))
             \<Longrightarrow> \<forall>x \<in> set (bucket_objects (f b)). \<not> isl (utf8_encode (fst x))"
  shows "op_keeps store_keys_utf8 (s3_update_bucket n f)"
  unfolding op_keeps_def
proof (intro allI impI)
  fix st st' assume st: "store_keys_utf8 st" and up: "s3_update_bucket n f st = Inr st'"
  then have st': "st' = AList.map_entry n f st" by (simp add: s3_update_bucket_def split: if_splits)
  show "store_keys_utf8 st'"
    unfolding store_keys_utf8_iff
  proof
    fix b assume "b \<in> snd ` set st'"
    then have "b \<in> snd ` set st \<or> (\<exists>b' \<in> snd ` set st. b = f b')" using st' snd_map_entry by simp
    then show "\<forall>x \<in> set (bucket_objects b). \<not> isl (utf8_encode (fst x))"
      using st assms unfolding store_keys_utf8_iff by blast
  qed
qed

lemma keys_put:
  "\<not> isl (utf8_encode k) \<Longrightarrow> op_keeps store_keys_utf8 (s3_put_object n k ob)"
  unfolding s3_put_object_def
  by (rule keys_update_bucket) (auto dest: subsetD [OF set_alist_update])

lemma keys_website: "op_keeps store_keys_utf8 (s3_put_website n cfg)"
  unfolding s3_put_website_def by (rule keys_update_bucket) simp

section \<open>The listing loop returns the whole listing\<close>

text \<open>On a well-formed store whose keys encode as UTF-8, the loop of
  \<open>objects.all()\<close> terminates, and it returns exactly the store's listing of the bucket
  in byte order, every object once: each page moves the marker past the objects it
  returned. A missing bucket is the error of the first request.\<close>

lemma objects_all_complete:
  assumes "store_wf st" and "store_keys_utf8 st"
  shows "objects_all name st = Some (s3_list_objects_bytes name st)"
proof (cases "s3_list_objects_bytes name st")
  case (Inl e)
  then show ?thesis by (simp add: objects_all_def paginate.simps list_page_def)
next
  case (Inr objs)
  then have "key_sorted ([] @ objs)" using list_objects_bytes_sorted [OF assms] by simp
  then show ?thesis
    using paginate_from [of 1000 name st "[]" objs] Inr by (simp add: objects_all_def)
qed

section \<open>The keys the script writes\<close>

text \<open>Whatever the permissions and the answers of the services, and wherever the
  script stops, every key it writes to the store is a \<open>str\<close> that encodes as UTF-8
  (the Cyrillic key of line 67 included): a store whose keys all encode keeps that
  property, and the store stays well formed: together these are what the listing loop
  needs to return the whole listing, so \<open>print_objects\<close> (one sorted query) prints
  what boto3's loop returns on every store a run can reach from a store that has them.\<close>

lemma task_main_store_wf:
  assumes "store_wf (s3_store s)"
  shows "store_wf (s3_store (snd (run_state (task_main env) s)))"
proof -
  have "store_inv store_wf (task_main env)"
    by (rule task_main_store_inv) (rule store_wf_create store_wf_put store_wf_website)+
  then show ?thesis using assms by (simp add: t_inv_def state_io_rel_def)
qed

lemma task_main_keys_utf8:
  assumes "store_keys_utf8 (s3_store s)"
  shows "store_keys_utf8 (s3_store (snd (run_state (task_main env) s)))"
proof -
  have keys: "\<forall>k \<in> set (photo_key # text_key # html_key # dir_keys). \<not> isl (utf8_encode k)"
    by (simp add: photo_key_def text_key_def html_key_def dir_keys_def utf8_char_def)
  have put: "\<And>n k ob. k \<in> set (photo_key # text_key # html_key # dir_keys)
      \<Longrightarrow> op_keeps store_keys_utf8 (s3_put_object n k ob)"
    using keys keys_put by blast
  have "store_inv store_keys_utf8 (task_main env)"
    by (rule task_main_store_inv [OF keys_create put keys_website])
  then show ?thesis using assms by (simp add: t_inv_def state_io_rel_def)
qed

end
