(* ===== verification/Calls.thy ===== *)
theory Calls
  imports Handler
begin

text \<open>
  The number of outbound calls one invocation of \<open>handler\<close> makes (HTTP requests and the
  object upload, the effects of theory \<open>Services\<close>). Every call is an effect, so the
  count is the length of the effect list. The bound is computed through the program by
  the rules \<open>calls_intros\<close>: a sequence costs the sum of its parts and a branch the larger
  of its two sides, on every path whatever the services answer. The voice branch is the
  longest pipeline: the file lookup, the download, recognition, the weather query,
  synthesis and the reply.
\<close>

text \<open>A world in which every service answers except speech synthesis, and a voice update
  delivered to it. Recognition hears \<open>x\<close>; the weather service answers 201, which
  \<open>get_weather_from_text\<close> treats as "not found".\<close>

definition sample_result :: pyval where
  "sample_result = PDict [(asc ''result'', PDict [(asc ''file_path'', PStr (asc ''p''))])]"

definition voice_update :: pyval where
  "voice_update = PDict [(asc ''message'', sample_message
     [(asc ''voice'', PDict [(asc ''duration'', PInt 10), (asc ''file_id'', PStr (asc ''f''))])])]"

definition tts_down_world :: world where
  "tts_down_world =
     \<lparr>http = (\<lambda>req. Some (case req of
         Http_Post u hs b \<Rightarrow>
           if u = asc ''https://tts.api.cloud.yandex.net/speech/v1/tts:synthesize''
           then sample_response 500 None
           else if u = asc ''https://stt.api.cloud.yandex.net/speech/v1/stt:recognize''
           then sample_response 200 (Some (PDict [(asc ''result'', PStr (asc ''x''))]))
           else sample_response 200 (Some sample_result)
       | Http_Get u ps \<Rightarrow> sample_response 201 (Some sample_result))),
      json_loads = (\<lambda>_. Some voice_update), s3_put_ok = (\<lambda>_ _ _. True), tz = tz_cloud\<rparr>"

definition voice_event :: pyval where
  "voice_event = PDict [(asc ''body'', PStr (asc ''{}''))]"

text \<open>The upload of line 210 (\<open>my_bucket.put_object\<close>).\<close>

definition is_upload :: "effect \<Rightarrow> bool" where
  "is_upload e = (case e of Put_Object b k body \<Rightarrow> True | Http req \<Rightarrow> False)"

section \<open>Counting rules\<close>

named_theorems calls_intros "rules that bound the number of effects of a program"

lemma calls_bind [calls_intros]:
  "wr_count P m \<le> a \<Longrightarrow> (\<And>x. wr_count P (f x) \<le> b) \<Longrightarrow> wr_count P (wr_bind m f) \<le> a + b"
proof (cases "snd m")
  case (Inr x)
  assume "wr_count P m \<le> a" and "\<And>x. wr_count P (f x) \<le> b"
  then show ?thesis using Inr by (simp add: wr_count_bind add_mono)
qed (simp add: wr_count_bind)

lemma calls_if [calls_intros]:
  "(c \<Longrightarrow> wr_count P m1 \<le> a) \<Longrightarrow> (\<not> c \<Longrightarrow> wr_count P m2 \<le> b) \<Longrightarrow>
   wr_count P (if c then m1 else m2) \<le> max a b"
  by (cases c) simp_all

lemma calls_leaves [calls_intros]:
  "wr_count P (wr_lift r) \<le> 0"
  "wr_count P (wr_return v) \<le> 0"
  "wr_count P ([], r) \<le> 0"
  "wr_count P (http_call w req) \<le> 1"
  "wr_count P (put_object w bk k body) \<le> 1"
  by (simp_all add: wr_count_def wr_lift_def wr_return_def http_call_def put_object_def)

section \<open>The calls of each part\<close>

text \<open>Each bound is found by the rules (the sum along the sequence and the larger side of
  each branch) and then checked by arithmetic.\<close>

lemma calls_services [calls_intros]:
  "wr_count P (get_weather_from_text w c) \<le> 1"
  "wr_count P (get_weather_from_location w l) \<le> 1"
  "wr_count P (get_file cfg w f) \<le> 1"
  "wr_count P (send_message cfg w t m) \<le> 1"
  "wr_count P (send_voice cfg w t m) \<le> 1"
  unfolding get_weather_from_text_def get_weather_from_location_def get_file_def
    send_message_def send_voice_def
  by (rule order_trans, (rule calls_intros)+, simp)+

lemma calls_answers [calls_intros]:
  "wr_count P (answer cfg w t m) \<le> 1"
  "wr_count P (answer_voice cfg w f m) \<le> 1"
  unfolding answer_def answer_voice_def by (rule order_trans, (rule calls_intros)+, simp)+

lemma calls_fetch_audio [calls_intros]: "wr_count P (fetch_audio cfg w v) \<le> 2"
  unfolding fetch_audio_def by (rule order_trans, (rule calls_intros)+, simp)

text \<open>After a successful synthesis the \<open>decode\<close> raises, so that path ends after one call.\<close>

lemma calls_reply_by_voice [calls_intros]: "wr_count P (reply_by_voice cfg w m r) \<le> 2"
  unfolding reply_by_voice_def str_decode_def wr_lift_Inl_bind
  by (rule order_trans, (rule calls_intros)+, simp)

lemma calls_branches [calls_intros]:
  "wr_count P (text_branch cfg w m) \<le> 2"
  "wr_count P (location_branch cfg w m) \<le> 2"
  "wr_count P (voice_branch cfg w m) \<le> 6"
  unfolding text_branch_def location_branch_def voice_branch_def
  by (rule order_trans, (rule calls_intros)+, simp)+

lemma calls_handler: "wr_count P (handler cfg w event) \<le> 6"
  unfolding handler_def handle_message_def by (rule order_trans, (rule calls_intros)+, simp)

section \<open>A run with six calls\<close>

text \<open>The voice update in \<open>tts_down_world\<close>, one part at a time: the file lookup and the
  download, the weather query, recognition, and the reply after the failed synthesis.\<close>

lemma voice_run_fetch:
  "fetch_audio sample_cfg tts_down_world (PDict [(asc ''duration'', PInt 10), (asc ''file_id'', PStr (asc ''f''))])
   = ([Http (Http_Post (TELEGRAM_API_URL sample_cfg @ asc ''/getFile'') [] (Json_Body (PDict [(asc ''file_id'', PStr (asc ''f''))]))),
       Http (Http_Get (file_url sample_cfg (PStr (asc ''p''))) [])], Inr [])"
  by (simp add: fetch_audio_def get_file_def http_call_def tts_down_world_def TELEGRAM_API_URL_def sample_cfg_def
      sample_response_def sample_result_def resp_json_def wr_lift_def wr_return_def)


lemma voice_run_weather:
  "get_weather_from_text tts_down_world (PStr (asc ''x'')) = ([Http (owm_query_request (PStr (asc ''x'')))], Inr PNone)"
  by (simp add: get_weather_from_text_def http_call_def tts_down_world_def owm_query_request_def
      sample_response_def owm_answer_def wr_lift_def)

lemma voice_run_stt:
  "http tts_down_world (stt_request sample_cfg a) = Some (sample_response 200 (Some (PDict [(asc ''result'', PStr (asc ''x''))])))"
  by (simp add: tts_down_world_def stt_request_def)

lemma voice_run_enc: "\<exists>e. utf8_encode (not_found_text (asc ''x'')) = Inr e"
  by (simp add: not_found_text_def msg_not_found_def utf8_char_def)


lemma voice_run_reply:
  assumes "utf8_encode r = Inr e"
  shows "length (fst (reply_by_voice sample_cfg tts_down_world
    (sample_message [(asc ''voice'', PDict [(asc ''duration'', PInt 10), (asc ''file_id'', PStr (asc ''f''))])]) r)) = 2"
  using assms by (simp add: reply_by_voice_def http_call_def tts_down_world_def tts_request_def
      sample_response_def resp_ok_def answer_voice_def send_voice_def wr_lift_def wr_return_def
      send_voice_request_def sample_message_def)

lemma voice_run_handler:
  "handler sample_cfg tts_down_world voice_event = handle_message sample_cfg tts_down_world
     (sample_message [(asc ''voice'', PDict [(asc ''duration'', PInt 10), (asc ''file_id'', PStr (asc ''f''))])])"
  by (simp add: handler_def voice_event_def loads_def tts_down_world_def voice_update_def sample_cfg_def)

lemma voice_run_calls:
  "length (fst (handle_message sample_cfg tts_down_world
     (sample_message [(asc ''voice'', PDict [(asc ''duration'', PInt 10), (asc ''file_id'', PStr (asc ''f''))])]))) = 6"
proof -
  obtain e where e: "utf8_encode (not_found_text (asc ''x'')) = Inr e" using voice_run_enc by blast
  show ?thesis
    by (simp add: handle_message_def sample_message_def voice_branch_def py_gt_int_def py_num_def
        voice_run_fetch [simplified] http_call_def voice_run_stt voice_run_weather [simplified] resp_ok_def
        resp_json_def sample_response_def voice_run_reply [OF e, unfolded sample_message_def, simplified] wr_lift_def)
qed

section \<open>No path uploads\<close>

text \<open>The uploads of each part, by the zero rules of \<open>count_intros\<close>: only
  \<open>reply_by_voice\<close> contains an upload, and it comes after the \<open>decode\<close> that raises.\<close>

lemma uploads_leaves [count_intros]:
  "wr_count is_upload (http_call w req) = 0"
  "wr_count P ([], r) = 0"
  by (simp_all add: wr_count_def http_call_def is_upload_def)

lemma uploads_services [count_intros]:
  "wr_count is_upload (get_weather_from_text w c) = 0"
  "wr_count is_upload (get_weather_from_location w l) = 0"
  "wr_count is_upload (get_file cfg w f) = 0"
  "wr_count is_upload (send_message cfg w t m) = 0"
  "wr_count is_upload (send_voice cfg w t m) = 0"
  unfolding get_weather_from_text_def get_weather_from_location_def get_file_def
    send_message_def send_voice_def
  by (intro count_intros)+

lemma uploads_parts [count_intros]:
  "wr_count is_upload (answer cfg w t m) = 0"
  "wr_count is_upload (answer_voice cfg w f m) = 0"
  "wr_count is_upload (fetch_audio cfg w v) = 0"
  unfolding answer_def answer_voice_def fetch_audio_def by (intro count_intros)+

lemma uploads_reply_by_voice [count_intros]: "wr_count is_upload (reply_by_voice cfg w m r) = 0"
  unfolding reply_by_voice_def str_decode_def wr_lift_Inl_bind by (intro count_intros)

lemma uploads_handler: "wr_count is_upload (handler cfg w event) = 0"
  unfolding handler_def handle_message_def text_branch_def voice_branch_def location_branch_def
  by (intro count_intros)

section \<open>The number of calls of an invocation\<close>

text \<open>C18: one invocation makes at most six outbound calls, and an update can make it
  make six: a voice message when synthesis fails costs the file lookup, the download,
  recognition, the weather query, synthesis and the voice reply. The specification
  allows 0 to 4.\<close>

theorem handler_calls_at_most_six:
  "length (fst (handler cfg w event)) \<le> 6
   \<and> length (fst (handler sample_cfg tts_down_world voice_event)) = 6"
proof
  show "length (fst (handler cfg w event)) \<le> 6"
    using calls_handler [of "\<lambda>_. True"] by (simp add: wr_count_def)
  show "length (fst (handler sample_cfg tts_down_world voice_event)) = 6"
    using voice_run_handler voice_run_calls by simp
qed

text \<open>C20: no invocation ever uploads to object storage, whatever the update and the
  services answer: the only upload (line 210) follows the \<open>decode\<close> of line 209, which
  raises on every successful synthesis, so the synthesised reply is never stored and
  \<open>speech.raw\<close> is never sent.\<close>

theorem handler_never_uploads: "filter is_upload (fst (handler cfg w event)) = []"
  using uploads_handler [of cfg w event] by (simp add: wr_count_def)

end
