(* ===== verification/Spec2Isabelle.thy ===== *)
theory Spec2Isabelle
  imports Delivery Listing Calls
begin

text \<open>
  \<^bold>\<open>A verification model of the Telegram weather bot (CloudLabItisTasks).\<close>

  \<^bold>\<open>The program.\<close> The repository has two scripts. \<^verbatim>\<open>src/tgbot_weather/spr23-21-tgbot-weather.py\<close>
  is a cloud function: its \<^verbatim>\<open>handler\<close> receives a Telegram webhook update, answers a
  text message with the weather of the named place, a voice message by recognising the
  place name and answering with synthesised speech, and a location with the weather
  there; it calls OpenWeatherMap, the Telegram Bot API, Yandex SpeechKit and Yandex
  Object Storage, and returns \<^verbatim>\<open>FUNC_RESPONSE\<close> (status 200) so that Telegram does not
  deliver the update again. \<^verbatim>\<open>src/task.py\<close> is a one-shot script that creates a bucket,
  uploads objects, prints their URLs and configures static-site hosting; the handler uses
  the same object store for its voice replies.

  \<^bold>\<open>How the model is built.\<close> Python values are modelled as they are at run time
  (theory \<open>PyValue\<close>): a \<open>str\<close> is a list of code points, JSON values are the
  datatype \<open>pyval\<close>, and each builtin the handler applies (subscription, \<open>in\<close>,
  \<open>> 30\<close>, \<open>int()\<close>, the \<open>str()\<close> of an f-string field) is a function that
  returns the value or the exception (\<open>exn\<close>) Python raises. Effectful code runs in
  the writer-exception monad of \<open>Prelude\<close>: a computation returns the list of effects it
  performed, in order, and either an exception or a value. Every \<open>requests\<close> call is an
  effect \<open>Http req\<close> and the boto3 upload is \<open>Put_Object\<close> (theory \<open>Services\<close>);
  their answers come from a \<open>world\<close> record of oracle functions, so every claim holds
  for every behaviour of the outside services. The module globals are the record
  \<open>config\<close>, built by \<open>module_init\<close> from the environment.

  \<^bold>\<open>Theories and what they model.\<close>
  \<^item> \<open>Prelude\<close>: strings as code points, the substring test, the writer-exception
    monad and its laws, \<open>wr_returns\<close> with its rules, truncating division.
  \<^item> \<open>PyValue\<close>: \<open>pyval\<close>, \<open>exn\<close>, \<open>py_get\<close>, \<open>py_index\<close>, \<open>py_path\<close>,
    \<open>py_in\<close>, \<open>py_gt_int\<close>, \<open>py_int\<close>, \<open>py_repr\<close> and \<open>py_str\<close>.
  \<^item> \<open>Compass\<close>: \<open>degToCompass\<close> (lines 26-29).
  \<^item> \<open>LocalTime\<close>: \<open>convertUnixToTime\<close> (lines 32-39) over the zones \<open>tz_env\<close>.
  \<^item> \<open>Unicode\<close>: \<open>str.encode('utf-8')\<close>.
  \<^item> \<open>Services\<close>: configuration (lines 11-24), the weather client (42-65), the Telegram
    client (67-99), the upload and the \<open>decode\<close> of line 209.
  \<^item> \<open>Handler\<close>: the reply texts, the two report formatters, the text, voice and
    location branches, the dispatch and \<open>handler\<close> (lines 102-239).
  \<^item> \<open>Delivery\<close>: one invocation by the runtime, \<open>invoke\<close>: the import
    (\<open>module_init\<close>), then \<open>handler\<close>.
  \<^item> \<open>Calls\<close>: the outbound calls of one invocation, bounded through the program by the
    rules \<open>calls_intros\<close> (a sequence costs the sum of its parts, a branch the larger
    side) and counted by kind with the zero rules of \<open>count_intros\<close>; a sample world
    (\<open>tts_down_world\<close>) in which only speech synthesis fails.
  \<^item> \<open>Quote\<close>: \<open>urllib.parse.quote\<close> over UTF-8, library code that src/task.py calls at
    lines 60 and 73, modelled so that the printed URLs are computed exactly.
  \<^item> \<open>Storage\<close>: the object store as the service documents it (buckets by name,
    objects by key, website configuration, public-read flag, sorted listings, permissions
    per profile) and the boto3 calls of src/task.py, in the state monad of
    \<open>HOL-Library.State_Monad\<close> over \<open>task_state\<close> (store, local files, printed lines)
    with \<open>task_exn + 'a\<close> results, so that the state left by an exception stays
    observable; \<open>t_inv\<close> and the \<open>inv_intros\<close> rules carry invariants through a script.
  \<^item> \<open>Task\<close>: src/task.py statement by statement (\<open>task_main\<close>, lines 15-115).
  \<^item> \<open>KeyOrder\<close> and \<open>Listing\<close>: support for \<open>print_objects\<close> of \<open>Task\<close>, which prints
    one listing sorted by code points where boto3's \<open>objects.all()\<close> (line 95) pages
    through ListObjects in UTF-8 byte order. \<open>KeyOrder\<close> shows that UTF-8 encoding
    preserves and reflects the order of code-point strings, so both orders agree on keys
    that encode; \<open>Listing\<close> models the paging loop (\<open>paginate\<close>, a
    \<open>partial_function (option)\<close>), shows that it returns the whole byte-ordered listing
    on a well-formed store with encodable keys (induction on the objects still to list,
    \<open>paginate_from\<close>), and that every run of the script keeps both hypotheses. These
    are library and service models, not code of the repository, and carry no claim.

  \<^bold>\<open>What the lemmas show.\<close> \<open>Handler\<close>: every normal return is \<open>FUNC_RESPONSE\<close>;
  the exact behaviour on a missing token, a missing message, a message with no payload (no
  warning, contrary to the comment at lines 130-134), a malformed body (an exception, so
  no acknowledgement), and on each branch; one invocation sends at most one reply; the
  exact content of a report and the KeyError on a missing \<open>visibility\<close>. \<open>Compass\<close>:
  the code uses only half of its label list and repeats every 90 degrees.
  \<open>LocalTime\<close>: the output format and its round trip, the time printed on the deployed
  zones, and the shift on a host not in UTC. \<open>Delivery\<close>: a missing \<open>API_KEY\<close> or
  \<open>API_KEY_VOICE\<close> fails every invocation before any call. \<open>Calls\<close>: an invocation makes
  at most six outbound calls, and a voice update whose synthesis fails makes six, against
  the 0 to 4 of the specification's section 5; and no invocation ever uploads, because the
  \<open>decode\<close> of line 209 raises before the upload of line 210. \<open>Task\<close>: the exact outcome
  of a first run (store contents and printed lines, for any prior store and any photo
  download), the failure of a second run and of a run without the \<open>uploader\<close> profile,
  and that no run, whatever the permissions, makes a bucket publicly readable.

  \<^bold>\<open>Bounds.\<close> A JSON number with a fraction is the decimal literal \<open>PFloat m e\<close>, the
  double nearest \<open>m / 10 ^ e\<close>. Its \<open>repr\<close> is modelled as the decimal itself, which
  is what Python prints for literals of at most 15 significant digits. \<open>degToCompass\<close>
  divides exactly, where line 27 divides doubles. For an integer \<open>d\<close> with
  \<open>0 \<le> d < 2 ^ 40\<close> the two agree: the exact \<open>d / 11.25 + 0.5 = (8d + 45) / 90\<close> has an
  odd numerator over an even denominator, so it is at least \<open>1/90\<close> from every integer,
  while the division and the addition in doubles err by less than \<open>2 ^ -15\<close> together;
  the period claim carries that bound. Beyond \<open>2 ^ 53\<close> the model departs from Python
  (\<open>10 ^ 16 + 7\<close> and \<open>10 ^ 16 + 97\<close> get different labels there), and integers of
  \<open>2 ^ 1024\<close> and more raise OverflowError in Python where the model returns a label;
  the weather service sends directions from 0 to 360. Directions with a fraction agree
  with the double computation when they have at most twelve decimals. The Moscow offset is
  a parameter; \<open>tz_cloud\<close> fixes it at UTC+3, right since October 2014. \<open>int()\<close> of a
  string accepts ASCII digits only. The listing loop uses boto3's default page of 1000
  objects; its termination needs only a positive page size, and no fuel.

  \<^bold>\<open>Not modelled.\<close> The weather, speech and Telegram services themselves (their
  answers are the oracle), Telegram's redelivery of unacknowledged updates, the encoding of
  requests on the wire, multipart uploads (the same net effect as one put), and the
  resource objects of src/task.py that make no call.
\<close>

end
